theory Spec2Isabelle
  imports Complex_Main "HOL-Library.Word"
begin

unbundle bit_operations_syntax

section \<open>Item types (osmium/osm/item_type.hpp)\<close>

text \<open>
  The enumeration \<open>osmium::item_type\<close> with its twelve enumerators, and the two
  conversions between an item type and its one-character code.
\<close>

datatype item_type =
    item_type_undefined
  | item_type_node
  | item_type_way
  | item_type_relation
  | item_type_area
  | item_type_changeset
  | item_type_tag_list
  | item_type_way_node_list
  | item_type_relation_member_list
  | item_type_relation_member_list_with_full_members
  | item_type_outer_ring
  | item_type_inner_ring

text \<open>The \<open>switch\<close> of \<open>char_to_item_type\<close>, case by case, with its \<open>default\<close> last.\<close>

definition char_to_item_type :: "char \<Rightarrow> item_type" where
  "char_to_item_type c =
     (if c = CHR ''X'' then item_type_undefined
      else if c = CHR ''n'' then item_type_node
      else if c = CHR ''w'' then item_type_way
      else if c = CHR ''r'' then item_type_relation
      else if c = CHR ''a'' then item_type_area
      else if c = CHR ''c'' then item_type_changeset
      else if c = CHR ''T'' then item_type_tag_list
      else if c = CHR ''N'' then item_type_way_node_list
      else if c = CHR ''M'' then item_type_relation_member_list
      else if c = CHR ''F'' then item_type_relation_member_list_with_full_members
      else if c = CHR ''O'' then item_type_outer_ring
      else if c = CHR ''I'' then item_type_inner_ring
      else item_type_undefined)"

fun item_type_to_char :: "item_type \<Rightarrow> char" where
  "item_type_to_char item_type_undefined = CHR ''X''"
| "item_type_to_char item_type_node = CHR ''n''"
| "item_type_to_char item_type_way = CHR ''w''"
| "item_type_to_char item_type_relation = CHR ''r''"
| "item_type_to_char item_type_area = CHR ''a''"
| "item_type_to_char item_type_changeset = CHR ''c''"
| "item_type_to_char item_type_tag_list = CHR ''T''"
| "item_type_to_char item_type_way_node_list = CHR ''N''"
| "item_type_to_char item_type_relation_member_list = CHR ''M''"
| "item_type_to_char item_type_relation_member_list_with_full_members = CHR ''F''"
| "item_type_to_char item_type_outer_ring = CHR ''O''"
| "item_type_to_char item_type_inner_ring = CHR ''I''"

text \<open>The twelve one-character codes that \<open>char_to_item_type\<close> recognises.\<close>

definition item_type_codes :: "char list" where
  "item_type_codes = ''XnwracTNMFOI''"

section \<open>Protocol buffer messages (protozero)\<close>

text \<open>
  Modelled from the spec: the protozero library (\<open>pbf_writer\<close>, \<open>pbf_builder\<close>,
  \<open>packed_field\<close>) is not among the sources. A message under construction is kept as the list
  of the builder calls made on it, in call order; \<open>serialized\<close> gives the bytes those
  calls append, in the protobuf wire encoding that section 6 of the spec requires
  (varints, zig-zag for the \<open>sint\<close> types, length-delimited strings, packed arrays and
  sub-messages).
\<close>

type_synonym byte = "8 word"

type_synonym pbf_tag_type = "32 word"

datatype pbf_field =
    add_int32 pbf_tag_type "32 word"
  | add_int64 pbf_tag_type "64 word"
  | add_uint32 pbf_tag_type "32 word"
  | add_sint64 pbf_tag_type "64 word"
  | add_bool pbf_tag_type bool
  | add_string pbf_tag_type string
  | add_bytes pbf_tag_type "byte list"
  | add_message pbf_tag_type "pbf_field list"
  | add_packed_int32 pbf_tag_type "32 word list"
  | add_packed_uint32 pbf_tag_type "32 word list"
  | add_packed_sint32 pbf_tag_type "32 word list"
  | add_packed_sint64 pbf_tag_type "64 word list"
  | add_packed_bool pbf_tag_type "bool list"
  | pbf_builder pbf_tag_type "pbf_field list"

text \<open>
  \<open>add_message tag fs\<close> stands for \<open>add_message(tag, data)\<close> with \<open>data\<close> the
  serialized fields \<open>fs\<close>; \<open>pbf_builder tag fs\<close> stands for a nested builder
  \<open>pbf_builder<T> sub{parent, tag}\<close> on which the calls \<open>fs\<close> were made.
\<close>

function write_varint :: "64 word \<Rightarrow> byte list" where
  "write_varint v =
     (if v \<ge> 0x80 then (ucast (v AND 0x7f) OR 0x80) # write_varint (drop_bit 7 v)
      else [ucast v])"
  by pat_completeness auto
termination
proof (relation "measure unat")
  show "wf (measure unat)" by simp
next
  fix v :: "64 word"
  assume "0x80 \<le> v"
  then have "unat v \<ge> 128" by (simp add: word_le_nat_alt)
  then have "unat v div 128 < unat v" by simp
  then show "(drop_bit 7 v, v) \<in> measure unat"
    by (simp add: unat_drop_bit_eq drop_bit_eq_div unat_div)
qed

declare write_varint.simps [simp del]

definition encode_zigzag64 :: "64 word \<Rightarrow> 64 word" where
  "encode_zigzag64 v = push_bit 1 v XOR (- drop_bit 63 v)"

definition encode_zigzag32 :: "32 word \<Rightarrow> 32 word" where
  "encode_zigzag32 v = push_bit 1 v XOR (- drop_bit 31 v)"

text \<open>Wire types: 0 for a varint, 2 for length-delimited data.\<close>

definition add_field :: "pbf_tag_type \<Rightarrow> 32 word \<Rightarrow> byte list" where
  "add_field tag wire_type = write_varint (ucast (push_bit 3 tag OR wire_type))"

definition add_length_delimited :: "pbf_tag_type \<Rightarrow> byte list \<Rightarrow> byte list" where
  "add_length_delimited tag data =
     add_field tag 2 @ write_varint (ucast (word_of_nat (length data) :: 32 word)) @ data"

text \<open>A packed field with no element and a nested builder with no content leave no bytes.\<close>

definition add_packed :: "pbf_tag_type \<Rightarrow> byte list list \<Rightarrow> byte list" where
  "add_packed tag elements =
     (if elements = [] then [] else add_length_delimited tag (concat elements))"

definition bytes_of :: "string \<Rightarrow> byte list" where
  "bytes_of s = map of_char s"

fun encode_field :: "pbf_field \<Rightarrow> byte list" where
  "encode_field (add_int32 tag v) = add_field tag 0 @ write_varint (scast v)"
| "encode_field (add_int64 tag v) = add_field tag 0 @ write_varint v"
| "encode_field (add_uint32 tag v) = add_field tag 0 @ write_varint (ucast v)"
| "encode_field (add_sint64 tag v) = add_field tag 0 @ write_varint (encode_zigzag64 v)"
| "encode_field (add_bool tag b) = add_field tag 0 @ [if b then 1 else 0]"
| "encode_field (add_string tag s) = add_length_delimited tag (bytes_of s)"
| "encode_field (add_bytes tag bs) = add_length_delimited tag bs"
| "encode_field (add_message tag fs) =
     add_length_delimited tag (concat (map encode_field fs))"
| "encode_field (add_packed_int32 tag vs) =
     add_packed tag (map (\<lambda>v. write_varint (scast v)) vs)"
| "encode_field (add_packed_uint32 tag vs) =
     add_packed tag (map (\<lambda>v. write_varint (ucast v)) vs)"
| "encode_field (add_packed_sint32 tag vs) =
     add_packed tag (map (\<lambda>v. write_varint (ucast (encode_zigzag32 v))) vs)"
| "encode_field (add_packed_sint64 tag vs) =
     add_packed tag (map (\<lambda>v. write_varint (encode_zigzag64 v)) vs)"
| "encode_field (add_packed_bool tag bs) =
     add_packed tag (map (\<lambda>b. [if b then 1 else 0]) bs)"
| "encode_field (pbf_builder tag fs) =
     (if concat (map encode_field fs) = [] then []
      else add_length_delimited tag (concat (map encode_field fs)))"

definition serialized :: "pbf_field list \<Rightarrow> byte list" where
  "serialized fs = concat (map encode_field fs)"

section \<open>Constants and options\<close>

text \<open>
  The header osmium/io/detail/pbf.hpp, which declares \<open>lonlat_resolution\<close> and
  \<open>max_uncompressed_blob_size\<close>, is not among the sources: the two constants are parameters of
  the model, collected in one record.
\<close>

record pbf_constants =
  lonlat_resolution :: int
  max_uncompressed_blob_size :: nat

definition max_entities_per_block :: int where
  "max_entities_per_block = 8000"

definition location_granularity :: int where
  "location_granularity = 100"

text \<open>
  A finite \<open>double\<close> is the real number it denotes. An operation on doubles gives the
  exact result rounded to the nearest double, a tie going to the double with the even
  significand (IEEE 754 binary64, round to nearest even): \<open>binary_exponent x\<close> is
  \<open>\<lfloor>log\<^sub>2 \<bar>x\<bar>\<rfloor>\<close>, and the doubles near \<open>x\<close> are the multiples of \<open>double_ulp x\<close>, with 53
  bits of significand down to the exponent of the subnormal numbers. A result beyond
  the largest double would be an infinity, which the model does not have.
\<close>

fun bit_length :: "nat \<Rightarrow> nat" where
  "bit_length n = (if n = 0 then 0 else Suc (bit_length (n div 2)))"

declare bit_length.simps [simp del]

definition binary_exponent :: "real \<Rightarrow> int" where
  "binary_exponent x =
     (if 1 \<le> \<bar>x\<bar> then int (bit_length (nat \<lfloor>\<bar>x\<bar>\<rfloor>)) - 1
      else - int (bit_length (nat (\<lceil>1 / \<bar>x\<bar>\<rceil> - 1))))"

definition round_half_even :: "real \<Rightarrow> int" where
  "round_half_even r =
     (let f = \<lfloor>r\<rfloor>
      in if r - real_of_int f < 1 / 2 then f
         else if 1 / 2 < r - real_of_int f then f + 1
         else if even f then f else f + 1)"

definition double_ulp :: "real \<Rightarrow> real" where
  "double_ulp x = 2 powi (max (binary_exponent x - 52) (- 1074))"

definition round_to_double :: "real \<Rightarrow> real" where
  "round_to_double x =
     (if x = 0 then 0 else real_of_int (round_half_even (x / double_ulp x)) * double_ulp x)"

definition double_mult :: "real \<Rightarrow> real \<Rightarrow> real" where
  "double_mult x y = round_to_double (x * y)"

definition double_divide :: "real \<Rightarrow> real \<Rightarrow> real" where
  "double_divide x y = round_to_double (x / y)"

definition double_of_int :: "int \<Rightarrow> real" where
  "double_of_int i = round_to_double (real_of_int i)"

text \<open>
  \<open>std::round\<close> rounds a double to the nearest integer, halfway cases away from zero.
  In \<open>lonlat2int\<close> the two integer constants are converted to \<open>double\<close>, the product
  and the quotient are double operations, and the rounded value is converted to
  \<open>int64_t\<close>.
\<close>

definition std_round :: "real \<Rightarrow> int" where
  "std_round x = (if 0 \<le> x then \<lfloor>x + 1 / 2\<rfloor> else \<lceil>x - 1 / 2\<rceil>)"

definition lonlat2int :: "pbf_constants \<Rightarrow> real \<Rightarrow> 64 word" where
  "lonlat2int K lonlat =
     word_of_int (std_round
       (double_divide (double_mult lonlat (double_of_int (lonlat_resolution K)))
          (double_of_int location_granularity)))"

datatype pbf_blob_type = pbf_blob_type_header | pbf_blob_type_data

datatype pbf_compression = pbf_compression_none | pbf_compression_zlib | pbf_compression_lz4

text \<open>
  Modelled from the spec: \<open>osmium::metadata_options\<close> (osmium/osm/metadata_options.hpp
  is not among the sources) is a subset of the five metadata attributes; \<open>any()\<close> holds when the
  subset is not empty.
\<close>

record metadata_options =
  md_version :: bool
  md_timestamp :: bool
  md_changeset :: bool
  md_uid :: bool
  md_user :: bool

definition metadata_any :: "metadata_options \<Rightarrow> bool" where
  "metadata_any m =
     (md_version m \<or> md_timestamp m \<or> md_changeset m \<or> md_uid m \<or> md_user m)"

record pbf_output_options =
  add_metadata :: metadata_options
  compression_level :: int
  use_compression :: pbf_compression
  use_dense_nodes :: bool
  add_historical_information_flag :: bool
  add_visible_flag :: bool
  locations_on_ways :: bool

section \<open>OSM objects\<close>

text \<open>
  The in-memory entity model is not among the sources; an object is the record of the values its
  accessors return. Ids are \<open>int64_t\<close>; versions, changesets and user ids are
  \<open>uint32_t\<close>. A timestamp is a count of seconds, kept in 64 bits so that the
  encoder's conversion \<open>uint32_t(timestamp)\<close> is visible. A location gives the two
  \<open>double\<close> values of \<open>lat_without_check()\<close> and \<open>lon_without_check()\<close>.
\<close>

record Location =
  lat_without_check :: real
  lon_without_check :: real

record OSMObject =
  object_id :: "64 word"
  object_version :: "32 word"
  object_timestamp :: "64 word"
  object_changeset :: "32 word"
  object_uid :: "32 word"
  object_user :: string
  object_visible :: bool
  object_tags :: "(string \<times> string) list"

record Node = OSMObject +
  node_location :: Location

record NodeRef =
  node_ref_ref :: "64 word"
  node_ref_location :: Location

record Way = OSMObject +
  way_nodes :: "NodeRef list"

section \<open>String table and delta encoder\<close>

text \<open>
  Modelled from the spec: \<open>StringTable\<close> (osmium/io/detail/string_table.hpp, not among the
  sources) is an insertion-ordered, deduplicating dictionary. Index 0 is reserved for the
  empty string; \<open>entries\<close> holds the strings that were added, the string at position
  \<open>i\<close> having index \<open>i + 1\<close>, so that every index \<open>add\<close> returns is at least 1.
  \<open>size\<close> counts the bytes of the table, each string with its terminating NUL, the
  reserved empty string included.
\<close>

record StringTable =
  entries :: "string list"

definition StringTable_new :: StringTable where
  "StringTable_new = \<lparr>entries = []\<rparr>"

fun index_of :: "string \<Rightarrow> string list \<Rightarrow> nat option" where
  "index_of s [] = None"
| "index_of s (x # xs) =
     (if x = s then Some 0
      else case index_of s xs of None \<Rightarrow> None | Some i \<Rightarrow> Some (Suc i))"

definition StringTable_add :: "StringTable \<Rightarrow> string \<Rightarrow> 32 word \<times> StringTable" where
  "StringTable_add st s =
     (case index_of s (entries st) of
        Some i \<Rightarrow> (word_of_nat (i + 1), st)
      | None \<Rightarrow> (word_of_nat (length (entries st) + 1), st\<lparr>entries := entries st @ [s]\<rparr>))"

definition StringTable_clear :: "StringTable \<Rightarrow> StringTable" where
  "StringTable_clear st = st\<lparr>entries := []\<rparr>"

definition StringTable_size :: "StringTable \<Rightarrow> nat" where
  "StringTable_size st = sum_list (map (\<lambda>s. length s + 1) ([] # entries st))"

text \<open>The strings of the table in index order, as \<open>write_stringtable\<close> iterates them.\<close>

definition StringTable_strings :: "StringTable \<Rightarrow> string list" where
  "StringTable_strings st = [] # entries st"

text \<open>The indices that refer to the added strings of a table.\<close>

definition StringTable_indices :: "StringTable \<Rightarrow> 32 word list" where
  "StringTable_indices st = map (\<lambda>i. word_of_nat (i + 1)) [0..<length (entries st)]"

text \<open>
  Modelled from the spec: \<open>DeltaEncode<TValue, TDelta>\<close> (osmium/util/delta.hpp is not
  among the sources) holds the previous value, zero at first; \<open>update(x)\<close> returns \<open>x\<close> minus
  the previous value, both converted to the delta type, and stores \<open>x\<close>. The encoder
  is represented by its stored value; \<open>DeltaEncode_update\<close> returns the delta and the
  new stored value.
\<close>

definition DeltaEncode_update :: "('v \<Rightarrow> 'd::minus) \<Rightarrow> 'v \<Rightarrow> 'v \<Rightarrow> 'd \<times> 'v" where
  "DeltaEncode_update to_delta m_value new_value =
     (to_delta new_value - to_delta m_value, new_value)"

text \<open>
  Two settings of the constants. \<open>constants_listed\<close> takes both values as section 6
  of the spec lists them (\<open>LONLAT_RESOLUTION\<close> \<open>10\<^sup>7\<close>,
  \<open>MAX_UNCOMPRESSED_BLOB_SIZE\<close> 16 MiB). \<open>constants_nano\<close> takes
  \<open>lonlat_resolution\<close> as the number of nanodegrees in a degree, \<open>10\<^sup>9\<close>, the
  unit in which the granularity of 100 is expressed.
\<close>

definition constants_listed :: pbf_constants where
  "constants_listed =
     \<lparr>lonlat_resolution = 10000000, max_uncompressed_blob_size = 16 * 1024 * 1024\<rparr>"

definition constants_nano :: pbf_constants where
  "constants_nano =
     \<lparr>lonlat_resolution = 1000000000, max_uncompressed_blob_size = 16 * 1024 * 1024\<rparr>"

section \<open>Field numbers\<close>

text \<open>
  Modelled from the spec: the field numbers of osmium/io/detail/protobuf_tags.hpp (not
  available) are those of the OSM PBF schema OsmSchema-V0.6 that section 6 of the spec
  names. No property below depends on a particular number.
\<close>

datatype PrimitiveGroup =
    PrimitiveGroup_unknown
  | PrimitiveGroup_repeated_Node_nodes
  | PrimitiveGroup_optional_DenseNodes_dense
  | PrimitiveGroup_repeated_Way_ways
  | PrimitiveGroup_repeated_Relation_relations
  | PrimitiveGroup_repeated_ChangeSet_changesets

fun PrimitiveGroup_tag :: "PrimitiveGroup \<Rightarrow> pbf_tag_type" where
  "PrimitiveGroup_tag PrimitiveGroup_unknown = 0"
| "PrimitiveGroup_tag PrimitiveGroup_repeated_Node_nodes = 1"
| "PrimitiveGroup_tag PrimitiveGroup_optional_DenseNodes_dense = 2"
| "PrimitiveGroup_tag PrimitiveGroup_repeated_Way_ways = 3"
| "PrimitiveGroup_tag PrimitiveGroup_repeated_Relation_relations = 4"
| "PrimitiveGroup_tag PrimitiveGroup_repeated_ChangeSet_changesets = 5"

definition Blob_optional_bytes_raw :: pbf_tag_type where "Blob_optional_bytes_raw = 1"
definition Blob_optional_int32_raw_size :: pbf_tag_type where "Blob_optional_int32_raw_size = 2"
definition Blob_optional_bytes_zlib_data :: pbf_tag_type where "Blob_optional_bytes_zlib_data = 3"
definition Blob_optional_bytes_lz4_data :: pbf_tag_type where "Blob_optional_bytes_lz4_data = 6"

definition BlobHeader_required_string_type :: pbf_tag_type where "BlobHeader_required_string_type = 1"
definition BlobHeader_required_int32_datasize :: pbf_tag_type where "BlobHeader_required_int32_datasize = 3"

definition HeaderBlock_optional_HeaderBBox_bbox :: pbf_tag_type where
  "HeaderBlock_optional_HeaderBBox_bbox = 1"
definition HeaderBlock_repeated_string_required_features :: pbf_tag_type where
  "HeaderBlock_repeated_string_required_features = 4"
definition HeaderBlock_repeated_string_optional_features :: pbf_tag_type where
  "HeaderBlock_repeated_string_optional_features = 5"
definition HeaderBlock_optional_string_writingprogram :: pbf_tag_type where
  "HeaderBlock_optional_string_writingprogram = 16"
definition HeaderBlock_optional_int64_osmosis_replication_timestamp :: pbf_tag_type where
  "HeaderBlock_optional_int64_osmosis_replication_timestamp = 32"
definition HeaderBlock_optional_int64_osmosis_replication_sequence_number :: pbf_tag_type where
  "HeaderBlock_optional_int64_osmosis_replication_sequence_number = 33"
definition HeaderBlock_optional_string_osmosis_replication_base_url :: pbf_tag_type where
  "HeaderBlock_optional_string_osmosis_replication_base_url = 34"

definition HeaderBBox_required_sint64_left :: pbf_tag_type where "HeaderBBox_required_sint64_left = 1"
definition HeaderBBox_required_sint64_right :: pbf_tag_type where "HeaderBBox_required_sint64_right = 2"
definition HeaderBBox_required_sint64_top :: pbf_tag_type where "HeaderBBox_required_sint64_top = 3"
definition HeaderBBox_required_sint64_bottom :: pbf_tag_type where "HeaderBBox_required_sint64_bottom = 4"

definition PrimitiveBlock_required_StringTable_stringtable :: pbf_tag_type where
  "PrimitiveBlock_required_StringTable_stringtable = 1"
definition PrimitiveBlock_repeated_PrimitiveGroup_primitivegroup :: pbf_tag_type where
  "PrimitiveBlock_repeated_PrimitiveGroup_primitivegroup = 2"

definition StringTable_repeated_bytes_s :: pbf_tag_type where "StringTable_repeated_bytes_s = 1"

definition Info_optional_int32_version :: pbf_tag_type where "Info_optional_int32_version = 1"
definition Info_optional_int64_timestamp :: pbf_tag_type where "Info_optional_int64_timestamp = 2"
definition Info_optional_int64_changeset :: pbf_tag_type where "Info_optional_int64_changeset = 3"
definition Info_optional_int32_uid :: pbf_tag_type where "Info_optional_int32_uid = 4"
definition Info_optional_uint32_user_sid :: pbf_tag_type where "Info_optional_uint32_user_sid = 5"
definition Info_optional_bool_visible :: pbf_tag_type where "Info_optional_bool_visible = 6"

definition DenseInfo_packed_int32_version :: pbf_tag_type where "DenseInfo_packed_int32_version = 1"
definition DenseInfo_packed_sint64_timestamp :: pbf_tag_type where "DenseInfo_packed_sint64_timestamp = 2"
definition DenseInfo_packed_sint64_changeset :: pbf_tag_type where "DenseInfo_packed_sint64_changeset = 3"
definition DenseInfo_packed_sint32_uid :: pbf_tag_type where "DenseInfo_packed_sint32_uid = 4"
definition DenseInfo_packed_sint32_user_sid :: pbf_tag_type where "DenseInfo_packed_sint32_user_sid = 5"
definition DenseInfo_packed_bool_visible :: pbf_tag_type where "DenseInfo_packed_bool_visible = 6"

definition Node_required_sint64_id :: pbf_tag_type where "Node_required_sint64_id = 1"
definition Node_packed_uint32_keys :: pbf_tag_type where "Node_packed_uint32_keys = 2"
definition Node_packed_uint32_vals :: pbf_tag_type where "Node_packed_uint32_vals = 3"
definition Node_optional_Info_info :: pbf_tag_type where "Node_optional_Info_info = 4"
definition Node_required_sint64_lat :: pbf_tag_type where "Node_required_sint64_lat = 8"
definition Node_required_sint64_lon :: pbf_tag_type where "Node_required_sint64_lon = 9"

definition DenseNodes_packed_sint64_id :: pbf_tag_type where "DenseNodes_packed_sint64_id = 1"
definition DenseNodes_optional_DenseInfo_denseinfo :: pbf_tag_type where
  "DenseNodes_optional_DenseInfo_denseinfo = 5"
definition DenseNodes_packed_sint64_lat :: pbf_tag_type where "DenseNodes_packed_sint64_lat = 8"
definition DenseNodes_packed_sint64_lon :: pbf_tag_type where "DenseNodes_packed_sint64_lon = 9"
definition DenseNodes_packed_int32_keys_vals :: pbf_tag_type where
  "DenseNodes_packed_int32_keys_vals = 10"

definition Way_required_int64_id :: pbf_tag_type where "Way_required_int64_id = 1"
definition Way_packed_uint32_keys :: pbf_tag_type where "Way_packed_uint32_keys = 2"
definition Way_packed_uint32_vals :: pbf_tag_type where "Way_packed_uint32_vals = 3"
definition Way_optional_Info_info :: pbf_tag_type where "Way_optional_Info_info = 4"
definition Way_packed_sint64_refs :: pbf_tag_type where "Way_packed_sint64_refs = 8"
definition Way_packed_sint64_lat :: pbf_tag_type where "Way_packed_sint64_lat = 9"
definition Way_packed_sint64_lon :: pbf_tag_type where "Way_packed_sint64_lon = 10"

text \<open>The three field numbers \<open>add_meta\<close> takes from its template argument.\<close>

record meta_tags =
  packed_uint32_keys :: pbf_tag_type
  packed_uint32_vals :: pbf_tag_type
  optional_Info_info :: pbf_tag_type

definition Node_enum_type :: meta_tags where
  "Node_enum_type = \<lparr>packed_uint32_keys = Node_packed_uint32_keys,
                      packed_uint32_vals = Node_packed_uint32_vals,
                      optional_Info_info = Node_optional_Info_info\<rparr>"

definition Way_enum_type :: meta_tags where
  "Way_enum_type = \<lparr>packed_uint32_keys = Way_packed_uint32_keys,
                     packed_uint32_vals = Way_packed_uint32_vals,
                     optional_Info_info = Way_optional_Info_info\<rparr>"

section \<open>Errors\<close>

text \<open>
  An \<open>assert\<close> that fails and every exception thrown end the call with an error value.
\<close>

datatype error =
    assertion_failure
  | invalid_argument string
  | pbf_error string
  | io_error string

section \<open>DenseNodes\<close>

record DenseNodes =
  m_ids :: "64 word list"
  m_versions :: "32 word list"
  m_timestamps :: "64 word list"
  m_changesets :: "64 word list"
  m_uids :: "32 word list"
  m_user_sids :: "32 word list"
  m_visibles :: "bool list"
  m_lats :: "64 word list"
  m_lons :: "64 word list"
  m_tags :: "32 word list"
  m_delta_id :: "64 word"
  m_delta_timestamp :: "32 word"
  m_delta_changeset :: "32 word"
  m_delta_uid :: "32 word"
  m_delta_user_sid :: "32 word"
  m_delta_lat :: "64 word"
  m_delta_lon :: "64 word"

text \<open>
  The constructor: empty columns and delta encoders at zero. The two pointers
  \<open>m_stringtable\<close> and \<open>m_options\<close> point into the enclosing block; the string table
  is passed to \<open>add_node\<close> and returned by it, the options are passed to each call.
\<close>

definition DenseNodes_new :: DenseNodes where
  "DenseNodes_new =
     \<lparr>m_ids = [], m_versions = [], m_timestamps = [], m_changesets = [], m_uids = [],
      m_user_sids = [], m_visibles = [], m_lats = [], m_lons = [], m_tags = [],
      m_delta_id = 0, m_delta_timestamp = 0, m_delta_changeset = 0, m_delta_uid = 0,
      m_delta_user_sid = 0, m_delta_lat = 0, m_delta_lon = 0\<rparr>"

definition DenseNodes_size :: "DenseNodes \<Rightarrow> nat" where
  "DenseNodes_size dn = length (m_ids dn) * 3 * 8"

text \<open>The loop over the tags of a node: key index, then value index, for each tag.\<close>

fun add_tags :: "StringTable \<Rightarrow> 32 word list \<Rightarrow> (string \<times> string) list
                  \<Rightarrow> StringTable \<times> 32 word list" where
  "add_tags st ts [] = (st, ts)"
| "add_tags st ts ((k, v) # rest) =
     (let (ki, st) = StringTable_add st k;
          ts = ts @ [ki];
          (vi, st) = StringTable_add st v;
          ts = ts @ [vi]
      in add_tags st ts rest)"

definition INT32_MAX :: nat where
  "INT32_MAX = 2147483647"

text \<open>
  The statements of \<open>add_node\<close>, one definition for each column that a node is
  pushed to; \<open>add_node_statements\<close> runs them in the order of the source. The
  assertion on the version is the only way the call can fail and nothing of the state
  is left to observe when it does, so \<open>add_node\<close> tests it first.
\<close>

definition push_id :: "DenseNodes \<Rightarrow> Node \<Rightarrow> DenseNodes" where
  "push_id dn node =
     (let (d, v) = DeltaEncode_update id (m_delta_id dn) (object_id node)
      in dn\<lparr>m_ids := m_ids dn @ [d], m_delta_id := v\<rparr>)"

definition push_version :: "DenseNodes \<Rightarrow> Node \<Rightarrow> DenseNodes" where
  "push_version dn node = dn\<lparr>m_versions := m_versions dn @ [object_version node]\<rparr>"

definition push_timestamp :: "DenseNodes \<Rightarrow> Node \<Rightarrow> DenseNodes" where
  "push_timestamp dn node =
     (let (d, v) = DeltaEncode_update ucast (m_delta_timestamp dn)
                     (ucast (object_timestamp node) :: 32 word)
      in dn\<lparr>m_timestamps := m_timestamps dn @ [d], m_delta_timestamp := v\<rparr>)"

definition push_changeset :: "DenseNodes \<Rightarrow> Node \<Rightarrow> DenseNodes" where
  "push_changeset dn node =
     (let (d, v) = DeltaEncode_update ucast (m_delta_changeset dn) (object_changeset node)
      in dn\<lparr>m_changesets := m_changesets dn @ [d], m_delta_changeset := v\<rparr>)"

definition push_uid :: "DenseNodes \<Rightarrow> Node \<Rightarrow> DenseNodes" where
  "push_uid dn node =
     (let (d, v) = DeltaEncode_update id (m_delta_uid dn) (object_uid node)
      in dn\<lparr>m_uids := m_uids dn @ [d], m_delta_uid := v\<rparr>)"

definition push_user :: "StringTable \<Rightarrow> DenseNodes \<Rightarrow> Node \<Rightarrow> StringTable \<times> DenseNodes" where
  "push_user st dn node =
     (let (i, st) = StringTable_add st (object_user node);
          (d, v) = DeltaEncode_update id (m_delta_user_sid dn) i
      in (st, dn\<lparr>m_user_sids := m_user_sids dn @ [d], m_delta_user_sid := v\<rparr>))"

definition push_visible :: "DenseNodes \<Rightarrow> Node \<Rightarrow> DenseNodes" where
  "push_visible dn node = dn\<lparr>m_visibles := m_visibles dn @ [object_visible node]\<rparr>"

definition push_lat :: "pbf_constants \<Rightarrow> DenseNodes \<Rightarrow> Node \<Rightarrow> DenseNodes" where
  "push_lat K dn node =
     (let (d, v) = DeltaEncode_update id (m_delta_lat dn)
                     (lonlat2int K (lat_without_check (node_location node)))
      in dn\<lparr>m_lats := m_lats dn @ [d], m_delta_lat := v\<rparr>)"

definition push_lon :: "pbf_constants \<Rightarrow> DenseNodes \<Rightarrow> Node \<Rightarrow> DenseNodes" where
  "push_lon K dn node =
     (let (d, v) = DeltaEncode_update id (m_delta_lon dn)
                     (lonlat2int K (lon_without_check (node_location node)))
      in dn\<lparr>m_lons := m_lons dn @ [d], m_delta_lon := v\<rparr>)"

definition push_tags :: "StringTable \<Rightarrow> DenseNodes \<Rightarrow> Node \<Rightarrow> StringTable \<times> DenseNodes" where
  "push_tags st dn node =
     (let (st, ts) = add_tags st (m_tags dn) (object_tags node)
      in (st, dn\<lparr>m_tags := ts @ [0]\<rparr>))"

definition add_node_statements ::
  "pbf_constants \<Rightarrow> pbf_output_options \<Rightarrow> StringTable \<Rightarrow> DenseNodes \<Rightarrow> Node
     \<Rightarrow> StringTable \<times> DenseNodes" where
  "add_node_statements K opts st dn node =
     (let dn = push_id dn node;
          dn = (if md_version (add_metadata opts) then push_version dn node else dn);
          dn = (if md_timestamp (add_metadata opts) then push_timestamp dn node else dn);
          dn = (if md_changeset (add_metadata opts) then push_changeset dn node else dn);
          dn = (if md_uid (add_metadata opts) then push_uid dn node else dn);
          s = (if md_user (add_metadata opts) then push_user st dn node else (st, dn));
          dn = (if add_visible_flag opts then push_visible (snd s) node else snd s);
          dn = push_lat K dn node;
          dn = push_lon K dn node
      in push_tags (fst s) dn node)"

definition DenseNodes_add_node ::
  "pbf_constants \<Rightarrow> pbf_output_options \<Rightarrow> StringTable \<Rightarrow> DenseNodes \<Rightarrow> Node
     \<Rightarrow> error + StringTable \<times> DenseNodes" where
  "DenseNodes_add_node K opts st dn node =
     (if md_version (add_metadata opts) \<and> \<not> unat (object_version node) \<le> INT32_MAX
      then Inl assertion_failure
      else Inr (add_node_statements K opts st dn node))"

text \<open>A sequence of \<open>add_node\<close> calls on one buffer; the first failure ends it.\<close>

fun DenseNodes_add_nodes ::
  "pbf_constants \<Rightarrow> pbf_output_options \<Rightarrow> StringTable \<Rightarrow> DenseNodes \<Rightarrow> Node list
     \<Rightarrow> error + StringTable \<times> DenseNodes" where
  "DenseNodes_add_nodes K opts st dn [] = Inr (st, dn)"
| "DenseNodes_add_nodes K opts st dn (node # nodes) =
     (case DenseNodes_add_node K opts st dn node of
        Inl e \<Rightarrow> Inl e
      | Inr (st, dn) \<Rightarrow> DenseNodes_add_nodes K opts st dn nodes)"

text \<open>
  \<open>serialize\<close>: \<open>data\<close> is the DenseNodes message and \<open>info\<close> the DenseInfo
  message, each growing by one builder call per statement.
\<close>

definition DenseNodes_serialize :: "pbf_output_options \<Rightarrow> DenseNodes \<Rightarrow> pbf_field list" where
  "DenseNodes_serialize opts dn =
     (let data = [];
          data = data @ [add_packed_sint64 DenseNodes_packed_sint64_id (m_ids dn)];
          data =
            (if metadata_any (add_metadata opts) \<or> add_visible_flag opts
             then
               (let info = [];
                    info = (if md_version (add_metadata opts)
                            then info @ [add_packed_int32 DenseInfo_packed_int32_version
                                           (m_versions dn)]
                            else info);
                    info = (if md_timestamp (add_metadata opts)
                            then info @ [add_packed_sint64 DenseInfo_packed_sint64_timestamp
                                           (m_timestamps dn)]
                            else info);
                    info = (if md_changeset (add_metadata opts)
                            then info @ [add_packed_sint64 DenseInfo_packed_sint64_changeset
                                           (m_changesets dn)]
                            else info);
                    info = (if md_uid (add_metadata opts)
                            then info @ [add_packed_sint32 DenseInfo_packed_sint32_uid
                                           (m_uids dn)]
                            else info);
                    info = (if md_user (add_metadata opts)
                            then info @ [add_packed_sint32 DenseInfo_packed_sint32_user_sid
                                           (m_user_sids dn)]
                            else info);
                    info = (if add_visible_flag opts
                            then info @ [add_packed_bool DenseInfo_packed_bool_visible
                                           (m_visibles dn)]
                            else info)
                in data @ [pbf_builder DenseNodes_optional_DenseInfo_denseinfo info])
             else data);
          data = data @ [add_packed_sint64 DenseNodes_packed_sint64_lat (m_lats dn)];
          data = data @ [add_packed_sint64 DenseNodes_packed_sint64_lon (m_lons dn)];
          data = data @ [add_packed_int32 DenseNodes_packed_int32_keys_vals (m_tags dn)]
      in data)"

section \<open>PrimitiveBlock\<close>

text \<open>
  The group buffer \<open>m_pbf_primitive_group_data\<close> is kept as the builder calls made
  through \<open>m_pbf_primitive_group\<close>; its byte size is the length of their serialization.
\<close>

record PrimitiveBlock =
  m_pbf_primitive_group_data :: "pbf_field list"
  m_stringtable :: StringTable
  m_dense_nodes :: "DenseNodes option"
  m_type :: PrimitiveGroup
  m_count :: int

definition PrimitiveBlock_new :: PrimitiveBlock where
  "PrimitiveBlock_new =
     \<lparr>m_pbf_primitive_group_data = [], m_stringtable = StringTable_new,
      m_dense_nodes = None, m_type = PrimitiveGroup_unknown, m_count = 0\<rparr>"

definition group_data :: "pbf_output_options \<Rightarrow> PrimitiveBlock \<Rightarrow> error + PrimitiveBlock" where
  "group_data opts b =
     (if m_type b = PrimitiveGroup_optional_DenseNodes_dense
      then (case m_dense_nodes b of
              None \<Rightarrow> Inl assertion_failure
            | Some dn \<Rightarrow>
                Inr (b\<lparr>m_pbf_primitive_group_data := m_pbf_primitive_group_data b @
                         [add_message (PrimitiveGroup_tag PrimitiveGroup_optional_DenseNodes_dense)
                            (DenseNodes_serialize opts dn)]\<rparr>))
      else Inr b)"

definition reset :: "PrimitiveBlock \<Rightarrow> PrimitiveGroup \<Rightarrow> PrimitiveBlock" where
  "reset b type =
     b\<lparr>m_pbf_primitive_group_data := [],
       m_stringtable := StringTable_clear (m_stringtable b),
       m_dense_nodes := None,
       m_type := type,
       m_count := 0\<rparr>"

definition write_stringtable :: "PrimitiveBlock \<Rightarrow> pbf_field list" where
  "write_stringtable b =
     map (\<lambda>s. add_bytes StringTable_repeated_bytes_s (bytes_of s))
       (StringTable_strings (m_stringtable b))"

definition add_dense_node ::
  "pbf_constants \<Rightarrow> pbf_output_options \<Rightarrow> PrimitiveBlock \<Rightarrow> Node \<Rightarrow> error + PrimitiveBlock" where
  "add_dense_node K opts b node =
     (let dn = (case m_dense_nodes b of None \<Rightarrow> DenseNodes_new | Some dn \<Rightarrow> dn)
      in case DenseNodes_add_node K opts (m_stringtable b) dn node of
           Inl e \<Rightarrow> Inl e
         | Inr (st, dn) \<Rightarrow>
             Inr (b\<lparr>m_stringtable := st, m_dense_nodes := Some dn, m_count := m_count b + 1\<rparr>))"

definition PrimitiveBlock_size :: "PrimitiveBlock \<Rightarrow> nat" where
  "PrimitiveBlock_size b =
     length (serialized (m_pbf_primitive_group_data b)) +
     StringTable_size (m_stringtable b) +
     (case m_dense_nodes b of Some dn \<Rightarrow> DenseNodes_size dn | None \<Rightarrow> 0)"

text \<open>
  The enumerator \<open>max_used_blob_size\<close>: the product and the quotient are computed in
  \<open>unsigned int\<close>, 32 bits wide.
\<close>

definition max_used_blob_size :: "pbf_constants \<Rightarrow> nat" where
  "max_used_blob_size K = (max_uncompressed_blob_size K * 95 mod 2 ^ 32) div 100"

definition can_add :: "pbf_constants \<Rightarrow> PrimitiveBlock \<Rightarrow> PrimitiveGroup \<Rightarrow> bool" where
  "can_add K b type =
     (if type \<noteq> m_type b then False
      else if m_count b \<ge> max_entities_per_block then False
      else PrimitiveBlock_size b < max_used_blob_size K)"

section \<open>Collaborators\<close>

text \<open>
  The compression functions, the parsers and the conditional-compilation flag
  \<open>OSMIUM_WITH_LZ4\<close> come from headers that are not among the sources; they are
  parameters of the model. A compression function and a parser may throw, so each
  returns an error or a value. \<open>zlib_level_in_range\<close> and \<open>lz4_level_in_range\<close> say
  which compression levels each codec accepts.
\<close>

record osmium_env =
  OSMIUM_WITH_LZ4 :: bool
  zlib_compress :: "byte list \<Rightarrow> int \<Rightarrow> error + byte list"
  lz4_compress :: "byte list \<Rightarrow> int \<Rightarrow> error + byte list"
  zlib_default_compression_level :: int
  lz4_default_compression_level :: int
  zlib_level_in_range :: "int \<Rightarrow> bool"
  lz4_level_in_range :: "int \<Rightarrow> bool"
  parse_metadata_options :: "string \<Rightarrow> error + metadata_options"
  parse_Timestamp :: "string \<Rightarrow> error + 64 word"
  str_to_int :: "string \<Rightarrow> 64 word"

text \<open>
  Modelled from the spec: \<open>zlib_check_compression_level\<close> and
  \<open>lz4_check_compression_level\<close> (osmium/io/detail/zlib.hpp and lz4.hpp are not among
  the sources) raise a configuration error for a level out of range for the codec.
\<close>

definition zlib_check_compression_level :: "osmium_env \<Rightarrow> int \<Rightarrow> error option" where
  "zlib_check_compression_level env v =
     (if zlib_level_in_range env v then None
      else Some (invalid_argument ''The pbf_compression_level for zlib compression is out of range.''))"

definition lz4_check_compression_level :: "osmium_env \<Rightarrow> int \<Rightarrow> error option" where
  "lz4_check_compression_level env v =
     (if lz4_level_in_range env v then None
      else Some (invalid_argument ''The pbf_compression_level for lz4 compression is out of range.''))"

text \<open>
  Modelled from the spec: \<open>get_compression_type\<close> (osmium/io/detail/pbf.hpp is not
  among the sources) maps the value of the \<open>pbf_compression\<close> option, one of
  \<open>none\<close>, \<open>zlib\<close> (the default) and \<open>lz4\<close>, to the compression; \<open>lz4\<close> in a build
  without lz4 support and any other value are configuration errors.
\<close>

definition get_compression_type :: "osmium_env \<Rightarrow> string \<Rightarrow> error + pbf_compression" where
  "get_compression_type env val =
     (if val = [] \<or> val = ''zlib'' then Inr pbf_compression_zlib
      else if val = ''none'' then Inr pbf_compression_none
      else if val = ''lz4'' then
        (if OSMIUM_WITH_LZ4 env then Inr pbf_compression_lz4
         else Inl (invalid_argument ''Support for LZ4 compression not compiled in''))
      else Inl (invalid_argument ''Unknown value for pbf_compression option.''))"

text \<open>
  Modelled from the spec: \<open>osmium::io::File\<close> (osmium/io/file.hpp is not among the
  sources) is a string-keyed map of options, \<open>get\<close> giving the empty string for a key
  that is not set, together with the flag that the input carries several versions of
  an object. \<open>is_true\<close> and \<open>is_not_false\<close> read a truthy or falsy option, the
  latter with default true.
\<close>

record File =
  file_options :: "string \<Rightarrow> string option"
  has_multiple_object_versions :: bool

definition File_get :: "File \<Rightarrow> string \<Rightarrow> string" where
  "File_get file key = (case file_options file key of None \<Rightarrow> [] | Some v \<Rightarrow> v)"

definition is_true :: "File \<Rightarrow> string \<Rightarrow> bool" where
  "is_true file key = (File_get file key = ''true'' \<or> File_get file key = ''yes'')"

definition is_not_false :: "File \<Rightarrow> string \<Rightarrow> bool" where
  "is_not_false file key = (\<not> (File_get file key = ''false'' \<or> File_get file key = ''no''))"

text \<open>
  \<open>c_str()\<close> gives the characters of a \<open>std::string\<close> as a C string, which ends at
  the first NUL character. \<open>std::strtol(s, &end, 10)\<close> of the C library reads such a
  string: white space is skipped, then an optional sign and a run of decimal digits
  are read; the result is the value, clamped to the range of \<open>long\<close> (64 bits), and
  the text that was not read, which is empty when \<open>*end\<close> is the terminating NUL.
  Without a digit nothing is read: the value is 0 and the whole text is left.
\<close>

definition c_str :: "string \<Rightarrow> string" where
  "c_str s = takeWhile (\<lambda>c. c \<noteq> CHR 0x00) s"

definition isspace :: "char \<Rightarrow> bool" where
  "isspace c = (c \<in> set [CHR '' '', CHR 0x09, CHR 0x0A, CHR 0x0B, CHR 0x0C, CHR 0x0D])"

definition isdigit :: "char \<Rightarrow> bool" where
  "isdigit c = (c \<in> set ''0123456789'')"

definition digits_value :: "string \<Rightarrow> int" where
  "digits_value ds = foldl (\<lambda>n c. 10 * n + (of_char c - 48)) 0 ds"

definition strtol :: "string \<Rightarrow> int \<times> string" where
  "strtol s =
     (let s1 = dropWhile isspace s;
          negative = (s1 \<noteq> [] \<and> hd s1 = CHR ''-'');
          s2 = (if s1 \<noteq> [] \<and> (hd s1 = CHR ''-'' \<or> hd s1 = CHR ''+'') then tl s1 else s1);
          ds = takeWhile isdigit s2;
          v = (if negative then - digits_value ds else digits_value ds)
      in if ds = [] then (0, s)
         else (max (- (2 ^ 63)) (min (2 ^ 63 - 1) v), dropWhile isdigit s2))"

section \<open>SerializeBlob\<close>

record SerializeBlob =
  m_msg :: "pbf_field list"
  m_compression_level :: int
  m_blob_type :: pbf_blob_type
  m_use_compression :: pbf_compression

text \<open>The \<open>switch\<close> over the compression: the builder calls on the Blob message.\<close>

definition Blob_fields ::
  "osmium_env \<Rightarrow> byte list \<Rightarrow> pbf_compression \<Rightarrow> int \<Rightarrow> error + pbf_field list" where
  "Blob_fields env msg compression level =
     (case compression of
        pbf_compression_none \<Rightarrow> Inr [add_bytes Blob_optional_bytes_raw msg]
      | pbf_compression_zlib \<Rightarrow>
          (case zlib_compress env msg level of
             Inl e \<Rightarrow> Inl e
           | Inr z \<Rightarrow> Inr [add_int32 Blob_optional_int32_raw_size (word_of_nat (length msg)),
                           add_bytes Blob_optional_bytes_zlib_data z])
      | pbf_compression_lz4 \<Rightarrow>
          (if OSMIUM_WITH_LZ4 env then
             (case lz4_compress env msg level of
                Inl e \<Rightarrow> Inl e
              | Inr z \<Rightarrow> Inr [add_int32 Blob_optional_int32_raw_size (word_of_nat (length msg)),
                              add_bytes Blob_optional_bytes_lz4_data z])
           else Inl (pbf_error ''lz4 blobs not supported'')))"

definition BlobHeader_fields :: "pbf_blob_type \<Rightarrow> byte list \<Rightarrow> pbf_field list" where
  "BlobHeader_fields blob_type blob_data =
     [add_string BlobHeader_required_string_type
        (if blob_type = pbf_blob_type_data then ''OSMData'' else ''OSMHeader''),
      add_int32 BlobHeader_required_int32_datasize (word_of_nat (length blob_data))]"

text \<open>
  \<open>operator()\<close> on the message bytes \<open>msg\<close>: the assertion, the Blob, the BlobHeader,
  then the output string with the four size bytes in front.
\<close>

definition SerializeBlob_bytes ::
  "pbf_constants \<Rightarrow> osmium_env \<Rightarrow> byte list \<Rightarrow> pbf_blob_type \<Rightarrow> pbf_compression \<Rightarrow> int
     \<Rightarrow> error + byte list" where
  "SerializeBlob_bytes K env msg blob_type compression level =
     (if \<not> length msg \<le> max_uncompressed_blob_size K then Inl assertion_failure
      else case Blob_fields env msg compression level of
        Inl e \<Rightarrow> Inl e
      | Inr pbf_blob \<Rightarrow>
          (let blob_data = serialized pbf_blob;
               blob_header_data = serialized (BlobHeader_fields blob_type blob_data);
               size = (word_of_nat (length blob_header_data) :: 32 word);
               output = [];
               output = output @ [ucast (drop_bit 24 size AND 0xff)];
               output = output @ [ucast (drop_bit 16 size AND 0xff)];
               output = output @ [ucast (drop_bit 8 size AND 0xff)];
               output = output @ [ucast (size AND 0xff)];
               output = output @ blob_header_data;
               output = output @ blob_data
           in Inr output))"

text \<open>
  Modelled from the spec: the value of a byte string read as a big-endian unsigned
  integer, by which the four size bytes in front of a BlobHeader are read back.
\<close>

definition big_endian_value :: "byte list \<Rightarrow> nat" where
  "big_endian_value bs = foldl (\<lambda>n b. 256 * n + unat b) 0 bs"

definition SerializeBlob_call ::
  "pbf_constants \<Rightarrow> osmium_env \<Rightarrow> SerializeBlob \<Rightarrow> error + byte list" where
  "SerializeBlob_call K env job =
     SerializeBlob_bytes K env (serialized (m_msg job)) (m_blob_type job)
       (m_use_compression job) (m_compression_level job)"

section \<open>PBFOutputFormat\<close>

text \<open>
  The output queue holds the \<open>SerializeBlob\<close> jobs in the order in which they were
  submitted to the pool and pushed.
\<close>

record PBFOutputFormat =
  m_options :: pbf_output_options
  m_primitive_block :: PrimitiveBlock
  m_output_queue :: "SerializeBlob list"

definition submit :: "PBFOutputFormat \<Rightarrow> pbf_field list \<Rightarrow> pbf_blob_type \<Rightarrow> PBFOutputFormat" where
  "submit enc msg blob_type =
     enc\<lparr>m_output_queue := m_output_queue enc @
           [\<lparr>m_msg = msg,
             m_compression_level = compression_level (m_options enc),
             m_blob_type = blob_type,
             m_use_compression = use_compression (m_options enc)\<rparr>]\<rparr>"

definition store_primitive_block :: "PBFOutputFormat \<Rightarrow> error + PBFOutputFormat" where
  "store_primitive_block enc =
     (if m_count (m_primitive_block enc) = 0 then Inr enc
      else
        (let primitive_block = [];
             primitive_block = primitive_block @
               [pbf_builder PrimitiveBlock_required_StringTable_stringtable
                  (write_stringtable (m_primitive_block enc))]
         in case group_data (m_options enc) (m_primitive_block enc) of
              Inl e \<Rightarrow> Inl e
            | Inr b \<Rightarrow>
                (let primitive_block = primitive_block @
                       [add_message PrimitiveBlock_repeated_PrimitiveGroup_primitivegroup
                          (m_pbf_primitive_group_data b)]
                 in Inr (submit (enc\<lparr>m_primitive_block := b\<rparr>) primitive_block
                           pbf_blob_type_data))))"

text \<open>The loops of \<open>add_meta\<close> over the tags: one string-table index for each string.\<close>

fun store_all_in_stringtable :: "StringTable \<Rightarrow> string list \<Rightarrow> StringTable \<times> 32 word list" where
  "store_all_in_stringtable st [] = (st, [])"
| "store_all_in_stringtable st (s # ss) =
     (let (i, st) = StringTable_add st s;
          (st, elements) = store_all_in_stringtable st ss
      in (st, i # elements))"

text \<open>
  The block of \<open>add_meta\<close> that fills the Info message: it returns the string table and
  the calls made on the builder \<open>pbf_info\<close>.
\<close>

definition Info_statements ::
  "pbf_output_options \<Rightarrow> StringTable \<Rightarrow> 'a OSMObject_scheme \<Rightarrow> StringTable \<times> pbf_field list" where
  "Info_statements opts st object =
     (let pbf_info = [];
          pbf_info = (if md_version (add_metadata opts)
                      then pbf_info @ [add_int32 Info_optional_int32_version
                                         (object_version object)]
                      else pbf_info);
          pbf_info = (if md_timestamp (add_metadata opts)
                      then pbf_info @ [add_int64 Info_optional_int64_timestamp
                             (ucast (ucast (object_timestamp object) :: 32 word))]
                      else pbf_info);
          pbf_info = (if md_changeset (add_metadata opts)
                      then pbf_info @ [add_int64 Info_optional_int64_changeset
                                         (ucast (object_changeset object))]
                      else pbf_info);
          pbf_info = (if md_uid (add_metadata opts)
                      then pbf_info @ [add_int32 Info_optional_int32_uid (object_uid object)]
                      else pbf_info);
          user = (if md_user (add_metadata opts)
                  then (let (i, st) = StringTable_add st (object_user object)
                        in (st, pbf_info @ [add_uint32 Info_optional_uint32_user_sid i]))
                  else (st, pbf_info));
          pbf_info = (if add_visible_flag opts
                      then snd user @ [add_bool Info_optional_bool_visible
                                         (object_visible object)]
                      else snd user)
      in (fst user, pbf_info))"

text \<open>
  \<open>add_meta\<close> returns the string table and the calls it makes on the builder of the
  object. Its two assertions are tested first, as in \<open>add_node\<close>.
\<close>

definition add_meta ::
  "pbf_output_options \<Rightarrow> meta_tags \<Rightarrow> StringTable \<Rightarrow> 'a OSMObject_scheme
     \<Rightarrow> error + StringTable \<times> pbf_field list" where
  "add_meta opts T st object =
     (if md_version (add_metadata opts) \<and> \<not> unat (object_version object) \<le> INT32_MAX
      then Inl assertion_failure
      else if md_uid (add_metadata opts) \<and> \<not> unat (object_uid object) \<le> INT32_MAX
      then Inl assertion_failure
      else Inr
       (let pbf_object = [];
            (st, field) = store_all_in_stringtable st (map fst (object_tags object));
            pbf_object = pbf_object @ [add_packed_uint32 (packed_uint32_keys T) field];
            (st, field) = store_all_in_stringtable st (map snd (object_tags object));
            pbf_object = pbf_object @ [add_packed_uint32 (packed_uint32_vals T) field]
        in if metadata_any (add_metadata opts) \<or> add_visible_flag opts
           then (let (st, pbf_info) = Info_statements opts st object
                 in (st, pbf_object @ [pbf_builder (optional_Info_info T) pbf_info]))
           else (st, pbf_object)))"

definition switch_primitive_block_type ::
  "pbf_constants \<Rightarrow> PBFOutputFormat \<Rightarrow> PrimitiveGroup \<Rightarrow> error + PBFOutputFormat" where
  "switch_primitive_block_type K enc type =
     (if \<not> can_add K (m_primitive_block enc) type
      then (case store_primitive_block enc of
              Inl e \<Rightarrow> Inl e
            | Inr enc \<Rightarrow> Inr (enc\<lparr>m_primitive_block := reset (m_primitive_block enc) type\<rparr>))
      else Inr enc)"

text \<open>
  \<open>group()\<close> counts the entity; the builder of the entity, nested in the group, is
  complete when the handler returns.
\<close>

definition group_add :: "PrimitiveBlock \<Rightarrow> PrimitiveGroup \<Rightarrow> pbf_field list \<Rightarrow> PrimitiveBlock" where
  "group_add b type pbf_object =
     b\<lparr>m_count := m_count b + 1,
       m_pbf_primitive_group_data := m_pbf_primitive_group_data b @
         [pbf_builder (PrimitiveGroup_tag type) pbf_object]\<rparr>"

text \<open>A \<open>DeltaEncode\<close> local to a loop, starting at zero, applied to each element in turn.\<close>

fun delta_loop :: "('v \<Rightarrow> 'd::minus) \<Rightarrow> 'v \<Rightarrow> 'v list \<Rightarrow> 'd list" where
  "delta_loop to_delta m_value [] = []"
| "delta_loop to_delta m_value (x # xs) =
     (let (d, v) = DeltaEncode_update to_delta m_value x
      in d # delta_loop to_delta v xs)"

text \<open>
  Modelled from the spec: decoding, which is not part of the encoder, is the prefix-sum
  inverse of the delta encoding.
\<close>

fun delta_decode :: "'d::plus \<Rightarrow> 'd list \<Rightarrow> 'd list" where
  "delta_decode prev [] = []"
| "delta_decode prev (d # ds) = (prev + d) # delta_decode (prev + d) ds"

definition node :: "pbf_constants \<Rightarrow> PBFOutputFormat \<Rightarrow> Node \<Rightarrow> error + PBFOutputFormat" where
  "node K enc n =
     (if use_dense_nodes (m_options enc) then
        (case switch_primitive_block_type K enc PrimitiveGroup_optional_DenseNodes_dense of
           Inl e \<Rightarrow> Inl e
         | Inr enc \<Rightarrow>
             (case add_dense_node K (m_options enc) (m_primitive_block enc) n of
                Inl e \<Rightarrow> Inl e
              | Inr b \<Rightarrow> Inr (enc\<lparr>m_primitive_block := b\<rparr>)))
      else
        (case switch_primitive_block_type K enc PrimitiveGroup_repeated_Node_nodes of
           Inl e \<Rightarrow> Inl e
         | Inr enc \<Rightarrow>
             (let pbf_node = [add_sint64 Node_required_sint64_id (object_id n)]
              in case add_meta (m_options enc) Node_enum_type
                        (m_stringtable (m_primitive_block enc)) n of
                   Inl e \<Rightarrow> Inl e
                 | Inr (st, meta) \<Rightarrow>
                     (let pbf_node = pbf_node @ meta;
                          pbf_node = pbf_node @ [add_sint64 Node_required_sint64_lat
                             (lonlat2int K (lat_without_check (node_location n)))];
                          pbf_node = pbf_node @ [add_sint64 Node_required_sint64_lon
                             (lonlat2int K (lon_without_check (node_location n)))]
                      in Inr (enc\<lparr>m_primitive_block :=
                                group_add ((m_primitive_block enc)\<lparr>m_stringtable := st\<rparr>)
                                  PrimitiveGroup_repeated_Node_nodes pbf_node\<rparr>)))))"

definition way :: "pbf_constants \<Rightarrow> PBFOutputFormat \<Rightarrow> Way \<Rightarrow> error + PBFOutputFormat" where
  "way K enc w =
     (case switch_primitive_block_type K enc PrimitiveGroup_repeated_Way_ways of
        Inl e \<Rightarrow> Inl e
      | Inr enc \<Rightarrow>
          (let pbf_way = [add_int64 Way_required_int64_id (object_id w)]
           in case add_meta (m_options enc) Way_enum_type
                     (m_stringtable (m_primitive_block enc)) w of
                Inl e \<Rightarrow> Inl e
              | Inr (st, meta) \<Rightarrow>
                  (let pbf_way = pbf_way @ meta;
                       pbf_way = pbf_way @ [add_packed_sint64 Way_packed_sint64_refs
                          (delta_loop id 0 (map node_ref_ref (way_nodes w)))];
                       pbf_way =
                         (if locations_on_ways (m_options enc) then
                            (let pbf_way = pbf_way @ [add_packed_sint64 Way_packed_sint64_lon
                                   (delta_loop id 0
                                      (map (\<lambda>r. lonlat2int K (lon_without_check (node_ref_location r)))
                                         (way_nodes w)))];
                                 pbf_way = pbf_way @ [add_packed_sint64 Way_packed_sint64_lat
                                   (delta_loop id 0
                                      (map (\<lambda>r. lonlat2int K (lat_without_check (node_ref_location r)))
                                         (way_nodes w)))]
                             in pbf_way)
                          else pbf_way)
                   in Inr (enc\<lparr>m_primitive_block :=
                             group_add ((m_primitive_block enc)\<lparr>m_stringtable := st\<rparr>)
                               PrimitiveGroup_repeated_Way_ways pbf_way\<rparr>))))"

text \<open>
  \<open>write_buffer\<close> applies the handler of each entity of the buffer in turn; an error
  ends the run. The relation handler is not needed for the properties below.
\<close>

datatype entity = Node_entity Node | Way_entity Way

fun write_buffer :: "pbf_constants \<Rightarrow> PBFOutputFormat \<Rightarrow> entity list \<Rightarrow> error + PBFOutputFormat" where
  "write_buffer K enc [] = Inr enc"
| "write_buffer K enc (Node_entity n # buffer) =
     (case node K enc n of Inl e \<Rightarrow> Inl e | Inr enc \<Rightarrow> write_buffer K enc buffer)"
| "write_buffer K enc (Way_entity w # buffer) =
     (case way K enc w of Inl e \<Rightarrow> Inl e | Inr enc \<Rightarrow> write_buffer K enc buffer)"

definition write_end :: "PBFOutputFormat \<Rightarrow> error + PBFOutputFormat" where
  "write_end enc = store_primitive_block enc"

section \<open>Header and constructor\<close>

text \<open>
  Modelled from the spec: \<open>osmium::io::Header\<close> and \<open>osmium::Box\<close> (osmium/io/header.hpp
  and osmium/osm/box.hpp are not among the sources). A header is the record of what
  its accessors return: whether it has no box, the four coordinates of the union of
  its boxes, and its string-keyed fields (\<open>get\<close> gives the empty string for a field
  that is not set).
\<close>

record Box =
  bottom_left_lon :: real
  bottom_left_lat :: real
  top_right_lon :: real
  top_right_lat :: real

record Header =
  boxes_empty :: bool
  joined_boxes :: Box
  header_get :: "string \<Rightarrow> string"

text \<open>The conversion \<open>int64_t(x)\<close> of a \<open>double\<close> drops the fraction.\<close>

definition double_to_int64 :: "real \<Rightarrow> 64 word" where
  "double_to_int64 x = word_of_int (if 0 \<le> x then \<lfloor>x\<rfloor> else \<lceil>x\<rceil>)"

text \<open>
  \<open>write_header\<close> in two parts: the statements up to the writing program, which cannot
  fail, and the rest, where the replication timestamp is parsed.
\<close>

definition HeaderBlock_statements ::
  "pbf_constants \<Rightarrow> PBFOutputFormat \<Rightarrow> Header \<Rightarrow> pbf_field list" where
  "HeaderBlock_statements K enc header =
     (let data = [];
          data =
            (if \<not> boxes_empty header then
               (let box = joined_boxes header;
                    res = double_of_int (lonlat_resolution K);
                    pbf_header_bbox =
                      [add_sint64 HeaderBBox_required_sint64_left
                         (double_to_int64 (double_mult (bottom_left_lon box) res)),
                       add_sint64 HeaderBBox_required_sint64_right
                         (double_to_int64 (double_mult (top_right_lon box) res)),
                       add_sint64 HeaderBBox_required_sint64_top
                         (double_to_int64 (double_mult (top_right_lat box) res)),
                       add_sint64 HeaderBBox_required_sint64_bottom
                         (double_to_int64 (double_mult (bottom_left_lat box) res))]
                in data @ [pbf_builder HeaderBlock_optional_HeaderBBox_bbox pbf_header_bbox])
             else data);
          data = data @ [add_string HeaderBlock_repeated_string_required_features
                           ''OsmSchema-V0.6''];
          data = (if use_dense_nodes (m_options enc)
                  then data @ [add_string HeaderBlock_repeated_string_required_features
                                 ''DenseNodes'']
                  else data);
          data = (if add_historical_information_flag (m_options enc)
                  then data @ [add_string HeaderBlock_repeated_string_required_features
                                 ''HistoricalInformation'']
                  else data);
          data = (if locations_on_ways (m_options enc)
                  then data @ [add_string HeaderBlock_repeated_string_optional_features
                                 ''LocationsOnWays'']
                  else data);
          data = (if header_get header ''sorting'' = ''Type_then_ID''
                  then data @ [add_string HeaderBlock_repeated_string_optional_features
                                 ''Sort.Type_then_ID'']
                  else data);
          data = data @ [add_string HeaderBlock_optional_string_writingprogram
                           (header_get header ''generator'')]
      in data)"

definition write_header ::
  "pbf_constants \<Rightarrow> osmium_env \<Rightarrow> PBFOutputFormat \<Rightarrow> Header \<Rightarrow> error + PBFOutputFormat" where
  "write_header K env enc header =
     (let data = HeaderBlock_statements K enc header;
          osmosis_replication_timestamp = header_get header ''osmosis_replication_timestamp''
      in case (if osmosis_replication_timestamp \<noteq> [] then
                 (case parse_Timestamp env osmosis_replication_timestamp of
                    Inl e \<Rightarrow> Inl e
                  | Inr ts \<Rightarrow>
                      Inr (data @ [add_int64 HeaderBlock_optional_int64_osmosis_replication_timestamp
                                     (ucast (ucast ts :: 32 word))]))
               else Inr data) of
           Inl e \<Rightarrow> Inl e
         | Inr data \<Rightarrow>
            (let osmosis_replication_sequence_number =
                   header_get header ''osmosis_replication_sequence_number'';
                 data = (if osmosis_replication_sequence_number \<noteq> []
                         then data @
                           [add_int64 HeaderBlock_optional_int64_osmosis_replication_sequence_number
                              (str_to_int env osmosis_replication_sequence_number)]
                         else data);
                 osmosis_replication_base_url = header_get header ''osmosis_replication_base_url'';
                 data = (if osmosis_replication_base_url \<noteq> []
                         then data @
                           [add_string HeaderBlock_optional_string_osmosis_replication_base_url
                              osmosis_replication_base_url]
                         else data)
             in Inr (submit enc data pbf_blob_type_header)))"

text \<open>
  The constructor. The options start from the defaults of \<open>pbf_output_options\<close>;
  \<open>static_cast<int>(val)\<close> keeps the low 32 bits of the \<open>long\<close>. The messages of the
  exceptions are given without their quotation marks.
\<close>

definition default_options :: pbf_output_options where
  "default_options =
     \<lparr>add_metadata = \<lparr>md_version = False, md_timestamp = False, md_changeset = False,
                      md_uid = False, md_user = False\<rparr>,
      compression_level = 0, use_compression = pbf_compression_zlib,
      use_dense_nodes = True, add_historical_information_flag = False,
      add_visible_flag = False, locations_on_ways = False\<rparr>"

definition long_to_int :: "int \<Rightarrow> int" where
  "long_to_int val = sint (word_of_int val :: 32 word)"

definition PBFOutputFormat_init :: "pbf_output_options \<Rightarrow> PBFOutputFormat" where
  "PBFOutputFormat_init opts =
     \<lparr>m_options = opts, m_primitive_block = PrimitiveBlock_new, m_output_queue = []\<rparr>"

definition PBFOutputFormat_new :: "osmium_env \<Rightarrow> File \<Rightarrow> error + PBFOutputFormat" where
  "PBFOutputFormat_new env file =
     (if File_get file ''pbf_add_metadata'' \<noteq> [] then
        Inl (invalid_argument
          ''The 'pbf_add_metadata' option is deprecated. Please use 'add_metadata' instead.'')
      else
        (let opts = default_options\<lparr>use_dense_nodes := is_not_false file ''pbf_dense_nodes''\<rparr>
         in case get_compression_type env (File_get file ''pbf_compression'') of
              Inl e \<Rightarrow> Inl e
            | Inr c \<Rightarrow>
               (let opts = opts\<lparr>use_compression := c\<rparr>
                in case parse_metadata_options env (File_get file ''add_metadata'') of
                     Inl e \<Rightarrow> Inl e
                   | Inr md \<Rightarrow>
                      (let opts = opts\<lparr>add_metadata := md\<rparr>;
                           opts = opts\<lparr>add_historical_information_flag :=
                                         has_multiple_object_versions file\<rparr>;
                           opts = opts\<lparr>add_visible_flag := has_multiple_object_versions file\<rparr>;
                           opts = opts\<lparr>locations_on_ways := is_true file ''locations_on_ways''\<rparr>;
                           pbl = File_get file ''pbf_compression_level''
                       in if pbl = [] then
                            (case use_compression opts of
                               pbf_compression_none \<Rightarrow> Inr (PBFOutputFormat_init opts)
                             | pbf_compression_zlib \<Rightarrow>
                                 Inr (PBFOutputFormat_init
                                   (opts\<lparr>compression_level := zlib_default_compression_level env\<rparr>))
                             | pbf_compression_lz4 \<Rightarrow>
                                 (if OSMIUM_WITH_LZ4 env
                                  then Inr (PBFOutputFormat_init
                                    (opts\<lparr>compression_level := lz4_default_compression_level env\<rparr>))
                                  else Inr (PBFOutputFormat_init opts)))
                          else
                            (let (val, end) = strtol (c_str pbl)
                             in if end \<noteq> [] then
                                  Inl (invalid_argument
                                    ''The 'pbf_compression_level' option must be an integer.'')
                                else
                                  (case use_compression opts of
                                     pbf_compression_none \<Rightarrow>
                                       Inl (invalid_argument
                                         ''The 'pbf_compression_level' option doesn't make sense without 'pbf_compression' set.'')
                                   | pbf_compression_zlib \<Rightarrow>
                                       (case zlib_check_compression_level env val of
                                          Some e \<Rightarrow> Inl e
                                        | None \<Rightarrow> Inr (PBFOutputFormat_init
                                            (opts\<lparr>compression_level := long_to_int val\<rparr>)))
                                   | pbf_compression_lz4 \<Rightarrow>
                                       (if OSMIUM_WITH_LZ4 env then
                                          (case lz4_check_compression_level env val of
                                             Some e \<Rightarrow> Inl e
                                           | None \<Rightarrow> Inr (PBFOutputFormat_init
                                               (opts\<lparr>compression_level := long_to_int val\<rparr>)))
                                        else Inr (PBFOutputFormat_init
                                               (opts\<lparr>compression_level := long_to_int val\<rparr>)))))))))"

text \<open>
  Modelled from the spec: the text of an integer, as the compression level must be:
  optional white space, an optional sign and at least one decimal digit, with nothing
  after the digits. The constructor reads the level as a C string.
\<close>

definition integer_text :: "string \<Rightarrow> bool" where
  "integer_text s =
     (let t = dropWhile isspace s;
          d = (if t \<noteq> [] \<and> (hd t = CHR ''+'' \<or> hd t = CHR ''-'') then tl t else t)
      in d \<noteq> [] \<and> list_all isdigit d)"

section \<open>Example inputs\<close>

text \<open>
  Inputs at which the theorems below are evaluated. \<open>long_way\<close> is a way without tags
  whose 15938342 node references all point to node 1; written as the first entity with
  the default options it leaves the block \<open>way_block\<close>.
\<close>

definition origin :: Location where
  "origin = \<lparr>lat_without_check = 0, lon_without_check = 0\<rparr>"

definition long_way :: Way where
  "long_way =
     \<lparr>object_id = 1, object_version = 0, object_timestamp = 0, object_changeset = 0,
      object_uid = 0, object_user = [], object_visible = True, object_tags = [],
      way_nodes = replicate 15938342 \<lparr>node_ref_ref = 1, node_ref_location = origin\<rparr>\<rparr>"

definition way_block :: PrimitiveBlock where
  "way_block =
     \<lparr>m_pbf_primitive_group_data =
        [pbf_builder (PrimitiveGroup_tag PrimitiveGroup_repeated_Way_ways)
           [add_int64 Way_required_int64_id 1,
            add_packed_uint32 Way_packed_uint32_keys [],
            add_packed_uint32 Way_packed_uint32_vals [],
            add_packed_sint64 Way_packed_sint64_refs (1 # replicate 15938341 0)]],
      m_stringtable = StringTable_new, m_dense_nodes = None,
      m_type = PrimitiveGroup_repeated_Way_ways, m_count = 1\<rparr>"

text \<open>A node with id 1 at latitude 1.0000000 and longitude 2.0000000, without tags.\<close>

definition single_node :: Node where
  "single_node =
     \<lparr>object_id = 1, object_version = 0, object_timestamp = 0, object_changeset = 0,
      object_uid = 0, object_user = [], object_visible = True, object_tags = [],
      node_location = \<lparr>lat_without_check = 1, lon_without_check = 2\<rparr>\<rparr>"

text \<open>
  Options with every metadata attribute and the visible flag, and options with none;
  two nodes with metadata and tags, the second with a timestamp beyond 32 bits.
\<close>

definition all_options :: pbf_output_options where
  "all_options =
     \<lparr>add_metadata = \<lparr>md_version = True, md_timestamp = True, md_changeset = True,
                      md_uid = True, md_user = True\<rparr>,
      compression_level = 0, use_compression = pbf_compression_none,
      use_dense_nodes = True, add_historical_information_flag = True,
      add_visible_flag = True, locations_on_ways = False\<rparr>"

definition no_metadata_options :: pbf_output_options where
  "no_metadata_options =
     \<lparr>add_metadata = \<lparr>md_version = False, md_timestamp = False, md_changeset = False,
                      md_uid = False, md_user = False\<rparr>,
      compression_level = 0, use_compression = pbf_compression_none,
      use_dense_nodes = True, add_historical_information_flag = False,
      add_visible_flag = False, locations_on_ways = False\<rparr>"

definition node_a :: Node where
  "node_a =
     \<lparr>object_id = 1, object_version = 2, object_timestamp = 1500000000, object_changeset = 7,
      object_uid = 3, object_user = ''ann'', object_visible = True,
      object_tags = [(''amenity'', ''cafe''), (''name'', [])],
      node_location = \<lparr>lat_without_check = 1, lon_without_check = 2\<rparr>\<rparr>"

definition node_b :: Node where
  "node_b =
     \<lparr>object_id = 5, object_version = 1, object_timestamp = 5000000000, object_changeset = 9,
      object_uid = 4, object_user = ''bob'', object_visible = False,
      object_tags = [(''amenity'', ''bench'')],
      node_location = \<lparr>lat_without_check = 1.0000003, lon_without_check = 2\<rparr>\<rparr>"

text \<open>The string table and the buffer after \<open>node_a\<close> and \<open>node_b\<close> with all metadata.\<close>

definition table_ab :: StringTable where
  "table_ab = \<lparr>entries = [''ann'', ''amenity'', ''cafe'', ''name'', [], ''bob'', ''bench'']\<rparr>"

definition dense_ab :: DenseNodes where
  "dense_ab =
     \<lparr>m_ids = [1, 4], m_versions = [2, 1],
      m_timestamps = [1500000000, 18446744072914584320],
      m_changesets = [7, 2], m_uids = [3, 1], m_user_sids = [1, 5],
      m_visibles = [True, False], m_lats = [10000000, 3],
      m_lons = [20000000, 0], m_tags = [2, 3, 4, 5, 0, 2, 7, 0],
      m_delta_id = 5, m_delta_timestamp = 705032704,
      m_delta_changeset = 9, m_delta_uid = 4, m_delta_user_sid = 6,
      m_delta_lat = 10000003, m_delta_lon = 20000000\<rparr>"

text \<open>
  The way with id 10, node references 100, 101 and 103 and the tag (highway, residential),
  and the encoder after it is written as the first entity without metadata.
\<close>

definition way_10 :: Way where
  "way_10 =
     \<lparr>object_id = 10, object_version = 0, object_timestamp = 0, object_changeset = 0,
      object_uid = 0, object_user = [], object_visible = True,
      object_tags = [(''highway'', ''residential'')],
      way_nodes = [\<lparr>node_ref_ref = 100, node_ref_location = origin\<rparr>,
                   \<lparr>node_ref_ref = 101, node_ref_location = origin\<rparr>,
                   \<lparr>node_ref_ref = 103, node_ref_location = origin\<rparr>]\<rparr>"

definition way_10_block :: PrimitiveBlock where
  "way_10_block =
     \<lparr>m_pbf_primitive_group_data =
        [pbf_builder (PrimitiveGroup_tag PrimitiveGroup_repeated_Way_ways)
           [add_int64 Way_required_int64_id 10,
            add_packed_uint32 Way_packed_uint32_keys [1],
            add_packed_uint32 Way_packed_uint32_vals [2],
            add_packed_sint64 Way_packed_sint64_refs [100, 1, 2]]],
      m_stringtable = \<lparr>entries = [''highway'', ''residential'']\<rparr>, m_dense_nodes = None,
      m_type = PrimitiveGroup_repeated_Way_ways, m_count = 1\<rparr>"

text \<open>
  Collaborators for the examples: compression functions that return their input, every
  level from 0 to 9 in range, every metadata setting read as all attributes, and a
  timestamp parser that always gives 5000000000 seconds.
\<close>

definition example_env :: osmium_env where
  "example_env =
     \<lparr>OSMIUM_WITH_LZ4 = False,
      zlib_compress = (\<lambda>msg level. Inr msg),
      lz4_compress = (\<lambda>msg level. Inr msg),
      zlib_default_compression_level = 6,
      lz4_default_compression_level = 1,
      zlib_level_in_range = (\<lambda>v. 0 \<le> v \<and> v \<le> 9),
      lz4_level_in_range = (\<lambda>v. 1 \<le> v \<and> v \<le> 65537),
      parse_metadata_options = (\<lambda>s. Inr (add_metadata all_options)),
      parse_Timestamp = (\<lambda>s. Inr 5000000000),
      str_to_int = (\<lambda>s. 0)\<rparr>"

definition example_header :: Header where
  "example_header =
     \<lparr>boxes_empty = True,
      joined_boxes = \<lparr>bottom_left_lon = 0, bottom_left_lat = 0,
                      top_right_lon = 0, top_right_lat = 0\<rparr>,
      header_get = (\<lambda>key. if key = ''osmosis_replication_timestamp''
                          then ''2128-06-11T08:53:20Z'' else [])\<rparr>"

text \<open>The encoder after \<open>example_header\<close> is written with all metadata.\<close>

definition header_written :: PBFOutputFormat where
  "header_written =
     (PBFOutputFormat_init all_options)
       \<lparr>m_output_queue :=
          [\<lparr>m_msg =
              [add_string HeaderBlock_repeated_string_required_features ''OsmSchema-V0.6'',
               add_string HeaderBlock_repeated_string_required_features ''DenseNodes'',
               add_string HeaderBlock_repeated_string_required_features ''HistoricalInformation'',
               add_string HeaderBlock_optional_string_writingprogram [],
               add_int64 HeaderBlock_optional_int64_osmosis_replication_timestamp 705032704],
             m_compression_level = 0, m_blob_type = pbf_blob_type_header,
             m_use_compression = pbf_compression_none\<rparr>]\<rparr>"

text \<open>A file with the given options, for an input with one version of each object.\<close>

definition file_with :: "(string \<times> string) list \<Rightarrow> File" where
  "file_with kvs = \<lparr>file_options = map_of kvs, has_multiple_object_versions = False\<rparr>"

text \<open>The collaborators of the examples in a build with lz4 support.\<close>

definition example_env_lz4 :: osmium_env where
  "example_env_lz4 = example_env\<lparr>OSMIUM_WITH_LZ4 := True\<rparr>"

section \<open>A block of dense nodes and its blob\<close>

text \<open>
  The working block while it collects dense nodes: string table \<open>st\<close>, buffer \<open>dn\<close>,
  \<open>count\<close> entities and no group bytes yet. \<open>DenseNodes_blob\<close> is the job that flushing
  such a block submits: the PrimitiveBlock message with the string table and one group
  that holds the DenseNodes message.
\<close>

definition dense_block :: "StringTable \<Rightarrow> DenseNodes \<Rightarrow> int \<Rightarrow> PrimitiveBlock" where
  "dense_block st dn count =
     \<lparr>m_pbf_primitive_group_data = [], m_stringtable = st, m_dense_nodes = Some dn,
      m_type = PrimitiveGroup_optional_DenseNodes_dense, m_count = count\<rparr>"

definition DenseNodes_blob ::
  "pbf_output_options \<Rightarrow> StringTable \<Rightarrow> DenseNodes \<Rightarrow> SerializeBlob" where
  "DenseNodes_blob opts st dn =
     \<lparr>m_msg =
        [pbf_builder PrimitiveBlock_required_StringTable_stringtable
           (map (\<lambda>s. add_bytes StringTable_repeated_bytes_s (bytes_of s))
              (StringTable_strings st)),
         add_message PrimitiveBlock_repeated_PrimitiveGroup_primitivegroup
           [add_message (PrimitiveGroup_tag PrimitiveGroup_optional_DenseNodes_dense)
              (DenseNodes_serialize opts dn)]],
      m_compression_level = compression_level opts,
      m_blob_type = pbf_blob_type_data,
      m_use_compression = use_compression opts\<rparr>"

text \<open>The ids array of a blob made by \<open>DenseNodes_blob\<close>; empty for any other message.\<close>

definition blob_ids :: "SerializeBlob \<Rightarrow> 64 word list" where
  "blob_ids job =
     (case m_msg job of
        [strings, add_message t2 [add_message t3 (add_packed_sint64 t4 ids # rest)]] \<Rightarrow> ids
      | _ \<Rightarrow> [])"

text \<open>
  The pool runs the jobs of the output queue, and the writer takes their results in
  the order of the queue: each job with the bytes of its blob, or the error of the
  first job that fails.
\<close>

fun run_jobs ::
  "pbf_constants \<Rightarrow> osmium_env \<Rightarrow> SerializeBlob list
     \<Rightarrow> error + (SerializeBlob \<times> byte list) list" where
  "run_jobs K env [] = Inr []"
| "run_jobs K env (job # jobs) =
     (case SerializeBlob_call K env job of
        Inl e \<Rightarrow> Inl e
      | Inr bytes \<Rightarrow>
          (case run_jobs K env jobs of
             Inl e \<Rightarrow> Inl e
           | Inr rest \<Rightarrow> Inr ((job, bytes) # rest)))"

text \<open>
  The data blobs of a stream of nodes: the encoder is constructed with the given options,
  the nodes are written and \<open>write_end\<close> flushes the last block, which gives the jobs
  that were submitted; then the jobs are run.
\<close>

definition submitted_jobs ::
  "pbf_constants \<Rightarrow> pbf_output_options \<Rightarrow> Node list \<Rightarrow> error + SerializeBlob list" where
  "submitted_jobs K opts ns =
     (case write_buffer K (PBFOutputFormat_init opts) (map Node_entity ns) of
        Inl e \<Rightarrow> Inl e
      | Inr enc \<Rightarrow>
          (case write_end enc of
             Inl e \<Rightarrow> Inl e
           | Inr enc \<Rightarrow> Inr (m_output_queue enc)))"

definition encode_nodes ::
  "pbf_constants \<Rightarrow> osmium_env \<Rightarrow> pbf_output_options \<Rightarrow> Node list
     \<Rightarrow> error + (SerializeBlob \<times> byte list) list" where
  "encode_nodes K env opts ns =
     (case submitted_jobs K opts ns of
        Inl e \<Rightarrow> Inl e
      | Inr jobs \<Rightarrow> run_jobs K env jobs)"

text \<open>
  Streams of nodes for the block limit. \<open>numbered_node i\<close> is \<open>single_node\<close> with id
  \<open>i\<close>; \<open>sequential_nodes\<close> are the 8000 nodes with the ids 1 to 8000,
  \<open>sequential_dense\<close> is the buffer that holds them, and \<open>last_dense\<close> is the buffer
  that holds the node with id 8001 alone. \<open>fat_node\<close> is \<open>single_node\<close> with one tag
  whose value is 16000000 bytes long; \<open>fat_stream\<close> is this node followed by 7999
  copies of \<open>single_node\<close>, and \<open>thin_dense\<close> is the buffer that holds the copies.
  \<open>blob_bytes\<close> are the bytes of the blob of a block, written without compression.
\<close>

definition numbered_node :: "nat \<Rightarrow> Node" where
  "numbered_node i = single_node\<lparr>object_id := word_of_nat i\<rparr>"

definition sequential_nodes :: "Node list" where
  "sequential_nodes = map numbered_node [1..<8001]"

definition sequential_dense :: DenseNodes where
  "sequential_dense =
     snd (projr (DenseNodes_add_nodes constants_nano no_metadata_options StringTable_new
                   DenseNodes_new sequential_nodes))"

definition last_dense :: DenseNodes where
  "last_dense =
     \<lparr>m_ids = [8001], m_versions = [], m_timestamps = [], m_changesets = [], m_uids = [],
      m_user_sids = [], m_visibles = [], m_lats = [10000000], m_lons = [20000000],
      m_tags = [0], m_delta_id = 8001, m_delta_timestamp = 0, m_delta_changeset = 0,
      m_delta_uid = 0, m_delta_user_sid = 0, m_delta_lat = 10000000,
      m_delta_lon = 20000000\<rparr>"

definition fat_value :: string where
  "fat_value = replicate 16000000 (CHR ''v'')"

definition fat_node :: Node where
  "fat_node = single_node\<lparr>object_tags := [(''k'', fat_value)]\<rparr>"

definition fat_stream :: "Node list" where
  "fat_stream = fat_node # replicate 7999 single_node"

definition fat_table :: StringTable where
  "fat_table = \<lparr>entries = [''k'', fat_value]\<rparr>"

definition fat_dense :: DenseNodes where
  "fat_dense =
     \<lparr>m_ids = [1], m_versions = [], m_timestamps = [], m_changesets = [], m_uids = [],
      m_user_sids = [], m_visibles = [], m_lats = [10000000], m_lons = [20000000],
      m_tags = [1, 2, 0], m_delta_id = 1, m_delta_timestamp = 0, m_delta_changeset = 0,
      m_delta_uid = 0, m_delta_user_sid = 0, m_delta_lat = 10000000,
      m_delta_lon = 20000000\<rparr>"

definition thin_dense :: DenseNodes where
  "thin_dense =
     snd (projr (DenseNodes_add_nodes constants_nano no_metadata_options StringTable_new
                   DenseNodes_new (replicate 7999 single_node)))"

definition blob_bytes :: "StringTable \<Rightarrow> DenseNodes \<Rightarrow> byte list" where
  "blob_bytes st dn =
     projr (SerializeBlob_call constants_nano example_env
              (DenseNodes_blob no_metadata_options st dn))"

section \<open>Columns of DenseNodes after each statement\<close>

text \<open>
  What each statement of \<open>add_node\<close> does to each column and each delta encoder: it
  extends its own column, updates its own encoder and leaves the others as they are.
\<close>

lemma push_id_columns [simp]:
  "m_ids (push_id dn n) = m_ids dn @ [object_id n - m_delta_id dn]"
  "m_versions (push_id dn n) = m_versions dn"
  "m_timestamps (push_id dn n) = m_timestamps dn"
  "m_changesets (push_id dn n) = m_changesets dn"
  "m_uids (push_id dn n) = m_uids dn"
  "m_user_sids (push_id dn n) = m_user_sids dn"
  "m_visibles (push_id dn n) = m_visibles dn"
  "m_lats (push_id dn n) = m_lats dn"
  "m_lons (push_id dn n) = m_lons dn"
  "m_tags (push_id dn n) = m_tags dn"
  "m_delta_id (push_id dn n) = object_id n"
  "m_delta_timestamp (push_id dn n) = m_delta_timestamp dn"
  "m_delta_changeset (push_id dn n) = m_delta_changeset dn"
  "m_delta_uid (push_id dn n) = m_delta_uid dn"
  "m_delta_user_sid (push_id dn n) = m_delta_user_sid dn"
  "m_delta_lat (push_id dn n) = m_delta_lat dn"
  "m_delta_lon (push_id dn n) = m_delta_lon dn"
  by (simp_all add: push_id_def DeltaEncode_update_def)

lemma push_version_columns [simp]:
  "m_ids (push_version dn n) = m_ids dn"
  "m_versions (push_version dn n) = m_versions dn @ [object_version n]"
  "m_timestamps (push_version dn n) = m_timestamps dn"
  "m_changesets (push_version dn n) = m_changesets dn"
  "m_uids (push_version dn n) = m_uids dn"
  "m_user_sids (push_version dn n) = m_user_sids dn"
  "m_visibles (push_version dn n) = m_visibles dn"
  "m_lats (push_version dn n) = m_lats dn"
  "m_lons (push_version dn n) = m_lons dn"
  "m_tags (push_version dn n) = m_tags dn"
  "m_delta_id (push_version dn n) = m_delta_id dn"
  "m_delta_timestamp (push_version dn n) = m_delta_timestamp dn"
  "m_delta_changeset (push_version dn n) = m_delta_changeset dn"
  "m_delta_uid (push_version dn n) = m_delta_uid dn"
  "m_delta_user_sid (push_version dn n) = m_delta_user_sid dn"
  "m_delta_lat (push_version dn n) = m_delta_lat dn"
  "m_delta_lon (push_version dn n) = m_delta_lon dn"
  by (simp_all add: push_version_def DeltaEncode_update_def)

lemma push_timestamp_columns [simp]:
  "m_ids (push_timestamp dn n) = m_ids dn"
  "m_versions (push_timestamp dn n) = m_versions dn"
  "m_timestamps (push_timestamp dn n) = m_timestamps dn @ [ucast (ucast (object_timestamp n) :: 32 word) - ucast (m_delta_timestamp dn)]"
  "m_changesets (push_timestamp dn n) = m_changesets dn"
  "m_uids (push_timestamp dn n) = m_uids dn"
  "m_user_sids (push_timestamp dn n) = m_user_sids dn"
  "m_visibles (push_timestamp dn n) = m_visibles dn"
  "m_lats (push_timestamp dn n) = m_lats dn"
  "m_lons (push_timestamp dn n) = m_lons dn"
  "m_tags (push_timestamp dn n) = m_tags dn"
  "m_delta_id (push_timestamp dn n) = m_delta_id dn"
  "m_delta_timestamp (push_timestamp dn n) = ucast (object_timestamp n)"
  "m_delta_changeset (push_timestamp dn n) = m_delta_changeset dn"
  "m_delta_uid (push_timestamp dn n) = m_delta_uid dn"
  "m_delta_user_sid (push_timestamp dn n) = m_delta_user_sid dn"
  "m_delta_lat (push_timestamp dn n) = m_delta_lat dn"
  "m_delta_lon (push_timestamp dn n) = m_delta_lon dn"
  by (simp_all add: push_timestamp_def DeltaEncode_update_def)

lemma push_changeset_columns [simp]:
  "m_ids (push_changeset dn n) = m_ids dn"
  "m_versions (push_changeset dn n) = m_versions dn"
  "m_timestamps (push_changeset dn n) = m_timestamps dn"
  "m_changesets (push_changeset dn n) = m_changesets dn @ [ucast (object_changeset n) - ucast (m_delta_changeset dn)]"
  "m_uids (push_changeset dn n) = m_uids dn"
  "m_user_sids (push_changeset dn n) = m_user_sids dn"
  "m_visibles (push_changeset dn n) = m_visibles dn"
  "m_lats (push_changeset dn n) = m_lats dn"
  "m_lons (push_changeset dn n) = m_lons dn"
  "m_tags (push_changeset dn n) = m_tags dn"
  "m_delta_id (push_changeset dn n) = m_delta_id dn"
  "m_delta_timestamp (push_changeset dn n) = m_delta_timestamp dn"
  "m_delta_changeset (push_changeset dn n) = object_changeset n"
  "m_delta_uid (push_changeset dn n) = m_delta_uid dn"
  "m_delta_user_sid (push_changeset dn n) = m_delta_user_sid dn"
  "m_delta_lat (push_changeset dn n) = m_delta_lat dn"
  "m_delta_lon (push_changeset dn n) = m_delta_lon dn"
  by (simp_all add: push_changeset_def DeltaEncode_update_def)

lemma push_uid_columns [simp]:
  "m_ids (push_uid dn n) = m_ids dn"
  "m_versions (push_uid dn n) = m_versions dn"
  "m_timestamps (push_uid dn n) = m_timestamps dn"
  "m_changesets (push_uid dn n) = m_changesets dn"
  "m_uids (push_uid dn n) = m_uids dn @ [object_uid n - m_delta_uid dn]"
  "m_user_sids (push_uid dn n) = m_user_sids dn"
  "m_visibles (push_uid dn n) = m_visibles dn"
  "m_lats (push_uid dn n) = m_lats dn"
  "m_lons (push_uid dn n) = m_lons dn"
  "m_tags (push_uid dn n) = m_tags dn"
  "m_delta_id (push_uid dn n) = m_delta_id dn"
  "m_delta_timestamp (push_uid dn n) = m_delta_timestamp dn"
  "m_delta_changeset (push_uid dn n) = m_delta_changeset dn"
  "m_delta_uid (push_uid dn n) = object_uid n"
  "m_delta_user_sid (push_uid dn n) = m_delta_user_sid dn"
  "m_delta_lat (push_uid dn n) = m_delta_lat dn"
  "m_delta_lon (push_uid dn n) = m_delta_lon dn"
  by (simp_all add: push_uid_def DeltaEncode_update_def)

lemma push_visible_columns [simp]:
  "m_ids (push_visible dn n) = m_ids dn"
  "m_versions (push_visible dn n) = m_versions dn"
  "m_timestamps (push_visible dn n) = m_timestamps dn"
  "m_changesets (push_visible dn n) = m_changesets dn"
  "m_uids (push_visible dn n) = m_uids dn"
  "m_user_sids (push_visible dn n) = m_user_sids dn"
  "m_visibles (push_visible dn n) = m_visibles dn @ [object_visible n]"
  "m_lats (push_visible dn n) = m_lats dn"
  "m_lons (push_visible dn n) = m_lons dn"
  "m_tags (push_visible dn n) = m_tags dn"
  "m_delta_id (push_visible dn n) = m_delta_id dn"
  "m_delta_timestamp (push_visible dn n) = m_delta_timestamp dn"
  "m_delta_changeset (push_visible dn n) = m_delta_changeset dn"
  "m_delta_uid (push_visible dn n) = m_delta_uid dn"
  "m_delta_user_sid (push_visible dn n) = m_delta_user_sid dn"
  "m_delta_lat (push_visible dn n) = m_delta_lat dn"
  "m_delta_lon (push_visible dn n) = m_delta_lon dn"
  by (simp_all add: push_visible_def DeltaEncode_update_def)

lemma push_lat_columns [simp]:
  "m_ids (push_lat K dn n) = m_ids dn"
  "m_versions (push_lat K dn n) = m_versions dn"
  "m_timestamps (push_lat K dn n) = m_timestamps dn"
  "m_changesets (push_lat K dn n) = m_changesets dn"
  "m_uids (push_lat K dn n) = m_uids dn"
  "m_user_sids (push_lat K dn n) = m_user_sids dn"
  "m_visibles (push_lat K dn n) = m_visibles dn"
  "m_lats (push_lat K dn n) = m_lats dn @ [lonlat2int K (lat_without_check (node_location n)) - m_delta_lat dn]"
  "m_lons (push_lat K dn n) = m_lons dn"
  "m_tags (push_lat K dn n) = m_tags dn"
  "m_delta_id (push_lat K dn n) = m_delta_id dn"
  "m_delta_timestamp (push_lat K dn n) = m_delta_timestamp dn"
  "m_delta_changeset (push_lat K dn n) = m_delta_changeset dn"
  "m_delta_uid (push_lat K dn n) = m_delta_uid dn"
  "m_delta_user_sid (push_lat K dn n) = m_delta_user_sid dn"
  "m_delta_lat (push_lat K dn n) = lonlat2int K (lat_without_check (node_location n))"
  "m_delta_lon (push_lat K dn n) = m_delta_lon dn"
  by (simp_all add: push_lat_def DeltaEncode_update_def)

lemma push_lon_columns [simp]:
  "m_ids (push_lon K dn n) = m_ids dn"
  "m_versions (push_lon K dn n) = m_versions dn"
  "m_timestamps (push_lon K dn n) = m_timestamps dn"
  "m_changesets (push_lon K dn n) = m_changesets dn"
  "m_uids (push_lon K dn n) = m_uids dn"
  "m_user_sids (push_lon K dn n) = m_user_sids dn"
  "m_visibles (push_lon K dn n) = m_visibles dn"
  "m_lats (push_lon K dn n) = m_lats dn"
  "m_lons (push_lon K dn n) = m_lons dn @ [lonlat2int K (lon_without_check (node_location n)) - m_delta_lon dn]"
  "m_tags (push_lon K dn n) = m_tags dn"
  "m_delta_id (push_lon K dn n) = m_delta_id dn"
  "m_delta_timestamp (push_lon K dn n) = m_delta_timestamp dn"
  "m_delta_changeset (push_lon K dn n) = m_delta_changeset dn"
  "m_delta_uid (push_lon K dn n) = m_delta_uid dn"
  "m_delta_user_sid (push_lon K dn n) = m_delta_user_sid dn"
  "m_delta_lat (push_lon K dn n) = m_delta_lat dn"
  "m_delta_lon (push_lon K dn n) = lonlat2int K (lon_without_check (node_location n))"
  by (simp_all add: push_lon_def DeltaEncode_update_def)

lemma push_user_columns [simp]:
  "m_ids (snd (push_user st dn n)) = m_ids dn"
  "m_versions (snd (push_user st dn n)) = m_versions dn"
  "m_timestamps (snd (push_user st dn n)) = m_timestamps dn"
  "m_changesets (snd (push_user st dn n)) = m_changesets dn"
  "m_uids (snd (push_user st dn n)) = m_uids dn"
  "m_user_sids (snd (push_user st dn n)) = m_user_sids dn @ [fst (StringTable_add st (object_user n)) - m_delta_user_sid dn]"
  "m_visibles (snd (push_user st dn n)) = m_visibles dn"
  "m_lats (snd (push_user st dn n)) = m_lats dn"
  "m_lons (snd (push_user st dn n)) = m_lons dn"
  "m_tags (snd (push_user st dn n)) = m_tags dn"
  "m_delta_id (snd (push_user st dn n)) = m_delta_id dn"
  "m_delta_timestamp (snd (push_user st dn n)) = m_delta_timestamp dn"
  "m_delta_changeset (snd (push_user st dn n)) = m_delta_changeset dn"
  "m_delta_uid (snd (push_user st dn n)) = m_delta_uid dn"
  "m_delta_user_sid (snd (push_user st dn n)) = fst (StringTable_add st (object_user n))"
  "m_delta_lat (snd (push_user st dn n)) = m_delta_lat dn"
  "m_delta_lon (snd (push_user st dn n)) = m_delta_lon dn"
  "fst (push_user st dn n) = snd (StringTable_add st (object_user n))"
  by (simp_all add: push_user_def DeltaEncode_update_def split_def Let_def)

lemma push_tags_columns [simp]:
  "m_ids (snd (push_tags st dn n)) = m_ids dn"
  "m_versions (snd (push_tags st dn n)) = m_versions dn"
  "m_timestamps (snd (push_tags st dn n)) = m_timestamps dn"
  "m_changesets (snd (push_tags st dn n)) = m_changesets dn"
  "m_uids (snd (push_tags st dn n)) = m_uids dn"
  "m_user_sids (snd (push_tags st dn n)) = m_user_sids dn"
  "m_visibles (snd (push_tags st dn n)) = m_visibles dn"
  "m_lats (snd (push_tags st dn n)) = m_lats dn"
  "m_lons (snd (push_tags st dn n)) = m_lons dn"
  "m_tags (snd (push_tags st dn n)) = snd (add_tags st (m_tags dn) (object_tags n)) @ [0]"
  "m_delta_id (snd (push_tags st dn n)) = m_delta_id dn"
  "m_delta_timestamp (snd (push_tags st dn n)) = m_delta_timestamp dn"
  "m_delta_changeset (snd (push_tags st dn n)) = m_delta_changeset dn"
  "m_delta_uid (snd (push_tags st dn n)) = m_delta_uid dn"
  "m_delta_user_sid (snd (push_tags st dn n)) = m_delta_user_sid dn"
  "m_delta_lat (snd (push_tags st dn n)) = m_delta_lat dn"
  "m_delta_lon (snd (push_tags st dn n)) = m_delta_lon dn"
  "fst (push_tags st dn n) = fst (add_tags st (m_tags dn) (object_tags n))"
  by (simp_all add: push_tags_def DeltaEncode_update_def split_def Let_def)

lemmas DenseNodes_if_distrib =
  if_distrib [of m_ids]
  if_distrib [of m_versions]
  if_distrib [of m_timestamps]
  if_distrib [of m_changesets]
  if_distrib [of m_uids]
  if_distrib [of m_user_sids]
  if_distrib [of m_visibles]
  if_distrib [of m_lats]
  if_distrib [of m_lons]
  if_distrib [of m_tags]
  if_distrib [of m_delta_id]
  if_distrib [of m_delta_timestamp]
  if_distrib [of m_delta_changeset]
  if_distrib [of m_delta_uid]
  if_distrib [of m_delta_user_sid]
  if_distrib [of m_delta_lat]
  if_distrib [of m_delta_lon]
  if_distrib [of fst] if_distrib [of snd]


section \<open>One call of add_node\<close>

lemma add_node_statements_columns:
  shows "m_ids (snd (add_node_statements K opts st dn n)) = m_ids dn @ [object_id n - m_delta_id dn]"
    and "m_delta_id (snd (add_node_statements K opts st dn n)) = object_id n"
    and "m_versions (snd (add_node_statements K opts st dn n)) =
           (if md_version (add_metadata opts) then m_versions dn @ [object_version n]
            else m_versions dn)"
    and "m_timestamps (snd (add_node_statements K opts st dn n)) =
           (if md_timestamp (add_metadata opts)
            then m_timestamps dn @
                   [ucast (ucast (object_timestamp n) :: 32 word) - ucast (m_delta_timestamp dn)]
            else m_timestamps dn)"
    and "m_delta_timestamp (snd (add_node_statements K opts st dn n)) =
           (if md_timestamp (add_metadata opts) then ucast (object_timestamp n)
            else m_delta_timestamp dn)"
    and "m_changesets (snd (add_node_statements K opts st dn n)) =
           (if md_changeset (add_metadata opts)
            then m_changesets dn @ [ucast (object_changeset n) - ucast (m_delta_changeset dn)]
            else m_changesets dn)"
    and "m_uids (snd (add_node_statements K opts st dn n)) =
           (if md_uid (add_metadata opts) then m_uids dn @ [object_uid n - m_delta_uid dn]
            else m_uids dn)"
    and "m_user_sids (snd (add_node_statements K opts st dn n)) =
           (if md_user (add_metadata opts)
            then m_user_sids dn @
                   [fst (StringTable_add st (object_user n)) - m_delta_user_sid dn]
            else m_user_sids dn)"
    and "m_visibles (snd (add_node_statements K opts st dn n)) =
           (if add_visible_flag opts then m_visibles dn @ [object_visible n]
            else m_visibles dn)"
    and "m_lats (snd (add_node_statements K opts st dn n)) =
           m_lats dn @ [lonlat2int K (lat_without_check (node_location n)) - m_delta_lat dn]"
    and "m_delta_lat (snd (add_node_statements K opts st dn n)) = lonlat2int K (lat_without_check (node_location n))"
    and "m_lons (snd (add_node_statements K opts st dn n)) =
           m_lons dn @ [lonlat2int K (lon_without_check (node_location n)) - m_delta_lon dn]"
    and "m_delta_lon (snd (add_node_statements K opts st dn n)) = lonlat2int K (lon_without_check (node_location n))"
    and "m_tags (snd (add_node_statements K opts st dn n)) =
           snd (add_tags (if md_user (add_metadata opts)
                          then snd (StringTable_add st (object_user n)) else st)
                  (m_tags dn) (object_tags n)) @ [0]"
    and "fst (add_node_statements K opts st dn n) =
           fst (add_tags (if md_user (add_metadata opts)
                          then snd (StringTable_add st (object_user n)) else st)
                  (m_tags dn) (object_tags n))"
  unfolding add_node_statements_def Let_def
  by (simp_all add: DenseNodes_if_distrib)

lemma add_node_Inr_iff:
  "DenseNodes_add_node K opts st dn n = Inr r \<longleftrightarrow>
     (md_version (add_metadata opts) \<longrightarrow> unat (object_version n) \<le> INT32_MAX) \<and>
     r = add_node_statements K opts st dn n"
  by (auto simp add: DenseNodes_add_node_def)

section \<open>String table\<close>

lemma index_of_less: "index_of s xs = Some i \<Longrightarrow> i < length xs"
  by (induction xs arbitrary: i) (auto split: if_splits option.splits)

lemma index_of_nth: "index_of s xs = Some i \<Longrightarrow> xs ! i = s"
  by (induction xs arbitrary: i) (auto split: if_splits option.splits)

lemma index_of_None: "index_of s xs = None \<longleftrightarrow> s \<notin> set xs"
  by (induction xs) (auto split: if_splits option.splits)

lemma StringTable_add_length:
  "length (entries st) \<le> length (entries (snd (StringTable_add st s)))"
  by (simp add: StringTable_add_def split: option.split)

lemma StringTable_add_length_le:
  "length (entries (snd (StringTable_add st s))) \<le> Suc (length (entries st))"
  by (simp add: StringTable_add_def split: option.split)

lemma StringTable_indices_mono:
  "length (entries st) \<le> length (entries st') \<Longrightarrow>
   set (StringTable_indices st) \<subseteq> set (StringTable_indices st')"
  by (auto simp add: StringTable_indices_def)

lemma StringTable_add_index:
  "fst (StringTable_add st s) \<in> set (StringTable_indices (snd (StringTable_add st s)))"
proof (cases "index_of s (entries st)")
  case None
  then show ?thesis
    by (simp add: StringTable_add_def StringTable_indices_def)
next
  case (Some i)
  then have "i < length (entries st)" by (rule index_of_less)
  with Some show ?thesis
    by (simp add: StringTable_add_def StringTable_indices_def)
qed

lemma StringTable_indices_nonzero:
  assumes "length (entries st) < 2 ^ 32"
  shows "0 \<notin> set (StringTable_indices st)"
proof
  assume "0 \<in> set (StringTable_indices st)"
  then obtain i where i: "i < length (entries st)" and z: "(word_of_nat (i + 1) :: 32 word) = 0"
    by (auto simp add: StringTable_indices_def)
  from z have "(2::nat) ^ LENGTH(32) dvd i + 1"
    by (simp only: word_of_nat_eq_0_iff)
  then have "(2::nat) ^ LENGTH(32) \<le> i + 1"
    by (rule dvd_imp_le) simp
  with i assms show False by simp
qed

text \<open>The loop over the tags appends two indices for each tag and only extends the table.\<close>

lemma add_tags_step:
  "add_tags st ts ((k, v) # tags) =
     add_tags (snd (StringTable_add (snd (StringTable_add st k)) v))
       (ts @ [fst (StringTable_add st k), fst (StringTable_add (snd (StringTable_add st k)) v)])
       tags"
  by (simp add: split_def Let_def)

lemma add_tags_grow:
  "length (entries st) \<le> length (entries (fst (add_tags st ts tags)))"
proof (induction tags arbitrary: st ts)
  case Nil
  show ?case by simp
next
  case (Cons kv tags)
  obtain k v where kv: "kv = (k, v)" by (cases kv)
  let ?st1 = "snd (StringTable_add st k)"
  let ?st2 = "snd (StringTable_add ?st1 v)"
  have "length (entries st) \<le> length (entries ?st1)" by (rule StringTable_add_length)
  also have "\<dots> \<le> length (entries ?st2)" by (rule StringTable_add_length)
  also have "\<dots> \<le> length (entries (fst (add_tags ?st2
      (ts @ [fst (StringTable_add st k), fst (StringTable_add ?st1 v)]) tags)))"
    by (rule Cons.IH)
  finally show ?case unfolding kv add_tags_step .
qed

lemma add_tags_append:
  "\<exists>run. snd (add_tags st ts tags) = ts @ run \<and> length run = 2 * length tags \<and>
         set run \<subseteq> set (StringTable_indices (fst (add_tags st ts tags)))"
proof (induction tags arbitrary: st ts)
  case Nil
  show ?case by simp
next
  case (Cons kv tags)
  obtain k v where kv: "kv = (k, v)" by (cases kv)
  let ?st1 = "snd (StringTable_add st k)"
  let ?ki = "fst (StringTable_add st k)"
  let ?st2 = "snd (StringTable_add ?st1 v)"
  let ?vi = "fst (StringTable_add ?st1 v)"
  let ?r = "add_tags ?st2 (ts @ [?ki, ?vi]) tags"
  from Cons.IH [of ?st2 "ts @ [?ki, ?vi]"] obtain run where
    run: "snd ?r = (ts @ [?ki, ?vi]) @ run" "length run = 2 * length tags"
      "set run \<subseteq> set (StringTable_indices (fst ?r))"
    by blast
  have le2: "length (entries ?st2) \<le> length (entries (fst ?r))" by (rule add_tags_grow)
  have le1: "length (entries ?st1) \<le> length (entries (fst ?r))"
    using StringTable_add_length [of ?st1 v] le2 by linarith
  have "?ki \<in> set (StringTable_indices ?st1)" by (rule StringTable_add_index)
  with StringTable_indices_mono [OF le1] have ki: "?ki \<in> set (StringTable_indices (fst ?r))"
    by blast
  have "?vi \<in> set (StringTable_indices ?st2)" by (rule StringTable_add_index)
  with StringTable_indices_mono [OF le2] have vi: "?vi \<in> set (StringTable_indices (fst ?r))"
    by blast
  have "snd ?r = ts @ (?ki # ?vi # run)" using run(1) by simp
  moreover have "length (?ki # ?vi # run) = 2 * length (kv # tags)" using run(2) by simp
  moreover have "set (?ki # ?vi # run) \<subseteq> set (StringTable_indices (fst ?r))"
    using ki vi run(3) by simp
  ultimately show ?case unfolding kv add_tags_step by blast
qed

section \<open>A sequence of add_node calls\<close>

lemma add_nodes_Cons:
  "DenseNodes_add_nodes K opts st dn (n # ns) =
     (if md_version (add_metadata opts) \<and> \<not> unat (object_version n) \<le> INT32_MAX
      then Inl assertion_failure
      else DenseNodes_add_nodes K opts (fst (add_node_statements K opts st dn n))
             (snd (add_node_statements K opts st dn n)) ns)"
  by (simp add: DenseNodes_add_node_def split_def)

declare DenseNodes_add_nodes.simps(2) [simp del]

lemma add_nodes_succeeds:
  "\<forall>n \<in> set ns. md_version (add_metadata opts) \<longrightarrow> unat (object_version n) \<le> INT32_MAX
   \<Longrightarrow> \<exists>r. DenseNodes_add_nodes K opts st dn ns = Inr r"
  by (induction ns arbitrary: st dn) (simp_all add: add_nodes_Cons)

lemma add_nodes_lengths:
  assumes "DenseNodes_add_nodes K opts st dn ns = Inr r"
  shows "length (m_ids (snd r)) = length (m_ids dn) + length ns"
    and "length (m_lats (snd r)) = length (m_lats dn) + length ns"
    and "length (m_lons (snd r)) = length (m_lons dn) + length ns"
    and "length (m_versions (snd r)) =
           length (m_versions dn) + (if md_version (add_metadata opts) then length ns else 0)"
    and "length (m_timestamps (snd r)) =
           length (m_timestamps dn) + (if md_timestamp (add_metadata opts) then length ns else 0)"
    and "length (m_changesets (snd r)) =
           length (m_changesets dn) + (if md_changeset (add_metadata opts) then length ns else 0)"
    and "length (m_uids (snd r)) =
           length (m_uids dn) + (if md_uid (add_metadata opts) then length ns else 0)"
    and "length (m_user_sids (snd r)) =
           length (m_user_sids dn) + (if md_user (add_metadata opts) then length ns else 0)"
    and "length (m_visibles (snd r)) =
           length (m_visibles dn) + (if add_visible_flag opts then length ns else 0)"
  using assms
  by (induction ns arbitrary: st dn)
     (auto simp add: add_nodes_Cons add_node_statements_columns split: if_splits)

lemma add_node_statements_grow:
  "length (entries st) \<le> length (entries (fst (add_node_statements K opts st dn n)))"
proof -
  let ?st1 = "if md_user (add_metadata opts) then snd (StringTable_add st (object_user n)) else st"
  have "length (entries st) \<le> length (entries ?st1)"
    by (simp add: StringTable_add_length)
  also have "\<dots> \<le> length (entries (fst (add_tags ?st1 (m_tags dn) (object_tags n))))"
    by (rule add_tags_grow)
  finally show ?thesis by (simp only: add_node_statements_columns)
qed

lemma add_nodes_grow:
  "DenseNodes_add_nodes K opts st dn ns = Inr r \<Longrightarrow>
   length (entries st) \<le> length (entries (fst r))"
proof (induction ns arbitrary: st dn)
  case Nil
  then show ?case by auto
next
  case (Cons n ns)
  from Cons.prems have
    "DenseNodes_add_nodes K opts (fst (add_node_statements K opts st dn n))
       (snd (add_node_statements K opts st dn n)) ns = Inr r"
    by (simp add: add_nodes_Cons split: if_splits)
  from Cons.IH [OF this] add_node_statements_grow [of st K opts dn n]
  show ?case by linarith
qed

text \<open>
  The tag array after the calls: for each node a run of two indices for each of its tags,
  then one 0.
\<close>

lemma add_nodes_tags:
  "DenseNodes_add_nodes K opts st dn ns = Inr r \<Longrightarrow>
   \<exists>runs. m_tags (snd r) = m_tags dn @ concat (map (\<lambda>run. run @ [0]) runs) \<and>
          map length runs = map (\<lambda>n. 2 * length (object_tags n)) ns \<and>
          (\<forall>run \<in> set runs. set run \<subseteq> set (StringTable_indices (fst r)))"
proof (induction ns arbitrary: st dn)
  case Nil
  then show ?case by auto
next
  case (Cons n ns)
  let ?s = "add_node_statements K opts st dn n"
  let ?st1 = "if md_user (add_metadata opts) then snd (StringTable_add st (object_user n)) else st"
  from Cons.prems have rest: "DenseNodes_add_nodes K opts (fst ?s) (snd ?s) ns = Inr r"
    by (simp add: add_nodes_Cons split: if_splits)
  from Cons.IH [OF rest] obtain runs where
    runs: "m_tags (snd r) = m_tags (snd ?s) @ concat (map (\<lambda>run. run @ [0]) runs)"
      "map length runs = map (\<lambda>n. 2 * length (object_tags n)) ns"
      "\<forall>run \<in> set runs. set run \<subseteq> set (StringTable_indices (fst r))"
    by blast
  from add_tags_append [of ?st1 "m_tags dn" "object_tags n"] obtain run where
    run: "snd (add_tags ?st1 (m_tags dn) (object_tags n)) = m_tags dn @ run"
      "length run = 2 * length (object_tags n)"
      "set run \<subseteq> set (StringTable_indices (fst (add_tags ?st1 (m_tags dn) (object_tags n))))"
    by blast
  have tags: "m_tags (snd ?s) = m_tags dn @ run @ [0]"
    using run(1) by (simp only: add_node_statements_columns) simp
  have "fst ?s = fst (add_tags ?st1 (m_tags dn) (object_tags n))"
    by (simp only: add_node_statements_columns)
  with run(3) have "set run \<subseteq> set (StringTable_indices (fst ?s))" by simp
  moreover have "set (StringTable_indices (fst ?s)) \<subseteq> set (StringTable_indices (fst r))"
    by (rule StringTable_indices_mono) (rule add_nodes_grow [OF rest])
  ultimately have sub: "set run \<subseteq> set (StringTable_indices (fst r))" by blast
  have "m_tags (snd r) = m_tags dn @ concat (map (\<lambda>run. run @ [0]) (run # runs))"
    using runs(1) tags by simp
  moreover have "map length (run # runs) = map (\<lambda>n. 2 * length (object_tags n)) (n # ns)"
    using runs(2) run(2) by simp
  moreover have "\<forall>x \<in> set (run # runs). set x \<subseteq> set (StringTable_indices (fst r))"
    using runs(3) sub by simp
  ultimately show ?case by blast
qed

lemma count_list_runs:
  "\<forall>run \<in> set runs. x \<notin> set run \<Longrightarrow>
   count_list (concat (map (\<lambda>run. run @ [x]) runs)) x = length runs"
  by (induction runs) (simp_all add: count_list_0_iff)

text \<open>The delta-encoded columns after the calls.\<close>

lemma add_nodes_ids:
  "DenseNodes_add_nodes K opts st dn ns = Inr r \<Longrightarrow>
   m_ids (snd r) = m_ids dn @ delta_loop id (m_delta_id dn) (map object_id ns)"
  by (induction ns arbitrary: st dn)
     (auto simp add: add_nodes_Cons add_node_statements_columns DeltaEncode_update_def
        split: if_splits)

lemma add_nodes_lats:
  "DenseNodes_add_nodes K opts st dn ns = Inr r \<Longrightarrow>
   m_lats (snd r) = m_lats dn @ delta_loop id (m_delta_lat dn)
     (map (\<lambda>n. lonlat2int K (lat_without_check (node_location n))) ns)"
  by (induction ns arbitrary: st dn)
     (auto simp add: add_nodes_Cons add_node_statements_columns DeltaEncode_update_def
        split: if_splits)

lemma add_nodes_lons:
  "DenseNodes_add_nodes K opts st dn ns = Inr r \<Longrightarrow>
   m_lons (snd r) = m_lons dn @ delta_loop id (m_delta_lon dn)
     (map (\<lambda>n. lonlat2int K (lon_without_check (node_location n))) ns)"
  by (induction ns arbitrary: st dn)
     (auto simp add: add_nodes_Cons add_node_statements_columns DeltaEncode_update_def
        split: if_splits)

lemma add_nodes_timestamps:
  "DenseNodes_add_nodes K opts st dn ns = Inr r \<Longrightarrow> md_timestamp (add_metadata opts) \<Longrightarrow>
   m_timestamps (snd r) = m_timestamps dn @ delta_loop ucast (m_delta_timestamp dn)
     (map (\<lambda>n. ucast (object_timestamp n) :: 32 word) ns)"
  by (induction ns arbitrary: st dn)
     (auto simp add: add_nodes_Cons add_node_statements_columns DeltaEncode_update_def
        split: if_splits)

section \<open>Rounding and evaluation\<close>

lemma std_round_close: "\<bar>real_of_int (std_round x) - x\<bar> \<le> 1 / 2"
proof (cases "0 \<le> x")
  case True
  then have eq: "std_round x = \<lfloor>x + 1 / 2\<rfloor>" by (simp add: std_round_def)
  have "real_of_int \<lfloor>x + 1 / 2\<rfloor> \<le> x + 1 / 2" "x + 1 / 2 < real_of_int \<lfloor>x + 1 / 2\<rfloor> + 1"
    by linarith+
  then show ?thesis unfolding eq by linarith
next
  case False
  then have eq: "std_round x = \<lceil>x - 1 / 2\<rceil>" by (simp add: std_round_def)
  have "x - 1 / 2 \<le> real_of_int \<lceil>x - 1 / 2\<rceil>" "real_of_int \<lceil>x - 1 / 2\<rceil> < x - 1 / 2 + 1"
    by linarith+
  then show ?thesis unfolding eq by linarith
qed

lemma std_round_of_int: "std_round (real_of_int k) = k"
  by (cases "0 \<le> k") (simp_all add: std_round_def, (linarith)?)

lemma sint_word_of_int_64:
  "- (2 ^ 63) \<le> x \<Longrightarrow> x < 2 ^ 63 \<Longrightarrow> sint (word_of_int x :: 64 word) = x"
  by (simp add: sint_sbintrunc' signed_take_bit_int_eq_self)

text \<open>The exponent, and the rounding of double operations.\<close>

lemma bit_length_bounds:
  "0 < n \<Longrightarrow> 2 ^ (bit_length n - 1) \<le> n \<and> n < 2 ^ bit_length n"
proof (induction n rule: bit_length.induct)
  case (1 n)
  show ?case
  proof (cases "n div 2 = 0")
    case True
    with 1(2) have "n = Suc 0" by (simp add: div_eq_0_iff)
    moreover have "bit_length (Suc 0) = Suc 0"
      by (simp add: bit_length.simps [of "Suc 0"] bit_length.simps [of 0])
    ultimately show ?thesis by simp
  next
    case False
    with 1 have ih: "2 ^ (bit_length (n div 2) - 1) \<le> n div 2" "n div 2 < 2 ^ bit_length (n div 2)"
      by simp_all
    have pos: "0 < bit_length (n div 2)"
      using False by (simp add: bit_length.simps [of "n div 2"])
    have b: "bit_length n = Suc (bit_length (n div 2))"
      using 1(2) by (simp add: bit_length.simps [of n])
    from pos have "(2::nat) ^ bit_length (n div 2) = 2 * 2 ^ (bit_length (n div 2) - 1)"
      by (cases "bit_length (n div 2)") simp_all
    with ih(1) have lo: "2 ^ bit_length (n div 2) \<le> n" by simp
    from ih(2) have "n < 2 * 2 ^ bit_length (n div 2)" by simp
    with lo show ?thesis by (simp add: b)
  qed
qed

lemma binary_exponent_bounds:
  assumes "x \<noteq> 0"
  shows "2 powi binary_exponent x \<le> \<bar>x\<bar>" and "\<bar>x\<bar> < 2 powi (binary_exponent x + 1)"
proof -
  have "2 powi binary_exponent x \<le> \<bar>x\<bar> \<and> \<bar>x\<bar> < 2 powi (binary_exponent x + 1)"
  proof (cases "1 \<le> \<bar>x\<bar>")
    case True
    define n where "n = nat \<lfloor>\<bar>x\<bar>\<rfloor>"
    have f: "1 \<le> \<lfloor>\<bar>x\<bar>\<rfloor>" using True by (simp add: le_floor_iff)
    then have r: "real n = real_of_int \<lfloor>\<bar>x\<bar>\<rfloor>" by (simp add: n_def)
    have n: "0 < n" "real n \<le> \<bar>x\<bar>" "\<bar>x\<bar> < real n + 1"
      using f unfolding r by (simp add: n_def, linarith+)
    have e: "binary_exponent x = int (bit_length n) - 1"
      using True by (simp add: binary_exponent_def n_def)
    from bit_length_bounds [OF n(1)]
    have b: "2 ^ (bit_length n - 1) \<le> n" "n < 2 ^ bit_length n" by simp_all
    have pos: "0 < bit_length n" using n(1) by (simp add: bit_length.simps [of n])
    then have e1: "binary_exponent x = int (bit_length n - 1)"
      and e2: "binary_exponent x + 1 = int (bit_length n)"
      using e by simp_all
    from b(1) have "real (2 ^ (bit_length n - 1)) \<le> real n" by (rule of_nat_mono)
    then have "2 ^ (bit_length n - 1) \<le> real n" by (simp only: of_nat_power of_nat_numeral)
    with n(2) have "2 ^ (bit_length n - 1) \<le> \<bar>x\<bar>" by linarith
    then have lo: "2 powi binary_exponent x \<le> \<bar>x\<bar>"
      unfolding e1 by simp
    from b(2) have "n + 1 \<le> 2 ^ bit_length n" by simp
    then have "real (n + 1) \<le> real (2 ^ bit_length n)" by (rule of_nat_mono)
    then have "real n + 1 \<le> 2 ^ bit_length n"
      by (simp only: of_nat_power of_nat_numeral of_nat_add of_nat_1)
    with n(3) have "\<bar>x\<bar> < 2 ^ bit_length n" by linarith
    then have "\<bar>x\<bar> < 2 powi (binary_exponent x + 1)"
      unfolding e2 by simp
    with lo show ?thesis by simp
  next
    case False
    define y where "y = 1 / \<bar>x\<bar>"
    define m where "m = nat (\<lceil>y\<rceil> - 1)"
    have x: "0 < \<bar>x\<bar>" "\<bar>x\<bar> < 1" using assms False by simp_all
    then have y: "1 < y" by (simp add: y_def)
    then have c: "2 \<le> \<lceil>y\<rceil>" by linarith
    have r: "real m = real_of_int \<lceil>y\<rceil> - 1" using c by (simp add: m_def)
    have m: "0 < m" "real m < y" "y \<le> real m + 1"
      using c unfolding r by (simp add: m_def, linarith+)
    have e: "binary_exponent x = - int (bit_length m)"
      using False by (simp add: binary_exponent_def m_def y_def)
    from bit_length_bounds [OF m(1)]
    have b: "2 ^ (bit_length m - 1) \<le> m" "m < 2 ^ bit_length m" by simp_all
    have pos: "0 < bit_length m" using m(1) by (simp add: bit_length.simps [of m])
    from b(2) have "m + 1 \<le> 2 ^ bit_length m" by simp
    then have "real (m + 1) \<le> real (2 ^ bit_length m)" by (rule of_nat_mono)
    then have "real m + 1 \<le> 2 ^ bit_length m"
      by (simp only: of_nat_power of_nat_numeral of_nat_add of_nat_1)
    with m(3) have "y \<le> 2 ^ bit_length m" by linarith
    then have "1 / \<bar>x\<bar> \<le> 2 ^ bit_length m" by (simp add: y_def)
    then have "1 \<le> 2 ^ bit_length m * \<bar>x\<bar>" using x(1) by (simp add: field_simps)
    then have lo: "2 powi binary_exponent x \<le> \<bar>x\<bar>"
      unfolding e by (simp add: power_int_minus field_simps)
    from b(1) have "real (2 ^ (bit_length m - 1)) \<le> real m" by (rule of_nat_mono)
    then have "2 ^ (bit_length m - 1) \<le> real m" by (simp only: of_nat_power of_nat_numeral)
    with m(2) have "2 ^ (bit_length m - 1) < y" by linarith
    then have "2 ^ (bit_length m - 1) < 1 / \<bar>x\<bar>" by (simp add: y_def)
    then have "2 ^ (bit_length m - 1) * \<bar>x\<bar> < 1" using x(1) by (simp add: field_simps)
    moreover have "binary_exponent x + 1 = - int (bit_length m - 1)"
      using e pos by simp
    ultimately have "\<bar>x\<bar> < 2 powi (binary_exponent x + 1)"
      by (simp add: power_int_minus field_simps)
    with lo show ?thesis by simp
  qed
  then show "2 powi binary_exponent x \<le> \<bar>x\<bar>" and "\<bar>x\<bar> < 2 powi (binary_exponent x + 1)"
    by simp_all
qed

lemma two_powi_less:
  assumes "(2::real) powi a < 2 powi b"
  shows "a < b"
proof (rule ccontr)
  assume "\<not> a < b"
  then have "b \<le> a" by simp
  from power_int_increasing [OF this, of "2::real"] have "(2::real) powi b \<le> 2 powi a" by simp
  with assms show False by linarith
qed

lemma binary_exponent_eqI:
  assumes "2 powi e \<le> \<bar>x\<bar>" and "\<bar>x\<bar> < 2 powi (e + 1)"
  shows "binary_exponent x = e"
proof -
  have p: "0 < (2::real) powi e" by simp
  have "x \<noteq> 0"
  proof
    assume "x = 0"
    with assms(1) have "(2::real) powi e \<le> 0" by simp
    with p show False by linarith
  qed
  note b = binary_exponent_bounds [OF this]
  have "(2::real) powi e < 2 powi (binary_exponent x + 1)" using assms(1) b(2) by linarith
  then have 1: "e < binary_exponent x + 1" by (rule two_powi_less)
  have "(2::real) powi binary_exponent x < 2 powi (e + 1)" using assms(2) b(1) by linarith
  then have 2: "binary_exponent x < e + 1" by (rule two_powi_less)
  from 1 2 show ?thesis by simp
qed

lemma round_half_even_of_int: "round_half_even (real_of_int m) = m"
  by (simp add: round_half_even_def)

lemma round_half_even_close: "\<bar>real_of_int (round_half_even r) - r\<bar> \<le> 1 / 2"
proof -
  have "real_of_int \<lfloor>r\<rfloor> \<le> r" "r < real_of_int \<lfloor>r\<rfloor> + 1" by linarith+
  then show ?thesis by (auto simp add: round_half_even_def Let_def)
qed

lemma double_ulp_pos: "0 < double_ulp x"
  by (simp add: double_ulp_def)

lemma round_to_double_close: "\<bar>round_to_double x - x\<bar> \<le> double_ulp x / 2"
proof (cases "x = 0")
  case True
  then show ?thesis using double_ulp_pos [of x] by (simp add: round_to_double_def)
next
  case False
  let ?u = "double_ulp x"
  have u: "0 < ?u" by (rule double_ulp_pos)
  have "\<bar>real_of_int (round_half_even (x / ?u)) - x / ?u\<bar> \<le> 1 / 2"
    by (rule round_half_even_close)
  then have "\<bar>real_of_int (round_half_even (x / ?u)) - x / ?u\<bar> * ?u \<le> 1 / 2 * ?u"
    using u by (simp only: mult_le_cancel_right_pos)
  moreover have "\<bar>real_of_int (round_half_even (x / ?u)) - x / ?u\<bar> * ?u
      = \<bar>real_of_int (round_half_even (x / ?u)) * ?u - x\<bar>"
  proof -
    have "\<bar>real_of_int (round_half_even (x / ?u)) - x / ?u\<bar> * ?u
        = \<bar>(real_of_int (round_half_even (x / ?u)) - x / ?u) * ?u\<bar>"
      using u by (simp add: abs_mult)
    also have "(real_of_int (round_half_even (x / ?u)) - x / ?u) * ?u
        = real_of_int (round_half_even (x / ?u)) * ?u - x"
      using u by (simp add: left_diff_distrib)
    finally show ?thesis .
  qed
  ultimately show ?thesis using False by (simp add: round_to_double_def)
qed

text \<open>A multiple of a power of two with a significand below \<open>2\<^sup>5\<^sup>3\<close> is a double.\<close>

lemma round_to_double_dyadic:
  assumes "\<bar>m\<bar> < 2 ^ 53" and "k \<le> 1074"
  shows "round_to_double (real_of_int m / 2 ^ k) = real_of_int m / 2 ^ k"
proof (cases "m = 0")
  case True
  then show ?thesis by (simp add: round_to_double_def)
next
  case False
  define x where "x = real_of_int m / 2 ^ k"
  define u where "u = max (binary_exponent x - 52) (- 1074)"
  have x: "x \<noteq> 0" using False by (simp add: x_def)
  note b = binary_exponent_bounds [OF x]
  have "\<bar>real_of_int m\<bar> < 2 ^ 53"
    using assms(1) by (metis of_int_abs of_int_less_numeral_power_cancel_iff)
  then have "\<bar>x\<bar> < 2 ^ 53 / 2 ^ k" by (simp add: x_def divide_strict_right_mono)
  also have "(2::real) ^ 53 / 2 ^ k = 2 powi (53 - int k)"
    by (simp add: power_int_diff)
  finally have "(2::real) powi binary_exponent x < 2 powi (53 - int k)" using b(1) by linarith
  then have "binary_exponent x < 53 - int k" by (rule two_powi_less)
  then have le: "u \<le> - int k" using assms(2) by (simp add: u_def)
  define j where "j = nat (- int k - u)"
  have j: "int j = - int k - u" using le by (simp add: j_def)
  have ulp: "double_ulp x = 2 powi u" by (simp add: double_ulp_def u_def)
  have "(2::real) powi (- int k) = 2 powi u * 2 powi (int j)"
    unfolding j by (simp flip: power_int_add)
  then have k: "1 / (2::real) ^ k = 2 powi u * 2 ^ j"
    by (simp add: power_int_minus_divide)
  have "x = real_of_int m * (1 / 2 ^ k)" by (simp add: x_def)
  then have xm: "x = real_of_int (m * 2 ^ j) * 2 powi u" unfolding k by simp
  have "x / 2 powi u = real_of_int (m * 2 ^ j)"
    unfolding xm by simp
  then have "round_half_even (x / double_ulp x) = m * 2 ^ j"
    unfolding ulp by (simp only: round_half_even_of_int)
  then have "round_to_double x = real_of_int (m * 2 ^ j) * 2 powi u"
    using x by (simp add: round_to_double_def ulp)
  with xm show ?thesis unfolding x_def by simp
qed

lemma round_to_double_of_int:
  "\<bar>i\<bar> < 2 ^ 53 \<Longrightarrow> round_to_double (real_of_int i) = real_of_int i"
  using round_to_double_dyadic [of i 0] by simp

text \<open>The rounding error is at most half a unit in the last place.\<close>

lemma double_ulp_le:
  assumes "x \<noteq> 0"
  shows "double_ulp x \<le> \<bar>x\<bar> / 2 ^ 52 + 1 / 2 ^ 1074"
proof -
  have "(2::real) powi (binary_exponent x - 52) = 2 powi binary_exponent x / 2 ^ 52"
    by (simp add: power_int_diff)
  also have "\<dots> \<le> \<bar>x\<bar> / 2 ^ 52"
    using binary_exponent_bounds(1) [OF assms] by (simp add: divide_right_mono)
  finally have a: "(2::real) powi (binary_exponent x - 52) \<le> \<bar>x\<bar> / 2 ^ 52" .
  have b: "(2::real) powi (- 1074) = 1 / 2 ^ 1074"
    using power_int_minus_divide [of "2::real" 1074] by simp
  have "0 \<le> \<bar>x\<bar> / 2 ^ 52" by simp
  show ?thesis
  proof (cases "binary_exponent x - 52 \<le> - 1074")
    case True
    then have "double_ulp x = 1 / 2 ^ 1074" by (simp add: double_ulp_def b)
    then show ?thesis by simp
  next
    case False
    then have "double_ulp x = 2 powi (binary_exponent x - 52)" by (simp add: double_ulp_def)
    with a show ?thesis by simp
  qed
qed

lemma round_to_double_error:
  "\<bar>round_to_double x - x\<bar> \<le> \<bar>x\<bar> / 2 ^ 53 + 1 / 2 ^ 1075"
proof (cases "x = 0")
  case True
  then show ?thesis by (simp add: round_to_double_def)
next
  case False
  from double_ulp_le [OF False]
  have "double_ulp x / 2 \<le> (\<bar>x\<bar> / 2 ^ 52 + 1 / 2 ^ 1074) / 2"
    by (rule divide_right_mono) simp
  with round_to_double_close [of x]
  have "\<bar>round_to_double x - x\<bar> \<le> (\<bar>x\<bar> / 2 ^ 52 + 1 / 2 ^ 1074) / 2"
    by (rule order_trans)
  also have "(\<bar>x\<bar> / 2 ^ 52 + 1 / 2 ^ 1074) / 2 = \<bar>x\<bar> / 2 ^ 53 + 1 / 2 ^ 1075"
    by (simp add: add_divide_distrib)
  finally show ?thesis .
qed

text \<open>Evaluation of a rounding once the exponent is known.\<close>

lemma round_to_double_exponent:
  assumes "2 powi e \<le> \<bar>x\<bar>" and "\<bar>x\<bar> < 2 powi (e + 1)" and "- 1022 \<le> e"
  shows "round_to_double x =
           real_of_int (round_half_even (x / 2 powi (e - 52))) * 2 powi (e - 52)"
proof -
  have p: "0 < (2::real) powi e" by simp
  have "x \<noteq> 0"
  proof
    assume "x = 0"
    with assms(1) have "(2::real) powi e \<le> 0" by simp
    with p show False by linarith
  qed
  moreover have "double_ulp x = 2 powi (e - 52)"
    using binary_exponent_eqI [OF assms(1,2)] assms(3) by (simp add: double_ulp_def)
  ultimately show ?thesis by (simp add: round_to_double_def)
qed

text \<open>\<open>lonlat2int\<close> where the product and the quotient are integers.\<close>

lemma lonlat2int_exact:
  assumes "\<bar>lonlat_resolution K\<bar> < 2 ^ 53"
    and "lonlat * real_of_int (lonlat_resolution K) = real_of_int (100 * j)"
    and "\<bar>100 * j\<bar> < 2 ^ 53"
  shows "lonlat2int K lonlat = word_of_int j"
proof -
  have r: "double_of_int (lonlat_resolution K) = real_of_int (lonlat_resolution K)"
    using assms(1) by (simp add: double_of_int_def round_to_double_of_int)
  have g: "double_of_int location_granularity = 100"
    using round_to_double_of_int [of 100] by (simp add: double_of_int_def location_granularity_def)
  have m: "double_mult lonlat (real_of_int (lonlat_resolution K)) = real_of_int (100 * j)"
    unfolding double_mult_def assms(2) by (rule round_to_double_of_int) (rule assms(3))
  have "\<bar>j\<bar> < 2 ^ 53" using assms(3) by simp
  then have "round_to_double (real_of_int j) = real_of_int j" by (rule round_to_double_of_int)
  then have d: "double_divide (real_of_int (100 * j)) 100 = real_of_int j"
    by (simp add: double_divide_def)
  show ?thesis
    by (simp only: lonlat2int_def r g m d std_round_of_int)
qed

lemma lonlat2int_values:
  "lonlat2int constants_nano 1 = 10000000"
  "lonlat2int constants_nano 2 = 20000000"
  "lonlat2int constants_nano (10000003 / 10000000) = 10000003"
  "lonlat2int constants_listed 1 = 100000"
  "lonlat2int constants_listed 2 = 200000"
  using lonlat2int_exact [of constants_nano 1 10000000]
    lonlat2int_exact [of constants_nano 2 20000000]
    lonlat2int_exact [of constants_nano "10000003 / 10000000" 10000003]
    lonlat2int_exact [of constants_listed 1 100000]
    lonlat2int_exact [of constants_listed 2 200000]
  by (simp_all add: constants_nano_def constants_listed_def)

text \<open>The run of \<open>add_node\<close> on the two example nodes, evaluated.\<close>

lemmas push_defs =
  push_id_def push_version_def push_timestamp_def push_changeset_def push_uid_def
  push_user_def push_visible_def push_lat_def push_lon_def push_tags_def

lemma add_nodes_ab:
  "DenseNodes_add_nodes constants_nano all_options StringTable_new DenseNodes_new [node_a, node_b]
   = Inr (table_ab, dense_ab)"
  unfolding DenseNodes_add_nodes.simps DenseNodes_add_node_def add_node_statements_def Let_def
  by (simp add: all_options_def node_a_def node_b_def INT32_MAX_def StringTable_new_def
      DenseNodes_new_def push_defs DeltaEncode_update_def StringTable_add_def lonlat2int_values
      table_ab_def dense_ab_def)

lemma add_node_single:
  "lonlat_resolution K = 1000000000 \<Longrightarrow>
   \<exists>st dn. DenseNodes_add_node K opts StringTable_new DenseNodes_new single_node = Inr (st, dn)
      \<and> m_lats dn = [10000000] \<and> m_lons dn = [20000000]"
proof -
  assume res: "lonlat_resolution K = 1000000000"
  let ?s = "add_node_statements K opts StringTable_new DenseNodes_new single_node"
  have "DenseNodes_add_node K opts StringTable_new DenseNodes_new single_node = Inr (fst ?s, snd ?s)"
    by (simp add: add_node_Inr_iff single_node_def INT32_MAX_def)
  moreover have "lonlat2int K 1 = 10000000" "lonlat2int K 2 = 20000000"
    using lonlat2int_exact [of K 1 10000000] lonlat2int_exact [of K 2 20000000]
    by (simp_all add: res)
  then have "m_lats (snd ?s) = [10000000]" "m_lons (snd ?s) = [20000000]"
    by (simp_all add: add_node_statements_columns DenseNodes_new_def single_node_def)
  ultimately show ?thesis by blast
qed

lemma write_varint_small: "v < 0x80 \<Longrightarrow> write_varint v = [ucast v]"
  by (subst write_varint.simps) (simp add: not_le [symmetric])

lemma concat_map_replicate: "concat (map f (replicate n x)) = concat (replicate n (f x))"
  by (induction n) simp_all

lemma length_concat_replicate: "length (concat (replicate n xs)) = n * length xs"
  by (induction n) simp_all

lemma delta_loop_replicate: "delta_loop id v (replicate n v) = replicate n (0::64 word)"
  by (induction n) (simp_all add: DeltaEncode_update_def)

lemma replicate_pred: "0 < n \<Longrightarrow> replicate n x = x # replicate (n - 1) x"
  by (cases n) simp_all

lemma can_add_iff:
  "can_add K b k =
     (m_type b = k \<and> m_count b < 8000 \<and> PrimitiveBlock_size b < max_used_blob_size K)"
  by (auto simp: can_add_def max_entities_per_block_def)

lemma hd_delta_loop: "xs \<noteq> [] \<Longrightarrow> hd (delta_loop id 0 xs) = (hd xs :: 64 word)"
  by (cases xs) (simp_all add: DeltaEncode_update_def)

section \<open>Runs of dense nodes through the encoder\<close>

lemma StringTable_size_add:
  "StringTable_size st \<le> StringTable_size (snd (StringTable_add st s))"
  by (simp add: StringTable_size_def StringTable_add_def split: option.split)

lemma add_tags_size:
  "StringTable_size st \<le> StringTable_size (fst (add_tags st ts tags))"
proof (induction tags arbitrary: st ts)
  case Nil
  show ?case by simp
next
  case (Cons kv tags)
  obtain k v where kv: "kv = (k, v)" by (cases kv)
  let ?st1 = "snd (StringTable_add st k)"
  let ?st2 = "snd (StringTable_add ?st1 v)"
  have "StringTable_size st \<le> StringTable_size ?st1" by (rule StringTable_size_add)
  also have "\<dots> \<le> StringTable_size ?st2" by (rule StringTable_size_add)
  also have "\<dots> \<le> StringTable_size (fst (add_tags ?st2
      (ts @ [fst (StringTable_add st k), fst (StringTable_add ?st1 v)]) tags))"
    by (rule Cons.IH)
  finally show ?case unfolding kv add_tags_step .
qed

lemma add_node_statements_size:
  "StringTable_size st \<le> StringTable_size (fst (add_node_statements K opts st dn n))"
proof -
  let ?st1 = "if md_user (add_metadata opts) then snd (StringTable_add st (object_user n)) else st"
  have "StringTable_size st \<le> StringTable_size ?st1"
    by (simp add: StringTable_size_add)
  also have "\<dots> \<le> StringTable_size (fst (add_tags ?st1 (m_tags dn) (object_tags n)))"
    by (rule add_tags_size)
  finally show ?thesis by (simp only: add_node_statements_columns)
qed

lemma add_nodes_size:
  "DenseNodes_add_nodes K opts st dn ns = Inr r \<Longrightarrow>
   StringTable_size st \<le> StringTable_size (fst r)"
proof (induction ns arbitrary: st dn)
  case Nil
  then show ?case by auto
next
  case (Cons n ns)
  from Cons.prems have
    "DenseNodes_add_nodes K opts (fst (add_node_statements K opts st dn n))
       (snd (add_node_statements K opts st dn n)) ns = Inr r"
    by (simp add: add_nodes_Cons split: if_splits)
  from Cons.IH [OF this] add_node_statements_size [of st K opts dn n]
  show ?case by linarith
qed

lemma StringTable_clear_new: "StringTable_clear st = StringTable_new"
  by (cases st) (simp add: StringTable_clear_def StringTable_new_def)

lemma reset_eq:
  "reset b type =
     \<lparr>m_pbf_primitive_group_data = [], m_stringtable = StringTable_new,
      m_dense_nodes = None, m_type = type, m_count = 0\<rparr>"
  by (cases b) (simp add: reset_def StringTable_clear_new)

text \<open>A node that the block can take is added to it; the queue is not touched.\<close>

lemma node_into_dense_block:
  assumes dense: "use_dense_nodes (m_options enc)"
    and block: "m_primitive_block enc = dense_block st dn c"
    and room: "c < 8000"
    and size: "StringTable_size st + 24 * length (m_ids dn) < max_used_blob_size K"
    and add: "DenseNodes_add_node K (m_options enc) st dn n = Inr (st', dn')"
  shows "node K enc n = Inr (enc\<lparr>m_primitive_block := dense_block st' dn' (c + 1)\<rparr>)"
proof -
  have "can_add K (m_primitive_block enc) PrimitiveGroup_optional_DenseNodes_dense"
    using room size
    by (simp add: can_add_iff block dense_block_def PrimitiveBlock_size_def serialized_def
        DenseNodes_size_def)
  then have sw: "switch_primitive_block_type K enc PrimitiveGroup_optional_DenseNodes_dense
                 = Inr enc"
    by (simp add: switch_primitive_block_type_def)
  show ?thesis
    unfolding node_def using dense
    by (simp add: sw add_dense_node_def block dense_block_def add)
qed

text \<open>
  A node that the block cannot take: the block is flushed if it holds an entity, then
  reset, and the node starts a new block with a fresh string table and a fresh buffer.
\<close>

lemma node_starts_dense_block:
  assumes dense: "use_dense_nodes (m_options enc)"
    and full: "\<not> can_add K (m_primitive_block enc) PrimitiveGroup_optional_DenseNodes_dense"
    and flush: "store_primitive_block enc = Inr enc1"
    and add: "DenseNodes_add_node K (m_options enc) StringTable_new DenseNodes_new n
              = Inr (st', dn')"
  shows "node K enc n =
           Inr (enc\<lparr>m_primitive_block := dense_block st' dn' 1,
                    m_output_queue := m_output_queue enc1\<rparr>)"
proof -
  have opts: "m_options enc1 = m_options enc"
    using flush
    by (auto simp add: store_primitive_block_def submit_def Let_def split: if_splits sum.splits)
  have sw: "switch_primitive_block_type K enc PrimitiveGroup_optional_DenseNodes_dense
            = Inr (enc1\<lparr>m_primitive_block :=
                reset (m_primitive_block enc1) PrimitiveGroup_optional_DenseNodes_dense\<rparr>)"
    using full by (simp add: switch_primitive_block_type_def flush)
  have rest: "enc1\<lparr>m_primitive_block := dense_block st' dn' 1\<rparr>
              = enc\<lparr>m_primitive_block := dense_block st' dn' 1,
                    m_output_queue := m_output_queue enc1\<rparr>"
    using flush
    by (auto simp add: store_primitive_block_def submit_def Let_def split: if_splits sum.splits)
  show ?thesis
    unfolding node_def using dense
    by (simp add: sw opts add_dense_node_def reset_eq add dense_block_def
        rest [unfolded dense_block_def])
qed

lemma write_buffer_append:
  "write_buffer K enc (xs @ ys) =
     (case write_buffer K enc xs of Inl e \<Rightarrow> Inl e | Inr enc' \<Rightarrow> write_buffer K enc' ys)"
proof (induction xs arbitrary: enc)
  case Nil
  show ?case by simp
next
  case (Cons x xs)
  show ?case by (cases x) (simp_all add: Cons.IH split: sum.splits)
qed

text \<open>Nodes that all fit are collected in the block.\<close>

lemma fill_dense_block:
  assumes "use_dense_nodes (m_options enc)"
    and "m_primitive_block enc = dense_block st dn c"
    and "c + int (length ns) \<le> 8000"
    and "DenseNodes_add_nodes K (m_options enc) st dn ns = Inr (st', dn')"
    and "StringTable_size st' + 24 * (length (m_ids dn) + length ns) \<le> max_used_blob_size K"
  shows "write_buffer K enc (map Node_entity ns) =
           Inr (enc\<lparr>m_primitive_block := dense_block st' dn' (c + int (length ns))\<rparr>)"
  using assms
proof (induction ns arbitrary: enc st dn c)
  case Nil
  then show ?case by simp
next
  case (Cons n ns)
  let ?s = "add_node_statements K (m_options enc) st dn n"
  from Cons.prems(4) have
    one: "DenseNodes_add_node K (m_options enc) st dn n = Inr (fst ?s, snd ?s)"
    and rest: "DenseNodes_add_nodes K (m_options enc) (fst ?s) (snd ?s) ns = Inr (st', dn')"
    by (simp_all add: add_nodes_Cons add_node_Inr_iff split: if_splits)
  have "StringTable_size st \<le> StringTable_size (fst ?s)" by (rule add_node_statements_size)
  also have "\<dots> \<le> StringTable_size st'" using add_nodes_size [OF rest] by simp
  finally have size: "StringTable_size st + 24 * length (m_ids dn) < max_used_blob_size K"
    using Cons.prems(5) by simp
  from Cons.prems(3) have room: "c < 8000" by simp
  let ?enc1 = "enc\<lparr>m_primitive_block := dense_block (fst ?s) (snd ?s) (c + 1)\<rparr>"
  have step: "node K enc n = Inr ?enc1"
    by (rule node_into_dense_block [OF Cons.prems(1) Cons.prems(2) room size one])
  have len: "length (m_ids (snd ?s)) = length (m_ids dn) + 1"
    by (simp add: add_node_statements_columns)
  have "write_buffer K ?enc1 (map Node_entity ns) =
          Inr (?enc1\<lparr>m_primitive_block := dense_block st' dn' (c + 1 + int (length ns))\<rparr>)"
  proof (rule Cons.IH)
    show "use_dense_nodes (m_options ?enc1)" using Cons.prems(1) by simp
    show "m_primitive_block ?enc1 = dense_block (fst ?s) (snd ?s) (c + 1)" by simp
    show "c + 1 + int (length ns) \<le> 8000" using Cons.prems(3) by simp
    show "DenseNodes_add_nodes K (m_options ?enc1) (fst ?s) (snd ?s) ns = Inr (st', dn')"
      using rest by simp
    show "StringTable_size st' + 24 * (length (m_ids (snd ?s)) + length ns)
            \<le> max_used_blob_size K"
      using Cons.prems(5) len by simp
  qed
  then show ?case by (simp add: step add.assoc)
qed

text \<open>Flushing a block of dense nodes submits its blob.\<close>

lemma flush_dense_block:
  assumes "m_primitive_block enc = dense_block st dn c" and "c \<noteq> 0"
  shows "\<exists>enc1. store_primitive_block enc = Inr enc1 \<and> m_options enc1 = m_options enc \<and>
           m_output_queue enc1 = m_output_queue enc @ [DenseNodes_blob (m_options enc) st dn]"
  using assms
  by (simp add: store_primitive_block_def dense_block_def group_data_def Let_def submit_def
      DenseNodes_blob_def write_stringtable_def)

text \<open>
  A run of at most 8000 nodes that starts at a block which cannot take the first of
  them: the old block is flushed and the nodes fill one new block.
\<close>

lemma dense_run:
  assumes dense: "use_dense_nodes (m_options enc)"
    and full: "\<not> can_add K (m_primitive_block enc) PrimitiveGroup_optional_DenseNodes_dense"
    and flush: "store_primitive_block enc = Inr enc1"
    and some: "ns \<noteq> []" and most: "length ns \<le> 8000"
    and run: "DenseNodes_add_nodes K (m_options enc) StringTable_new DenseNodes_new ns
              = Inr (st, dn)"
    and size: "StringTable_size st + 24 * length ns \<le> max_used_blob_size K"
  shows "write_buffer K enc (map Node_entity ns) =
           Inr (enc\<lparr>m_primitive_block := dense_block st dn (int (length ns)),
                    m_output_queue := m_output_queue enc1\<rparr>)"
proof -
  from some obtain n rest where ns: "ns = n # rest" by (cases ns) auto
  let ?s = "add_node_statements K (m_options enc) StringTable_new DenseNodes_new n"
  from run have
    one: "DenseNodes_add_node K (m_options enc) StringTable_new DenseNodes_new n
          = Inr (fst ?s, snd ?s)"
    and more: "DenseNodes_add_nodes K (m_options enc) (fst ?s) (snd ?s) rest = Inr (st, dn)"
    by (simp_all add: ns add_nodes_Cons add_node_Inr_iff split: if_splits)
  let ?enc2 = "enc\<lparr>m_primitive_block := dense_block (fst ?s) (snd ?s) 1,
                    m_output_queue := m_output_queue enc1\<rparr>"
  have first: "node K enc n = Inr ?enc2"
    by (rule node_starts_dense_block [OF dense full flush one])
  have len: "length (m_ids (snd ?s)) = 1"
    by (simp add: add_node_statements_columns DenseNodes_new_def)
  have "write_buffer K ?enc2 (map Node_entity rest) =
          Inr (?enc2\<lparr>m_primitive_block := dense_block st dn (1 + int (length rest))\<rparr>)"
  proof (rule fill_dense_block)
    show "use_dense_nodes (m_options ?enc2)" using dense by simp
    show "m_primitive_block ?enc2 = dense_block (fst ?s) (snd ?s) 1" by simp
    show "1 + int (length rest) \<le> 8000" using most ns by simp
    show "DenseNodes_add_nodes K (m_options ?enc2) (fst ?s) (snd ?s) rest = Inr (st, dn)"
      using more by simp
    show "StringTable_size st + 24 * (length (m_ids (snd ?s)) + length rest)
            \<le> max_used_blob_size K"
      using size ns len by simp
  qed
  then show ?thesis by (simp add: ns first add.commute)
qed

section \<open>Item type codes\<close>

text \<open>
  Claim C10. For every enumerator \<open>t\<close> of \<open>item_type\<close>, converting \<open>t\<close> to its
  character and back gives \<open>t\<close> again; and every character that is none of the twelve
  codes is mapped to \<open>item_type::undefined\<close>.
\<close>

theorem item_type_char_roundtrip:
  "char_to_item_type (item_type_to_char t) = t \<and>
   (c \<notin> set item_type_codes \<longrightarrow> char_to_item_type c = item_type_undefined)"
  by (cases t) (simp_all add: char_to_item_type_def item_type_codes_def)

theorem item_type_char_roundtrip_witness:
  "char_to_item_type (item_type_to_char item_type_relation_member_list) = item_type_relation_member_list \<and>
   CHR ''z'' \<notin> set item_type_codes \<and> char_to_item_type (CHR ''z'') = item_type_undefined"
  using item_type_char_roundtrip [of item_type_relation_member_list "CHR ''z''"]
  by (simp add: item_type_codes_def)

section \<open>C1: the decision of can_add\<close>

lemma max_used_floor:
  assumes "max_uncompressed_blob_size K * 95 < 2 ^ 32"
  shows "int (max_used_blob_size K) = \<lfloor>0.95 * real (max_uncompressed_blob_size K)\<rfloor>"
proof -
  have "\<lfloor>0.95 * real (max_uncompressed_blob_size K)\<rfloor>
        = \<lfloor>real (max_uncompressed_blob_size K * 95) / real (100::nat)\<rfloor>"
    by simp
  also have "\<dots> = int ((max_uncompressed_blob_size K * 95) div 100)"
    by (simp only: floor_divide_of_nat_eq)
  finally show ?thesis using assms by (simp add: max_used_blob_size_def)
qed

lemma long_way_block:
  "way K (PBFOutputFormat_init default_options) long_way =
     Inr ((PBFOutputFormat_init default_options)\<lparr>m_primitive_block := way_block\<rparr>)"
proof -
  have refs: "delta_loop id 0 (map node_ref_ref (way_nodes long_way))
              = (1::64 word) # replicate 15938341 0"
    by (simp add: long_way_def replicate_pred [of 15938342] DeltaEncode_update_def
        delta_loop_replicate)
  have sw: "switch_primitive_block_type K (PBFOutputFormat_init default_options)
              PrimitiveGroup_repeated_Way_ways
            = Inr ((PBFOutputFormat_init default_options)
                \<lparr>m_primitive_block := reset PrimitiveBlock_new PrimitiveGroup_repeated_Way_ways\<rparr>)"
    by (simp add: switch_primitive_block_type_def can_add_def PBFOutputFormat_init_def
        PrimitiveBlock_new_def store_primitive_block_def)
  have meta: "add_meta default_options Way_enum_type StringTable_new long_way
              = Inr (StringTable_new, [add_packed_uint32 Way_packed_uint32_keys [],
                                       add_packed_uint32 Way_packed_uint32_vals []])"
    by (simp add: add_meta_def default_options_def metadata_any_def long_way_def Way_enum_type_def)
  show ?thesis
    unfolding way_def sw
    by (simp add: refs meta PBFOutputFormat_init_def reset_def PrimitiveBlock_new_def
        StringTable_clear_def StringTable_new_def group_add_def way_block_def default_options_def
        meta [unfolded default_options_def StringTable_new_def])
      (simp add: long_way_def)
qed

lemma size_way_block: "PrimitiveBlock_size way_block = 15938355"
  apply (simp add: PrimitiveBlock_size_def way_block_def serialized_def StringTable_size_def
      StringTable_new_def add_packed_def add_length_delimited_def add_field_def
      concat_map_replicate length_concat_replicate encode_zigzag64_def
      Way_required_int64_id_def Way_packed_sint64_refs_def)
  apply (simp add: write_varint.simps word_le_nat_alt)
  done

text \<open>
  Claim C1, as the code has it. \<open>can_add(K)\<close> is false if the type of the block differs
  from \<open>K\<close>, false if the block holds 8000 entities or more, false if \<open>size()\<close> is at
  least the integer part of 0.95 times \<open>max_uncompressed_blob_size\<close>, the enumerator
  \<open>max_used_blob_size\<close> being computed in integers, and true otherwise. The product by 95
  is assumed to fit in 32 bits, as it does for 16 MiB.
\<close>

theorem can_add_decision:
  assumes "max_uncompressed_blob_size K * 95 < 2 ^ 32"
  shows "can_add K b k =
     (m_type b = k \<and> m_count b < 8000 \<and>
      int (PrimitiveBlock_size b) < \<lfloor>0.95 * real (max_uncompressed_blob_size K)\<rfloor>)"
  using max_used_floor [OF assms, symmetric] by (simp add: can_add_iff)

theorem can_add_decision_witness:
  "max_uncompressed_blob_size constants_listed * 95 < 2 ^ 32 \<and>
   can_add constants_listed way_block PrimitiveGroup_repeated_Way_ways = False \<and>
   can_add constants_listed PrimitiveBlock_new PrimitiveGroup_unknown = True"
  using can_add_decision [of constants_listed way_block PrimitiveGroup_repeated_Way_ways]
    can_add_decision [of constants_listed PrimitiveBlock_new PrimitiveGroup_unknown]
  by (simp add: constants_listed_def size_way_block)
     (simp add: way_block_def PrimitiveBlock_new_def PrimitiveBlock_size_def serialized_def
        StringTable_size_def StringTable_new_def)

text \<open>
  The claim as stated compares \<open>size()\<close> with 0.95 times 16 MiB, which is 15938355.2.
  After \<open>long_way\<close> is written as the first entity, the block is of type Ways, holds one
  entity and has \<open>size()\<close> 15938355, which is below 15938355.2; \<open>can_add\<close> is false.
\<close>

theorem can_add_counterexample:
  "way constants_listed (PBFOutputFormat_init default_options) long_way =
     Inr ((PBFOutputFormat_init default_options)\<lparr>m_primitive_block := way_block\<rparr>) \<and>
   m_type way_block = PrimitiveGroup_repeated_Way_ways \<and>
   m_count way_block < max_entities_per_block \<and>
   real (PrimitiveBlock_size way_block) < 0.95 * real (max_uncompressed_blob_size constants_listed) \<and>
   \<not> can_add constants_listed way_block PrimitiveGroup_repeated_Way_ways"
  by (simp add: long_way_block size_way_block can_add_iff max_used_blob_size_def
      constants_listed_def max_entities_per_block_def)
     (simp add: way_block_def)

section \<open>C2: the framing of a blob\<close>

lemma write_varint_length_bound:
  "unat v < 2 ^ (7 * n) \<Longrightarrow> 0 < n \<Longrightarrow> length (write_varint v) \<le> n"
proof (induction n arbitrary: v)
  case 0
  then show ?case by simp
next
  case (Suc n)
  show ?case
  proof (cases "v \<ge> 0x80")
    case False
    then show ?thesis by (subst write_varint.simps) simp
  next
    case True
    then have big: "128 \<le> unat v" by (simp add: word_le_nat_alt)
    have "unat (drop_bit 7 v) = unat v div 2 ^ 7"
      by (simp add: unat_drop_bit_eq drop_bit_eq_div unat_div)
    moreover have "unat v div 2 ^ 7 < 2 ^ (7 * n)"
      using Suc.prems(1) by (simp add: less_mult_imp_div_less power_add mult.commute)
    ultimately have small: "unat (drop_bit 7 v) < 2 ^ (7 * n)" by simp
    have "0 < n"
    proof (rule ccontr)
      assume "\<not> 0 < n"
      with small have "unat v div 2 ^ 7 < 1"
        using \<open>unat (drop_bit 7 v) = unat v div 2 ^ 7\<close> by simp
      with big show False by simp
    qed
    from Suc.IH [OF small this] True show ?thesis
      by (subst write_varint.simps) simp
  qed
qed

lemma write_varint_length: "length (write_varint v) \<le> 10"
proof (rule write_varint_length_bound)
  have "unat v < 2 ^ 64" using unsigned_less [of v] by simp
  also have "(2::nat) ^ 64 < 2 ^ (7 * 10)" by simp
  finally show "unat v < 2 ^ (7 * 10)" .
qed simp

lemma write_varint_nonempty: "write_varint v \<noteq> []"
  by (subst write_varint.simps) simp

lemma BlobHeader_length:
  "length (serialized (BlobHeader_fields blob_type blob_data)) \<le> 22"
proof -
  have k1: "add_field BlobHeader_required_string_type 2 = [10]"
    by (simp add: add_field_def BlobHeader_required_string_type_def write_varint.simps
        word_le_nat_alt)
  have k3: "add_field BlobHeader_required_int32_datasize 0 = [24]"
    by (simp add: add_field_def BlobHeader_required_int32_datasize_def write_varint.simps
        word_le_nat_alt)
  have v: "length (write_varint (scast (word_of_nat (length blob_data) :: 32 word))) \<le> 10"
    by (rule write_varint_length)
  show ?thesis
    using v
    by (cases blob_type)
       (simp_all add: serialized_def BlobHeader_fields_def add_length_delimited_def k1 k3
          bytes_of_def write_varint.simps word_le_nat_alt)
qed

lemma byte_of_word:
  "unat (ucast (drop_bit 24 (w :: 32 word) AND 0xff) :: byte) = unat w div 2 ^ 24 mod 256"
  "unat (ucast (drop_bit 16 w AND 0xff) :: byte) = unat w div 2 ^ 16 mod 256"
  "unat (ucast (drop_bit 8 w AND 0xff) :: byte) = unat w div 2 ^ 8 mod 256"
  "unat (ucast (w AND 0xff) :: byte) = unat w mod 256"
proof -
  have m: "x AND 0xff = take_bit 8 x" for x :: "32 word"
    by (simp add: take_bit_eq_mask mask_eq_exp_minus_1)
  show "unat (ucast (drop_bit 24 w AND 0xff) :: byte) = unat w div 2 ^ 24 mod 256"
    "unat (ucast (drop_bit 16 w AND 0xff) :: byte) = unat w div 2 ^ 16 mod 256"
    "unat (ucast (drop_bit 8 w AND 0xff) :: byte) = unat w div 2 ^ 8 mod 256"
    "unat (ucast (w AND 0xff) :: byte) = unat w mod 256"
    unfolding m
    by (simp_all add: unsigned_ucast_eq unsigned_take_bit_eq take_bit_eq_mod unat_drop_bit_eq
        drop_bit_eq_div unat_div unat_mod_distrib)
qed

lemma four_bytes:
  fixes n :: nat
  assumes "n < 2 ^ 32"
  shows "256 * (256 * (256 * (n div 2 ^ 24 mod 256) + n div 2 ^ 16 mod 256) + n div 2 ^ 8 mod 256)
         + n mod 256 = n"
proof -
  define q1 where "q1 = n div 256"
  define q2 where "q2 = q1 div 256"
  define q3 where "q3 = q2 div 256"
  have e1: "n = 256 * q1 + n mod 256" by (simp add: q1_def)
  have e2: "q1 = 256 * q2 + q1 mod 256" by (simp add: q2_def)
  have e3: "q2 = 256 * q3 + q2 mod 256" by (simp add: q3_def)
  have d8: "n div 2 ^ 8 = q1" by (simp add: q1_def)
  have d16: "n div 2 ^ 16 = q2" by (simp add: q1_def q2_def div_mult2_eq)
  have d24: "n div 2 ^ 24 = q3" by (simp add: q1_def q2_def q3_def div_mult2_eq)
  have "q3 < 256" using assms unfolding d24 [symmetric] by simp
  then have m3: "q3 mod 256 = q3" by simp
  have r3: "256 * q3 + q2 mod 256 = q2" using e3 by simp
  have r2: "256 * q2 + q1 mod 256 = q1" using e2 by simp
  have r1: "256 * q1 + n mod 256 = n" using e1 by simp
  show ?thesis
    by (simp only: d8 d16 d24 m3 r3 r2 r1)
qed

lemma size_bytes_value:
  "big_endian_value
     [ucast (drop_bit 24 (w :: 32 word) AND 0xff), ucast (drop_bit 16 w AND 0xff),
      ucast (drop_bit 8 w AND 0xff), ucast (w AND 0xff)] = unat w"
proof -
  have lt: "unat w < 2 ^ 32" using unsigned_less [of w] by simp
  then have "unat w div 16777216 < 256" by simp
  then have top: "unat w div 16777216 mod 256 = unat w div 16777216" by simp
  from four_bytes [OF lt] show ?thesis
    unfolding big_endian_value_def foldl.simps byte_of_word
    by (simp add: unat_drop_bit_eq drop_bit_eq_div unat_div top)
qed

lemma sint_word_of_nat_32:
  "n < 2 ^ 31 \<Longrightarrow> sint (word_of_nat n :: 32 word) = int n"
proof -
  assume "n < 2 ^ 31"
  then have "int n < 2 ^ 31" by (simp add: of_nat_less_numeral_power_cancel_iff)
  then have "signed_take_bit 31 (int n) = int n"
    by (intro signed_take_bit_int_eq_self) simp_all
  then show ?thesis by (simp add: signed_of_nat)
qed

lemma raw_blob_length:
  "length (serialized [add_bytes Blob_optional_bytes_raw msg]) \<le> length msg + 11"
proof -
  have k: "add_field Blob_optional_bytes_raw 2 = [10]"
    by (simp add: add_field_def Blob_optional_bytes_raw_def write_varint.simps word_le_nat_alt)
  have "length (write_varint (ucast (word_of_nat (length msg) :: 32 word))) \<le> 10"
    by (rule write_varint_length)
  then show ?thesis
    by (simp add: serialized_def add_length_delimited_def k)
qed

text \<open>
  Claim C2. For every payload within \<open>max_uncompressed_blob_size\<close>, every blob kind and
  every compression that yields a Blob message, \<open>SerializeBlob\<close> returns, and what it
  returns is: four bytes whose big-endian value is the byte length of the BlobHeader
  message, then the BlobHeader message, then the Blob message. The BlobHeader consists
  of the type string, \<open>OSMHeader\<close> for a header blob and \<open>OSMData\<close> for a data blob,
  and the \<open>datasize\<close> field, which equals the byte length of the Blob message whenever
  that length is below \<open>2\<^sup>31\<close>, as it is without compression for a blob size limit of
  at most \<open>2\<^sup>30\<close>.
\<close>

theorem SerializeBlob_framing:
  assumes "length msg \<le> max_uncompressed_blob_size K"
    and "Blob_fields env msg compression level = Inr pbf_blob"
  shows "\<exists>output header datasize.
           SerializeBlob_bytes K env msg blob_type compression level = Inr output \<and>
           header = serialized
             [add_string BlobHeader_required_string_type
                (case blob_type of pbf_blob_type_header \<Rightarrow> ''OSMHeader''
                                 | pbf_blob_type_data \<Rightarrow> ''OSMData''),
              add_int32 BlobHeader_required_int32_datasize datasize] \<and>
           output = take 4 output @ header @ serialized pbf_blob \<and>
           length (take 4 output) = 4 \<and>
           big_endian_value (take 4 output) = length header \<and>
           (length (serialized pbf_blob) < 2 ^ 31 \<longrightarrow>
              sint datasize = int (length (serialized pbf_blob))) \<and>
           (compression = pbf_compression_none \<and> max_uncompressed_blob_size K \<le> 2 ^ 30 \<longrightarrow>
              length (serialized pbf_blob) < 2 ^ 31)"
proof -
  let ?blob = "serialized pbf_blob"
  let ?fields = "BlobHeader_fields blob_type ?blob"
  let ?header = "serialized ?fields"
  let ?size = "word_of_nat (length ?header) :: 32 word"
  let ?four = "[ucast (drop_bit 24 ?size AND 0xff), ucast (drop_bit 16 ?size AND 0xff),
                ucast (drop_bit 8 ?size AND 0xff), ucast (?size AND 0xff)] :: byte list"
  let ?output = "?four @ ?header @ ?blob"
  have run: "SerializeBlob_bytes K env msg blob_type compression level = Inr ?output"
    using assms by (simp add: SerializeBlob_bytes_def Let_def)
  have fields: "?fields =
      [add_string BlobHeader_required_string_type
         (case blob_type of pbf_blob_type_header \<Rightarrow> ''OSMHeader''
                          | pbf_blob_type_data \<Rightarrow> ''OSMData''),
       add_int32 BlobHeader_required_int32_datasize (word_of_nat (length ?blob))]"
    by (cases blob_type) (simp_all add: BlobHeader_fields_def)
  have "length ?header \<le> 22" by (rule BlobHeader_length)
  then have "length ?header < 2 ^ 32" by simp
  then have "unat ?size = length ?header" by (simp add: unat_of_nat)
  with size_bytes_value [of ?size] have val: "big_endian_value ?four = length ?header"
    by simp
  have four: "take 4 ?output = ?four" by simp
  have datasize: "length ?blob < 2 ^ 31 \<longrightarrow>
      sint (word_of_nat (length ?blob) :: 32 word) = int (length ?blob)"
    by (simp add: sint_word_of_nat_32)
  have raw: "compression = pbf_compression_none \<and> max_uncompressed_blob_size K \<le> 2 ^ 30 \<longrightarrow>
      length ?blob < 2 ^ 31"
  proof
    assume c: "compression = pbf_compression_none \<and> max_uncompressed_blob_size K \<le> 2 ^ 30"
    with assms(2) have "pbf_blob = [add_bytes Blob_optional_bytes_raw msg]"
      by (simp add: Blob_fields_def)
    with raw_blob_length [of msg] have "length ?blob \<le> length msg + 11" by simp
    with assms(1) c show "length ?blob < 2 ^ 31" by simp
  qed
  show ?thesis
    apply (rule exI [of _ ?output])
    apply (rule exI [of _ ?header])
    apply (rule exI [of _ "word_of_nat (length ?blob)"])
    apply (simp only: four)
    apply (intro conjI)
          apply (rule run)
         apply (simp only: fields)
        apply simp
       apply simp
      apply (rule val)
     apply (rule datasize)
    apply (rule raw)
    done
qed

lemma SerializeBlob_example:
  "SerializeBlob_bytes constants_listed example_env [1, 2, 3] pbf_blob_type_data
     pbf_compression_none 0 =
   Inr [0, 0, 0, 11, 10, 7, 79, 83, 77, 68, 97, 116, 97, 24, 5, 10, 3, 1, 2, 3]"
  by (simp add: SerializeBlob_bytes_def Blob_fields_def constants_listed_def Let_def
      serialized_def BlobHeader_fields_def add_length_delimited_def add_field_def bytes_of_def
      write_varint.simps word_le_nat_alt Blob_optional_bytes_raw_def
      BlobHeader_required_string_type_def BlobHeader_required_int32_datasize_def)

theorem SerializeBlob_framing_witness:
  "length [1, 2, 3 :: byte] \<le> max_uncompressed_blob_size constants_listed \<and>
   Blob_fields example_env [1, 2, 3] pbf_compression_none 0
     = Inr [add_bytes Blob_optional_bytes_raw [1, 2, 3]] \<and>
   length (serialized [add_bytes Blob_optional_bytes_raw [1, 2, 3]]) < 2 ^ 31 \<and>
   max_uncompressed_blob_size constants_listed \<le> 2 ^ 30 \<and>
   SerializeBlob_bytes constants_listed example_env [1, 2, 3] pbf_blob_type_data
     pbf_compression_none 0 =
   Inr [0, 0, 0, 11, 10, 7, 79, 83, 77, 68, 97, 116, 97, 24, 5, 10, 3, 1, 2, 3] \<and>
   big_endian_value [0, 0, 0, 11] =
     length [10, 7, 79, 83, 77, 68, 97, 116, 97, 24, 5 :: byte]"
proof -
  have len: "length [1, 2, 3 :: byte] \<le> max_uncompressed_blob_size constants_listed"
    by (simp add: constants_listed_def)
  have blob: "Blob_fields example_env [1, 2, 3] pbf_compression_none 0
     = Inr [add_bytes Blob_optional_bytes_raw [1, 2, 3]]"
    by (simp add: Blob_fields_def)
  from SerializeBlob_framing [OF len blob, of pbf_blob_type_data]
  have small: "length (serialized [add_bytes Blob_optional_bytes_raw [1, 2, 3]]) < 2 ^ 31"
    by (auto simp add: constants_listed_def)
  have "big_endian_value [0, 0, 0, 11] =
     length [10, 7, 79, 83, 77, 68, 97, 116, 97, 24, 5 :: byte]"
    by (simp add: big_endian_value_def)
  with len blob small SerializeBlob_example show ?thesis
    by (simp add: constants_listed_def)
qed

section \<open>C3: the fields of a DenseNodes message\<close>

text \<open>
  Claim C3. For every sequence of nodes added to a fresh buffer and every setting of the
  options, \<open>serialize\<close> makes these builder calls, in this order: the packed \<open>ids\<close>,
  holding the delta-encoded ids of the nodes; the DenseInfo message, only if a metadata
  attribute or the visible flag is enabled, holding of the six columns versions,
  timestamps, changesets, uids, user_sids and visibles, in this order, those whose flag
  is enabled; the packed \<open>lats\<close>; the packed \<open>lons\<close>; the packed \<open>keys_vals\<close>.
\<close>

theorem serialize_field_order:
  assumes "DenseNodes_add_nodes K opts st DenseNodes_new ns = Inr (st', dn)"
  shows "DenseNodes_serialize opts dn =
     [add_packed_sint64 DenseNodes_packed_sint64_id (delta_loop id 0 (map object_id ns))] @
     (if metadata_any (add_metadata opts) \<or> add_visible_flag opts
      then [pbf_builder DenseNodes_optional_DenseInfo_denseinfo
              (map snd (filter fst
                 [(md_version (add_metadata opts),
                     add_packed_int32 DenseInfo_packed_int32_version (m_versions dn)),
                  (md_timestamp (add_metadata opts),
                     add_packed_sint64 DenseInfo_packed_sint64_timestamp (m_timestamps dn)),
                  (md_changeset (add_metadata opts),
                     add_packed_sint64 DenseInfo_packed_sint64_changeset (m_changesets dn)),
                  (md_uid (add_metadata opts),
                     add_packed_sint32 DenseInfo_packed_sint32_uid (m_uids dn)),
                  (md_user (add_metadata opts),
                     add_packed_sint32 DenseInfo_packed_sint32_user_sid (m_user_sids dn)),
                  (add_visible_flag opts,
                     add_packed_bool DenseInfo_packed_bool_visible (m_visibles dn))]))]
      else []) @
     [add_packed_sint64 DenseNodes_packed_sint64_lat
        (delta_loop id 0 (map (\<lambda>n. lonlat2int K (lat_without_check (node_location n))) ns)),
      add_packed_sint64 DenseNodes_packed_sint64_lon
        (delta_loop id 0 (map (\<lambda>n. lonlat2int K (lon_without_check (node_location n))) ns)),
      add_packed_int32 DenseNodes_packed_int32_keys_vals (m_tags dn)]"
proof -
  have ids: "m_ids dn = delta_loop id 0 (map object_id ns)"
    using add_nodes_ids [OF assms] by (simp add: DenseNodes_new_def)
  have lats: "m_lats dn =
      delta_loop id 0 (map (\<lambda>n. lonlat2int K (lat_without_check (node_location n))) ns)"
    using add_nodes_lats [OF assms] by (simp add: DenseNodes_new_def)
  have lons: "m_lons dn =
      delta_loop id 0 (map (\<lambda>n. lonlat2int K (lon_without_check (node_location n))) ns)"
    using add_nodes_lons [OF assms] by (simp add: DenseNodes_new_def)
  show ?thesis
    unfolding DenseNodes_serialize_def Let_def ids [symmetric] lats [symmetric] lons [symmetric]
    by (simp add: metadata_any_def)
qed

theorem serialize_field_order_witness:
  "DenseNodes_add_nodes constants_nano all_options StringTable_new DenseNodes_new
     [node_a, node_b] = Inr (table_ab, dense_ab) \<and>
   DenseNodes_serialize all_options dense_ab =
     [add_packed_sint64 DenseNodes_packed_sint64_id [1, 4],
      pbf_builder DenseNodes_optional_DenseInfo_denseinfo
        [add_packed_int32 DenseInfo_packed_int32_version [2, 1],
         add_packed_sint64 DenseInfo_packed_sint64_timestamp [1500000000, 18446744072914584320],
         add_packed_sint64 DenseInfo_packed_sint64_changeset [7, 2],
         add_packed_sint32 DenseInfo_packed_sint32_uid [3, 1],
         add_packed_sint32 DenseInfo_packed_sint32_user_sid [1, 5],
         add_packed_bool DenseInfo_packed_bool_visible [True, False]],
      add_packed_sint64 DenseNodes_packed_sint64_lat [10000000, 3],
      add_packed_sint64 DenseNodes_packed_sint64_lon [20000000, 0],
      add_packed_int32 DenseNodes_packed_int32_keys_vals [2, 3, 4, 5, 0, 2, 7, 0]]"
  using serialize_field_order [OF add_nodes_ab] add_nodes_ab
  by (simp add: all_options_def metadata_any_def dense_ab_def node_a_def node_b_def
      DeltaEncode_update_def lonlat2int_values)

section \<open>C4: fixed-point coordinates\<close>

text \<open>
  The double nearest to 51.50000005 is \<open>3623990328668133 / 2\<^sup>4\<^sup>6\<close>. Its product with
  \<open>10\<^sup>9\<close> rounds up to the double 51500000050, and the quotient by 100 is the double
  515000000.5.
\<close>

lemma double_rounding_example:
  "double_mult (3623990328668133 / 70368744177664) 1000000000 = 51500000050"
  "double_divide 51500000050 100 = 1030000001 / 2"
proof -
  show "double_mult (3623990328668133 / 70368744177664) 1000000000 = 51500000050"
    unfolding double_mult_def
    by (subst round_to_double_exponent [where e = 35])
       (simp_all add: power_int_minus_divide round_half_even_def Let_def)
  have "round_to_double (real_of_int 1030000001 / 2 ^ 1) = real_of_int 1030000001 / 2 ^ 1"
    by (rule round_to_double_dyadic) simp_all
  then show "double_divide 51500000050 100 = 1030000001 / 2"
    by (simp add: double_divide_def)
qed

lemma double_constants:
  "double_of_int 1000000000 = 1000000000" "double_of_int location_granularity = 100"
  "double_of_int 100 = 100"
  using round_to_double_of_int [of 1000000000] round_to_double_of_int [of 100]
  by (simp_all add: double_of_int_def location_granularity_def)

lemma lonlat2int_rounds_twice:
  "lonlat2int constants_nano (3623990328668133 / 70368744177664) = 515000001"
  by (simp add: lonlat2int_def constants_nano_def double_constants double_rounding_example
      std_round_def)

text \<open>
  Claim C4, as the code has it. The integer stored for a coordinate \<open>c\<close> is
  \<open>round(c \<times> lonlat_resolution / granularity)\<close> with granularity 100, the product and
  the quotient being operations on doubles and halves rounded away from zero. With
  \<open>lonlat_resolution\<close> the number of nanodegrees in a degree, \<open>10\<^sup>9\<close>, the stored
  integer differs from \<open>c \<times> 10\<^sup>7\<close> by at most one half and the two rounding errors,
  and a single node at latitude 1 and longitude 2 gives the columns
  \<open>lats = [10000000]\<close> and \<open>lons = [20000000]\<close>, whatever the options. The coordinate
  is bounded so that the result fits in 64 bits.
\<close>

theorem lonlat2int_fixed_point:
  assumes "lonlat_resolution K = 1000000000" and "\<bar>c\<bar> \<le> 10 ^ 11"
  shows "sint (lonlat2int K c) = std_round (double_divide (double_mult c 1000000000) 100) \<and>
         \<bar>real_of_int (sint (lonlat2int K c)) - c * 10 ^ 7\<bar>
           \<le> 1 / 2 + \<bar>c\<bar> * 10 ^ 7 / 2 ^ 51 + 1 / 2 ^ 1073 \<and>
         (\<exists>st dn. DenseNodes_add_node K opts StringTable_new DenseNodes_new single_node
                     = Inr (st, dn)
                  \<and> m_lats dn = [10000000] \<and> m_lons dn = [20000000])"
proof -
  define p where "p = double_mult c 1000000000"
  define d where "d = double_divide p 100"
  define t :: real where "t = 1 / 2 ^ 1075"
  have t: "0 \<le> t" "t \<le> 1" "4 * t = 1 / 2 ^ 1073" by (simp_all add: t_def)
  have "\<bar>p - c * 1000000000\<bar> \<le> \<bar>c * 1000000000\<bar> / 2 ^ 53 + t"
    unfolding p_def double_mult_def t_def by (rule round_to_double_error)
  then have e1: "\<bar>p - c * 1000000000\<bar> \<le> \<bar>c\<bar> * 1000000000 / 9007199254740992 + t"
    by (simp add: abs_mult)
  have "\<bar>d - p / 100\<bar> \<le> \<bar>p / 100\<bar> / 2 ^ 53 + t"
    unfolding d_def double_divide_def t_def by (rule round_to_double_error)
  then have e2: "\<bar>d - p / 100\<bar> \<le> \<bar>p\<bar> / 900719925474099200 + t"
    by simp
  have close: "\<bar>d - c * 10000000\<bar> \<le> \<bar>c\<bar> * 10000000 / 2251799813685248 + 4 * t"
    using e1 e2 t(1) by linarith
  have "\<bar>d\<bar> \<le> 2 * 10 ^ 18"
    using close assms(2) t(2) by simp
  with std_round_close [of d] have "\<bar>real_of_int (std_round d)\<bar> < 2 * 10 ^ 18 + 1"
    by linarith
  then have "real_of_int \<bar>std_round d\<bar> < real_of_int (2 * 10 ^ 18 + 1)"
    by simp
  then have "\<bar>std_round d\<bar> < 2 * 10 ^ 18 + 1"
    by (simp only: of_int_less_iff)
  then have range: "- (2 ^ 63) \<le> std_round d" "std_round d < 2 ^ 63" by simp_all
  have s: "sint (lonlat2int K c) = std_round d"
    using sint_word_of_int_64 [OF range]
    by (simp add: lonlat2int_def assms(1) double_constants d_def p_def)
  have "\<bar>real_of_int (std_round d) - c * 10000000\<bar>
          \<le> 1 / 2 + \<bar>c\<bar> * 10000000 / 2251799813685248 + 4 * t"
    using std_round_close [of d] close by linarith
  then have accurate: "\<bar>real_of_int (sint (lonlat2int K c)) - c * 10 ^ 7\<bar>
          \<le> 1 / 2 + \<bar>c\<bar> * 10 ^ 7 / 2 ^ 51 + 1 / 2 ^ 1073"
    unfolding s t(3) by simp
  show ?thesis
    using s accurate add_node_single [OF assms(1)] by (simp add: d_def p_def)
qed

theorem lonlat2int_fixed_point_witness:
  "lonlat_resolution constants_nano = 1000000000 \<and>
   \<bar>3623990328668133 / 2 ^ 46 :: real\<bar> \<le> 10 ^ 11 \<and>
   sint (lonlat2int constants_nano (3623990328668133 / 2 ^ 46)) = 515000001"
proof -
  have "lonlat_resolution constants_nano = 1000000000"
    by (simp add: constants_nano_def)
  moreover have "\<bar>3623990328668133 / 2 ^ 46 :: real\<bar> \<le> 10 ^ 11"
    by simp
  ultimately have "sint (lonlat2int constants_nano (3623990328668133 / 2 ^ 46)) =
      std_round (double_divide (double_mult (3623990328668133 / 2 ^ 46) 1000000000) 100)"
    using lonlat2int_fixed_point [of constants_nano "3623990328668133 / 2 ^ 46" default_options]
    by blast
  then show ?thesis
    by (simp add: constants_nano_def double_rounding_example std_round_def)
qed

text \<open>
  The claim as stated gives the stored integer as \<open>round(c \<times> 10\<^sup>7 / 100)\<close>, which is
  100000 for \<open>c = 1\<close>, and gives 10000000 for the same coordinate. With
  \<open>lonlat_resolution\<close> as the spec lists it, \<open>10\<^sup>7\<close>, \<open>lonlat2int\<close> follows the
  formula and stores 100000; with \<open>10\<^sup>9\<close> it stores 10000000 and departs from the
  formula. The stored integer is also not the rounding of the exact product: for the
  double nearest to 51.50000005 it is 515000001, where \<open>c \<times> 10\<^sup>7\<close> rounds to
  515000000.
\<close>

theorem lonlat2int_counterexample:
  "std_round (1 * 10 ^ 7 / real_of_int location_granularity) = 100000 \<and>
   lonlat2int constants_listed 1 = 100000 \<and>
   lonlat2int constants_nano 1 = 10000000 \<and>
   lonlat2int constants_nano (3623990328668133 / 2 ^ 46) = 515000001 \<and>
   std_round (3623990328668133 / 2 ^ 46 * 10 ^ 7) = 515000000"
  by (simp add: lonlat2int_values lonlat2int_rounds_twice std_round_def
      location_granularity_def)

section \<open>C5: the limit of 8000 entities\<close>

lemma add_nodes_without_strings:
  "\<forall>n \<in> set ns. object_tags n = [] \<Longrightarrow> \<not> md_user (add_metadata opts) \<Longrightarrow>
   DenseNodes_add_nodes K opts st dn ns = Inr r \<Longrightarrow> fst r = st"
  by (induction ns arbitrary: st dn)
     (auto simp add: add_nodes_Cons add_node_statements_columns split: if_splits)

lemma blob_ids_DenseNodes_blob: "blob_ids (DenseNodes_blob opts st dn) = m_ids dn"
  by (simp add: blob_ids_def DenseNodes_blob_def DenseNodes_serialize_def Let_def)

lemma init_cannot_add:
  "\<not> can_add K (m_primitive_block (PBFOutputFormat_init opts))
       PrimitiveGroup_optional_DenseNodes_dense"
  by (simp add: can_add_iff PBFOutputFormat_init_def PrimitiveBlock_new_def)

lemma init_flush:
  "store_primitive_block (PBFOutputFormat_init opts) = Inr (PBFOutputFormat_init opts)"
  by (simp add: store_primitive_block_def PBFOutputFormat_init_def PrimitiveBlock_new_def)

lemma numbered_split:
  assumes "map f (ns @ [n]) = map g [1..<Suc (Suc N)]" and "length ns = N"
  shows "map f ns = map g [1..<Suc N]" and "f n = g (Suc N)"
proof -
  have "[1..<Suc (Suc N)] = [1..<Suc N] @ [Suc N]" by simp
  with assms(1) have "map f ns @ [f n] = map g [1..<Suc N] @ [g (Suc N)]" by simp
  moreover have "length (map f ns) = length (map g [1..<Suc N])" using assms(2) by simp
  ultimately show "map f ns = map g [1..<Suc N]" and "f n = g (Suc N)" by simp_all
qed

lemma numbered_hd: "0 < N \<Longrightarrow> hd (map g [1..<Suc N]) = g 1"
  by (simp del: upt_Suc add: upt_conv_Cons)

lemma numbered_8000:
  assumes "map f (ns @ [n]) = map g [1..<8002]" and "length ns = 8000"
  shows "hd (map f ns) = g 1" and "f n = g 8001"
proof -
  have a: "(8002::nat) = Suc (Suc 8000)" and b: "(8001::nat) = Suc 8000" by simp_all
  from assms(1) have "map f (ns @ [n]) = map g [1..<Suc (Suc 8000)]" unfolding a .
  from numbered_split [OF this assms(2)] numbered_hd [of 8000 g]
  show "hd (map f ns) = g 1" and "f n = g 8001" unfolding b by simp_all
qed

text \<open>A stream of one to 8000 nodes within the size limit submits one job.\<close>

lemma submit_one_block:
  assumes dense: "use_dense_nodes opts"
    and some: "ns \<noteq> []" and most: "length ns \<le> 8000"
    and run: "DenseNodes_add_nodes K opts StringTable_new DenseNodes_new ns = Inr (st, dn)"
    and size: "StringTable_size st + 24 * length ns \<le> max_used_blob_size K"
  shows "write_buffer K (PBFOutputFormat_init opts) (map Node_entity ns) =
           Inr ((PBFOutputFormat_init opts)
                  \<lparr>m_primitive_block := dense_block st dn (int (length ns))\<rparr>)"
    and "submitted_jobs K opts ns = Inr [DenseNodes_blob opts st dn]"
proof -
  let ?init = "PBFOutputFormat_init opts"
  let ?enc = "?init\<lparr>m_primitive_block := dense_block st dn (int (length ns))\<rparr>"
  have o: "m_options ?init = opts" by (simp add: PBFOutputFormat_init_def)
  have "write_buffer K ?init (map Node_entity ns) =
          Inr (?init\<lparr>m_primitive_block := dense_block st dn (int (length ns)),
                      m_output_queue := m_output_queue ?init\<rparr>)"
    by (rule dense_run [OF _ init_cannot_add init_flush some most _ size])
       (simp_all add: o dense run)
  then show buffer: "write_buffer K ?init (map Node_entity ns) = Inr ?enc"
    by (simp add: PBFOutputFormat_init_def)
  have "int (length ns) \<noteq> 0" using some by simp
  from flush_dense_block [of ?enc st dn "int (length ns)", OF _ this]
  obtain enc1 where "store_primitive_block ?enc = Inr enc1"
    and "m_output_queue enc1 = m_output_queue ?enc @ [DenseNodes_blob (m_options ?enc) st dn]"
    by auto
  moreover have "m_output_queue ?enc = []" and "m_options ?enc = opts"
    by (simp_all add: PBFOutputFormat_init_def)
  ultimately have "write_end ?enc = Inr enc1"
    and "m_output_queue enc1 = [DenseNodes_blob opts st dn]"
    by (simp_all add: write_end_def)
  then show "submitted_jobs K opts ns = Inr [DenseNodes_blob opts st dn]"
    by (simp add: submitted_jobs_def buffer)
qed

text \<open>
  A block that is full, by its count or by its size, and a run of at most 8000 further
  nodes: two jobs.
\<close>

lemma submit_second_block:
  assumes dense: "use_dense_nodes opts"
    and first: "write_buffer K (PBFOutputFormat_init opts) (map Node_entity ns) =
        Inr ((PBFOutputFormat_init opts)\<lparr>m_primitive_block := dense_block st dn c\<rparr>)"
    and count: "c \<noteq> 0"
    and full: "\<not> (c < 8000 \<and> StringTable_size st + 24 * length (m_ids dn) < max_used_blob_size K)"
    and some: "ms \<noteq> []" and most: "length ms \<le> 8000"
    and run: "DenseNodes_add_nodes K opts StringTable_new DenseNodes_new ms = Inr (st2, dn2)"
    and size: "StringTable_size st2 + 24 * length ms \<le> max_used_blob_size K"
  shows "submitted_jobs K opts (ns @ ms) =
           Inr [DenseNodes_blob opts st dn, DenseNodes_blob opts st2 dn2]"
proof -
  let ?init = "PBFOutputFormat_init opts"
  let ?enc = "?init\<lparr>m_primitive_block := dense_block st dn c\<rparr>"
  have o: "m_options ?enc = opts" by (simp add: PBFOutputFormat_init_def)
  have cannot: "\<not> can_add K (m_primitive_block ?enc) PrimitiveGroup_optional_DenseNodes_dense"
    using full
    by (simp add: can_add_iff dense_block_def PrimitiveBlock_size_def serialized_def
        DenseNodes_size_def)
  from flush_dense_block [of ?enc st dn c, OF _ count]
  obtain enc1 where flush: "store_primitive_block ?enc = Inr enc1"
    and queue1: "m_output_queue enc1 = [DenseNodes_blob opts st dn]"
    by (auto simp add: PBFOutputFormat_init_def)
  let ?enc2 = "?enc\<lparr>m_primitive_block := dense_block st2 dn2 (int (length ms)),
                      m_output_queue := m_output_queue enc1\<rparr>"
  have second: "write_buffer K ?enc (map Node_entity ms) = Inr ?enc2"
    by (rule dense_run [OF _ cannot flush some most _ size]) (simp_all add: o dense run)
  have "int (length ms) \<noteq> 0" using some by simp
  from flush_dense_block [of ?enc2 st2 dn2 "int (length ms)", OF _ this]
  obtain enc3 where "store_primitive_block ?enc2 = Inr enc3"
    and "m_output_queue enc3 = [DenseNodes_blob opts st dn, DenseNodes_blob opts st2 dn2]"
    by (auto simp add: PBFOutputFormat_init_def queue1)
  then have "write_end ?enc2 = Inr enc3"
    and "m_output_queue enc3 = [DenseNodes_blob opts st dn, DenseNodes_blob opts st2 dn2]"
    by (simp_all add: write_end_def)
  moreover have "write_buffer K ?init (map Node_entity (ns @ ms)) = Inr ?enc2"
    by (simp add: write_buffer_append first second)
  ultimately show ?thesis
    by (simp add: submitted_jobs_def)
qed

text \<open>The size of a message: no more than ten bytes for a varint.\<close>

lemma add_length_delimited_length:
  "length (add_length_delimited tag data) \<le> 20 + length data"
  using write_varint_length [of "ucast (push_bit 3 tag OR 2 :: 32 word)"]
    write_varint_length [of "ucast (word_of_nat (length data) :: 32 word)"]
  by (simp add: add_length_delimited_def add_field_def)

lemma add_packed_length: "length (add_packed tag elements) \<le> 20 + length (concat elements)"
  using add_length_delimited_length [of tag "concat elements"] by (simp add: add_packed_def)

lemma varints_length: "length (concat (map (\<lambda>v. write_varint (f v)) vs)) \<le> 10 * length vs"
proof (induction vs)
  case Nil
  show ?case by simp
next
  case (Cons v vs)
  with write_varint_length [of "f v"] show ?case by simp
qed

lemma packed_sint64_length:
  "length (encode_field (add_packed_sint64 tag vs)) \<le> 20 + 10 * length vs"
  using add_packed_length [of tag "map (\<lambda>v. write_varint (encode_zigzag64 v)) vs"]
    varints_length [of encode_zigzag64 vs]
  by simp

lemma packed_int32_length:
  "length (encode_field (add_packed_int32 tag vs)) \<le> 20 + 10 * length vs"
  using add_packed_length [of tag "map (\<lambda>v. write_varint (scast v)) vs"]
    varints_length [of scast vs]
  by simp

lemma stringtable_length:
  "length (concat (map (\<lambda>s. encode_field (add_bytes tag (bytes_of s))) ss))
     \<le> sum_list (map (\<lambda>s. 20 + length s) ss)"
proof (induction ss)
  case Nil
  show ?case by simp
next
  case (Cons s ss)
  with add_length_delimited_length [of tag "bytes_of s"] show ?case
    by (simp add: bytes_of_def)
qed

lemma DenseNodes_blob_length:
  assumes "\<not> metadata_any (add_metadata opts)" and "\<not> add_visible_flag opts"
  shows "length (serialized (m_msg (DenseNodes_blob opts st dn)))
           \<le> 140 + sum_list (map (\<lambda>s. 20 + length s) (StringTable_strings st))
              + 10 * (length (m_ids dn) + length (m_lats dn) + length (m_lons dn)
                      + length (m_tags dn))"
proof -
  let ?table = "concat (map encode_field
      (map (\<lambda>s. add_bytes StringTable_repeated_bytes_s (bytes_of s)) (StringTable_strings st)))"
  let ?dense = "concat (map encode_field (DenseNodes_serialize opts dn))"
  have table: "length ?table \<le> sum_list (map (\<lambda>s. 20 + length s) (StringTable_strings st))"
    using stringtable_length [of StringTable_repeated_bytes_s "StringTable_strings st"]
    by (simp add: comp_def)
  have "?dense =
      encode_field (add_packed_sint64 DenseNodes_packed_sint64_id (m_ids dn)) @
      encode_field (add_packed_sint64 DenseNodes_packed_sint64_lat (m_lats dn)) @
      encode_field (add_packed_sint64 DenseNodes_packed_sint64_lon (m_lons dn)) @
      encode_field (add_packed_int32 DenseNodes_packed_int32_keys_vals (m_tags dn))"
    using assms by (simp add: DenseNodes_serialize_def Let_def del: encode_field.simps)
  then have dense: "length ?dense
      \<le> 80 + 10 * (length (m_ids dn) + length (m_lats dn) + length (m_lons dn)
                    + length (m_tags dn))"
    using packed_sint64_length [of DenseNodes_packed_sint64_id "m_ids dn"]
      packed_sint64_length [of DenseNodes_packed_sint64_lat "m_lats dn"]
      packed_sint64_length [of DenseNodes_packed_sint64_lon "m_lons dn"]
      packed_int32_length [of DenseNodes_packed_int32_keys_vals "m_tags dn"]
    by (simp del: encode_field.simps)
  have builder: "length (encode_field (pbf_builder PrimitiveBlock_required_StringTable_stringtable
        (map (\<lambda>s. add_bytes StringTable_repeated_bytes_s (bytes_of s)) (StringTable_strings st))))
      \<le> 20 + length ?table"
    using add_length_delimited_length
      [of PrimitiveBlock_required_StringTable_stringtable ?table]
    by simp
  have inner: "length (encode_field
        (add_message (PrimitiveGroup_tag PrimitiveGroup_optional_DenseNodes_dense)
           (DenseNodes_serialize opts dn))) \<le> 20 + length ?dense"
    using add_length_delimited_length
      [of "PrimitiveGroup_tag PrimitiveGroup_optional_DenseNodes_dense" ?dense]
    by simp
  have group: "length (encode_field
        (add_message PrimitiveBlock_repeated_PrimitiveGroup_primitivegroup
           [add_message (PrimitiveGroup_tag PrimitiveGroup_optional_DenseNodes_dense)
              (DenseNodes_serialize opts dn)]))
      \<le> 20 + length (encode_field
        (add_message (PrimitiveGroup_tag PrimitiveGroup_optional_DenseNodes_dense)
           (DenseNodes_serialize opts dn)))"
    using add_length_delimited_length
      [of PrimitiveBlock_repeated_PrimitiveGroup_primitivegroup
          "encode_field (add_message (PrimitiveGroup_tag PrimitiveGroup_optional_DenseNodes_dense)
             (DenseNodes_serialize opts dn))"]
    by simp
  have "length (serialized (m_msg (DenseNodes_blob opts st dn))) =
      length (encode_field (pbf_builder PrimitiveBlock_required_StringTable_stringtable
        (map (\<lambda>s. add_bytes StringTable_repeated_bytes_s (bytes_of s))
           (StringTable_strings st)))) +
      length (encode_field
        (add_message PrimitiveBlock_repeated_PrimitiveGroup_primitivegroup
           [add_message (PrimitiveGroup_tag PrimitiveGroup_optional_DenseNodes_dense)
              (DenseNodes_serialize opts dn)]))"
    by (simp add: serialized_def DenseNodes_blob_def del: encode_field.simps)
  with table dense builder inner group show ?thesis by linarith
qed

text \<open>A job without compression succeeds when its message is within the maximum size.\<close>

lemma raw_job_succeeds:
  assumes "m_use_compression job = pbf_compression_none"
    and "length (serialized (m_msg job)) \<le> max_uncompressed_blob_size K"
  shows "SerializeBlob_call K env job = Inr (projr (SerializeBlob_call K env job))"
proof -
  have "\<not> isl (SerializeBlob_call K env job)"
    using assms
    by (simp add: SerializeBlob_call_def SerializeBlob_bytes_def Blob_fields_def Let_def)
  then show ?thesis by simp
qed

lemma add_nodes_tags_length:
  assumes "DenseNodes_add_nodes K opts st dn ns = Inr r"
    and "\<forall>n \<in> set ns. object_tags n = []"
  shows "length (m_tags (snd r)) = length (m_tags dn) + length ns"
proof -
  from add_nodes_tags [OF assms(1)] obtain runs where
    tags: "m_tags (snd r) = m_tags dn @ concat (map (\<lambda>run. run @ [0]) runs)"
    and lengths: "map length runs = map (\<lambda>n. 2 * length (object_tags n)) ns"
    by blast
  from lengths have len: "length runs = length ns" by (metis length_map)
  from lengths assms(2) have "map length runs = map (\<lambda>n. 0) ns" by simp
  then have "\<forall>run \<in> set runs. run = []"
    by (metis (no_types, lifting) in_set_conv_nth len length_0_conv length_map nth_map)
  then have "concat (map (\<lambda>run. run @ [0]) runs) = replicate (length runs) (0::32 word)"
    by (induction runs) simp_all
  with tags len show ?thesis by simp
qed

text \<open>
  Claim C5, as the code has it. With dense nodes enabled, a stream of exactly 8000 nodes
  whose block stays within the size limit of \<open>can_add\<close> (the bytes of its string table
  and 24 bytes for each node) and whose job succeeds (the message passes the assertion
  on its size, and the compression does not fail) produces exactly one DenseNodes data
  blob. One more node produces exactly two: the first blob holds the first 8000 nodes,
  its ids array being their delta-encoded ids, of length 8000; the second holds the last
  node alone with its id undiminished, the delta encoder of the new block starting at
  zero. For the ids 1 to 8001 the first array starts with 1 and the second is \<open>[8001]\<close>.
\<close>

theorem dense_blocks_of_8000:
  assumes "use_dense_nodes opts"
    and "DenseNodes_add_nodes K opts StringTable_new DenseNodes_new ns = Inr (st, dn)"
    and "length ns = 8000"
    and "StringTable_size st + 24 * 8000 \<le> max_used_blob_size K"
    and "DenseNodes_add_node K opts StringTable_new DenseNodes_new n = Inr (st2, dn2)"
    and "SerializeBlob_call K env (DenseNodes_blob opts st dn) = Inr bytes"
    and "SerializeBlob_call K env (DenseNodes_blob opts st2 dn2) = Inr bytes2"
  shows "encode_nodes K env opts ns = Inr [(DenseNodes_blob opts st dn, bytes)] \<and>
         encode_nodes K env opts (ns @ [n]) =
           Inr [(DenseNodes_blob opts st dn, bytes), (DenseNodes_blob opts st2 dn2, bytes2)] \<and>
         blob_ids (DenseNodes_blob opts st dn) = delta_loop id 0 (map object_id ns) \<and>
         length (blob_ids (DenseNodes_blob opts st dn)) = 8000 \<and>
         blob_ids (DenseNodes_blob opts st2 dn2) = [object_id n] \<and>
         (map object_id (ns @ [n]) = map word_of_nat [1..<8002] \<longrightarrow>
            hd (blob_ids (DenseNodes_blob opts st dn)) = 1 \<and>
            blob_ids (DenseNodes_blob opts st2 dn2) = [8001])"
proof -
  from assms(3) have some: "ns \<noteq> []" and most: "length ns \<le> 8000" by auto
  from assms(3,4) have size: "StringTable_size st + 24 * length ns \<le> max_used_blob_size K"
    by simp
  note one_block = submit_one_block [OF assms(1) some most assms(2) size]
  have first: "write_buffer K (PBFOutputFormat_init opts) (map Node_entity ns) =
      Inr ((PBFOutputFormat_init opts)\<lparr>m_primitive_block := dense_block st dn 8000\<rparr>)"
    using one_block(1) assms(3) by simp
  let ?init = "PBFOutputFormat_init opts"
  let ?enc = "?init\<lparr>m_primitive_block := dense_block st dn 8000\<rparr>"
  have o: "m_options ?enc = opts" by (simp add: PBFOutputFormat_init_def)
  have full: "\<not> can_add K (m_primitive_block ?enc) PrimitiveGroup_optional_DenseNodes_dense"
    by (simp add: can_add_iff dense_block_def)
  from flush_dense_block [of ?enc st dn 8000]
  obtain enc1 where flush: "store_primitive_block ?enc = Inr enc1"
    and queue1: "m_output_queue enc1 = [DenseNodes_blob opts st dn]"
    by (auto simp add: PBFOutputFormat_init_def)
  let ?enc2 = "?enc\<lparr>m_primitive_block := dense_block st2 dn2 1,
                      m_output_queue := m_output_queue enc1\<rparr>"
  have last: "node K ?enc n = Inr ?enc2"
    by (rule node_starts_dense_block [OF _ full flush]) (simp_all add: o assms)
  from flush_dense_block [of ?enc2 st2 dn2 1]
  obtain enc3 where "store_primitive_block ?enc2 = Inr enc3"
    and "m_output_queue enc3 = [DenseNodes_blob opts st dn, DenseNodes_blob opts st2 dn2]"
    by (auto simp add: PBFOutputFormat_init_def queue1)
  then have "write_end ?enc2 = Inr enc3"
    and "m_output_queue enc3 = [DenseNodes_blob opts st dn, DenseNodes_blob opts st2 dn2]"
    by (simp_all add: write_end_def)
  moreover have "write_buffer K ?init (map Node_entity (ns @ [n])) = Inr ?enc2"
    by (simp add: write_buffer_append first last)
  ultimately have two: "submitted_jobs K opts (ns @ [n]) =
      Inr [DenseNodes_blob opts st dn, DenseNodes_blob opts st2 dn2]"
    by (simp add: submitted_jobs_def)
  from assms(5)
  have "(st2, dn2) = add_node_statements K opts StringTable_new DenseNodes_new n"
    by (simp add: add_node_Inr_iff)
  then have "dn2 = snd (add_node_statements K opts StringTable_new DenseNodes_new n)"
    by (metis snd_conv)
  then have ids2: "m_ids dn2 = [object_id n]"
    by (simp add: add_node_statements_columns DenseNodes_new_def)
  have ids: "m_ids dn = delta_loop id 0 (map object_id ns)"
    using add_nodes_ids [OF assms(2)] by (simp add: DenseNodes_new_def)
  have len: "length (m_ids dn) = 8000"
    using add_nodes_lengths(1) [OF assms(2)] assms(3) by (simp add: DenseNodes_new_def)
  have numbered: "hd (m_ids dn) = 1 \<and> m_ids dn2 = [8001]"
    if seq: "map object_id (ns @ [n]) = map word_of_nat [1..<8002]"
  proof -
    from numbered_8000 [OF seq assms(3)]
    have "hd (map object_id ns) = 1" and "object_id n = 8001" by simp_all
    moreover have "map object_id ns \<noteq> []" using some by simp
    ultimately show ?thesis
      unfolding ids ids2 using hd_delta_loop [of "map object_id ns"] by simp
  qed
  have "encode_nodes K env opts ns = Inr [(DenseNodes_blob opts st dn, bytes)]"
    by (simp add: encode_nodes_def one_block(2) assms(6))
  moreover have "encode_nodes K env opts (ns @ [n]) =
      Inr [(DenseNodes_blob opts st dn, bytes), (DenseNodes_blob opts st2 dn2, bytes2)]"
    by (simp add: encode_nodes_def two assms(6,7))
  ultimately show ?thesis
    using ids len ids2 numbered by (simp add: blob_ids_DenseNodes_blob)
qed

lemma sequential_run:
  "DenseNodes_add_nodes constants_nano no_metadata_options StringTable_new DenseNodes_new
     sequential_nodes = Inr (StringTable_new, sequential_dense)"
proof -
  have "\<forall>n \<in> set sequential_nodes.
          md_version (add_metadata no_metadata_options) \<longrightarrow> unat (object_version n) \<le> INT32_MAX"
    by (simp add: no_metadata_options_def)
  from add_nodes_succeeds [OF this]
  obtain r where r: "DenseNodes_add_nodes constants_nano no_metadata_options StringTable_new
      DenseNodes_new sequential_nodes = Inr r"
    by blast
  have "\<forall>n \<in> set sequential_nodes. object_tags n = []"
    by (auto simp add: sequential_nodes_def numbered_node_def single_node_def)
  moreover have "\<not> md_user (add_metadata no_metadata_options)"
    by (simp add: no_metadata_options_def)
  ultimately have "fst r = StringTable_new"
    using r by (rule add_nodes_without_strings)
  moreover have "snd r = sequential_dense"
    by (simp add: sequential_dense_def r)
  ultimately have "r = (StringTable_new, sequential_dense)"
    by (simp add: prod_eq_iff)
  with r show ?thesis by simp
qed

lemma thin_run:
  "DenseNodes_add_nodes constants_nano no_metadata_options StringTable_new DenseNodes_new
     (replicate 7999 single_node) = Inr (StringTable_new, thin_dense)"
proof -
  have "\<forall>n \<in> set (replicate 7999 single_node).
          md_version (add_metadata no_metadata_options) \<longrightarrow> unat (object_version n) \<le> INT32_MAX"
    by (simp add: no_metadata_options_def)
  from add_nodes_succeeds [OF this]
  obtain r where r: "DenseNodes_add_nodes constants_nano no_metadata_options StringTable_new
      DenseNodes_new (replicate 7999 single_node) = Inr r"
    by blast
  have "\<forall>n \<in> set (replicate 7999 single_node). object_tags n = []"
    by (simp add: single_node_def)
  moreover have "\<not> md_user (add_metadata no_metadata_options)"
    by (simp add: no_metadata_options_def)
  ultimately have "fst r = StringTable_new"
    using r by (rule add_nodes_without_strings)
  moreover have "snd r = thin_dense"
    by (simp add: thin_dense_def r)
  ultimately have "r = (StringTable_new, thin_dense)"
    by (simp add: prod_eq_iff)
  with r show ?thesis by simp
qed

lemma last_run:
  "DenseNodes_add_node constants_nano no_metadata_options StringTable_new DenseNodes_new
     (numbered_node 8001) = Inr (StringTable_new, last_dense)"
  unfolding DenseNodes_add_node_def add_node_statements_def Let_def
  by (simp add: no_metadata_options_def numbered_node_def single_node_def INT32_MAX_def
      StringTable_new_def DenseNodes_new_def push_defs DeltaEncode_update_def lonlat2int_values
      last_dense_def)

lemma fat_value_facts:
  "fat_value \<noteq> []" "fat_value \<noteq> ''k''" "''k'' \<noteq> fat_value" "length fat_value = 16000000"
proof -
  show l: "length fat_value = 16000000" by (simp add: fat_value_def)
  then show "fat_value \<noteq> []" by auto
  show k: "fat_value \<noteq> ''k''"
  proof
    assume "fat_value = ''k''"
    then have "length fat_value = length ''k''" by (rule arg_cong)
    with l show False by simp
  qed
  then show "''k'' \<noteq> fat_value" by (rule not_sym)
qed

lemma fat_run:
  "DenseNodes_add_node constants_nano no_metadata_options StringTable_new DenseNodes_new
     fat_node = Inr (fat_table, fat_dense)"
  unfolding DenseNodes_add_node_def add_node_statements_def Let_def
  by (simp add: no_metadata_options_def fat_node_def single_node_def INT32_MAX_def
      StringTable_new_def DenseNodes_new_def push_defs DeltaEncode_update_def lonlat2int_values
      StringTable_add_def fat_value_facts fat_table_def fat_dense_def)

lemma sequential_ids:
  "map object_id (sequential_nodes @ [numbered_node 8001]) = map word_of_nat [1..<8002]"
proof -
  have "[1..<Suc 8001] = [1..<8001] @ [8001]" by (rule upt_Suc_append) simp
  moreover have "Suc 8001 = 8002" by simp
  ultimately have "[1..<8002] = [1..<8001] @ [8001]" by (simp only:)
  then show ?thesis
    by (simp only: sequential_nodes_def map_append map_map list.map)
       (simp add: numbered_node_def comp_def del: upt_rec_numeral)
qed

lemma no_metadata_facts:
  "use_dense_nodes no_metadata_options"
  "\<not> metadata_any (add_metadata no_metadata_options)"
  "\<not> add_visible_flag no_metadata_options"
  "m_use_compression (DenseNodes_blob no_metadata_options st dn) = pbf_compression_none"
  by (simp_all add: no_metadata_options_def metadata_any_def DenseNodes_blob_def)

text \<open>The jobs of the example blocks succeed.\<close>

lemma example_jobs:
  "SerializeBlob_call constants_nano example_env
     (DenseNodes_blob no_metadata_options StringTable_new sequential_dense)
   = Inr (blob_bytes StringTable_new sequential_dense)"
  "SerializeBlob_call constants_nano example_env
     (DenseNodes_blob no_metadata_options StringTable_new last_dense)
   = Inr (blob_bytes StringTable_new last_dense)"
  "SerializeBlob_call constants_nano example_env
     (DenseNodes_blob no_metadata_options fat_table fat_dense)
   = Inr (blob_bytes fat_table fat_dense)"
  "SerializeBlob_call constants_nano example_env
     (DenseNodes_blob no_metadata_options StringTable_new thin_dense)
   = Inr (blob_bytes StringTable_new thin_dense)"
proof -
  note bound = DenseNodes_blob_length [OF no_metadata_facts(2,3)]
  have seq_tags: "\<forall>n \<in> set sequential_nodes. object_tags n = []"
    by (auto simp add: sequential_nodes_def numbered_node_def single_node_def)
  have thin_tags: "\<forall>n \<in> set (replicate 7999 single_node). object_tags n = []"
    by (simp add: single_node_def)
  have "length (serialized (m_msg (DenseNodes_blob no_metadata_options StringTable_new
          sequential_dense))) \<le> max_uncompressed_blob_size constants_nano"
    using bound [of StringTable_new sequential_dense]
      add_nodes_lengths(1-3) [OF sequential_run] add_nodes_tags_length [OF sequential_run seq_tags]
    by (simp add: StringTable_strings_def StringTable_new_def DenseNodes_new_def
        sequential_nodes_def constants_nano_def)
  then show "SerializeBlob_call constants_nano example_env
     (DenseNodes_blob no_metadata_options StringTable_new sequential_dense)
   = Inr (blob_bytes StringTable_new sequential_dense)"
    unfolding blob_bytes_def by (rule raw_job_succeeds [OF no_metadata_facts(4)])
  have "length (serialized (m_msg (DenseNodes_blob no_metadata_options StringTable_new
          last_dense))) \<le> max_uncompressed_blob_size constants_nano"
    using bound [of StringTable_new last_dense]
    by (simp add: StringTable_strings_def StringTable_new_def last_dense_def constants_nano_def)
  then show "SerializeBlob_call constants_nano example_env
     (DenseNodes_blob no_metadata_options StringTable_new last_dense)
   = Inr (blob_bytes StringTable_new last_dense)"
    unfolding blob_bytes_def by (rule raw_job_succeeds [OF no_metadata_facts(4)])
  have "length (serialized (m_msg (DenseNodes_blob no_metadata_options fat_table
          fat_dense))) \<le> max_uncompressed_blob_size constants_nano"
    using bound [of fat_table fat_dense]
    by (simp add: StringTable_strings_def fat_table_def fat_dense_def fat_value_facts
        constants_nano_def)
  then show "SerializeBlob_call constants_nano example_env
     (DenseNodes_blob no_metadata_options fat_table fat_dense)
   = Inr (blob_bytes fat_table fat_dense)"
    unfolding blob_bytes_def by (rule raw_job_succeeds [OF no_metadata_facts(4)])
  have "length (serialized (m_msg (DenseNodes_blob no_metadata_options StringTable_new
          thin_dense))) \<le> max_uncompressed_blob_size constants_nano"
    using bound [of StringTable_new thin_dense]
      add_nodes_lengths(1-3) [OF thin_run] add_nodes_tags_length [OF thin_run thin_tags]
    by (simp add: StringTable_strings_def StringTable_new_def DenseNodes_new_def
        constants_nano_def)
  then show "SerializeBlob_call constants_nano example_env
     (DenseNodes_blob no_metadata_options StringTable_new thin_dense)
   = Inr (blob_bytes StringTable_new thin_dense)"
    unfolding blob_bytes_def by (rule raw_job_succeeds [OF no_metadata_facts(4)])
qed

theorem dense_blocks_of_8000_witness:
  "use_dense_nodes no_metadata_options \<and>
   DenseNodes_add_nodes constants_nano no_metadata_options StringTable_new DenseNodes_new
     sequential_nodes = Inr (StringTable_new, sequential_dense) \<and>
   length sequential_nodes = 8000 \<and>
   StringTable_size StringTable_new + 24 * 8000 \<le> max_used_blob_size constants_nano \<and>
   DenseNodes_add_node constants_nano no_metadata_options StringTable_new DenseNodes_new
     (numbered_node 8001) = Inr (StringTable_new, last_dense) \<and>
   SerializeBlob_call constants_nano example_env
     (DenseNodes_blob no_metadata_options StringTable_new sequential_dense)
     = Inr (blob_bytes StringTable_new sequential_dense) \<and>
   SerializeBlob_call constants_nano example_env
     (DenseNodes_blob no_metadata_options StringTable_new last_dense)
     = Inr (blob_bytes StringTable_new last_dense) \<and>
   map object_id (sequential_nodes @ [numbered_node 8001]) = map word_of_nat [1..<8002] \<and>
   encode_nodes constants_nano example_env no_metadata_options sequential_nodes =
     Inr [(DenseNodes_blob no_metadata_options StringTable_new sequential_dense,
           blob_bytes StringTable_new sequential_dense)] \<and>
   encode_nodes constants_nano example_env no_metadata_options
       (sequential_nodes @ [numbered_node 8001]) =
     Inr [(DenseNodes_blob no_metadata_options StringTable_new sequential_dense,
           blob_bytes StringTable_new sequential_dense),
          (DenseNodes_blob no_metadata_options StringTable_new last_dense,
           blob_bytes StringTable_new last_dense)] \<and>
   length (blob_ids (DenseNodes_blob no_metadata_options StringTable_new sequential_dense))
     = 8000 \<and>
   hd (blob_ids (DenseNodes_blob no_metadata_options StringTable_new sequential_dense)) = 1 \<and>
   blob_ids (DenseNodes_blob no_metadata_options StringTable_new last_dense) = [8001]"
proof -
  have dense: "use_dense_nodes no_metadata_options"
    by (rule no_metadata_facts(1))
  have len: "length sequential_nodes = 8000"
    by (simp add: sequential_nodes_def)
  have size: "StringTable_size StringTable_new + 24 * 8000 \<le> max_used_blob_size constants_nano"
    by (simp add: StringTable_size_def StringTable_new_def max_used_blob_size_def
        constants_nano_def)
  from dense_blocks_of_8000
    [OF dense sequential_run len size last_run example_jobs(1) example_jobs(2)] sequential_ids
  have "encode_nodes constants_nano example_env no_metadata_options sequential_nodes =
          Inr [(DenseNodes_blob no_metadata_options StringTable_new sequential_dense,
                blob_bytes StringTable_new sequential_dense)]"
    and "encode_nodes constants_nano example_env no_metadata_options
           (sequential_nodes @ [numbered_node 8001]) =
          Inr [(DenseNodes_blob no_metadata_options StringTable_new sequential_dense,
                blob_bytes StringTable_new sequential_dense),
               (DenseNodes_blob no_metadata_options StringTable_new last_dense,
                blob_bytes StringTable_new last_dense)]"
    and "length (blob_ids (DenseNodes_blob no_metadata_options StringTable_new
           sequential_dense)) = 8000"
    and "hd (blob_ids (DenseNodes_blob no_metadata_options StringTable_new
           sequential_dense)) = 1"
    and "blob_ids (DenseNodes_blob no_metadata_options StringTable_new last_dense) = [8001]"
    by blast+
  with dense sequential_run len size last_run example_jobs(1) example_jobs(2) sequential_ids
  show ?thesis
    by (intro conjI)
qed

text \<open>
  The claim as stated gives one blob for every stream of exactly 8000 nodes. A block is
  also closed by its size: the first node of \<open>fat_stream\<close> brings the string table of
  its block to 16000004 bytes, above the limit of \<open>can_add\<close>, so the second node starts
  a new block, and the 8000 nodes give two blobs, with one node and with 7999 nodes.
\<close>

theorem dense_blocks_counterexample:
  "length fat_stream = 8000 \<and>
   use_dense_nodes no_metadata_options \<and>
   encode_nodes constants_nano example_env no_metadata_options fat_stream =
     Inr [(DenseNodes_blob no_metadata_options fat_table fat_dense,
           blob_bytes fat_table fat_dense),
          (DenseNodes_blob no_metadata_options StringTable_new thin_dense,
           blob_bytes StringTable_new thin_dense)] \<and>
   length (blob_ids (DenseNodes_blob no_metadata_options fat_table fat_dense)) = 1 \<and>
   length (blob_ids (DenseNodes_blob no_metadata_options StringTable_new thin_dense)) = 7999"
proof -
  have first: "write_buffer constants_nano (PBFOutputFormat_init no_metadata_options)
      (map Node_entity [fat_node]) =
      Inr ((PBFOutputFormat_init no_metadata_options)
             \<lparr>m_primitive_block := dense_block fat_table fat_dense 1\<rparr>)"
    using node_starts_dense_block [of "PBFOutputFormat_init no_metadata_options" constants_nano
        "PBFOutputFormat_init no_metadata_options" fat_node fat_table fat_dense,
        OF _ init_cannot_add init_flush]
    by (simp add: PBFOutputFormat_init_def no_metadata_facts(1) fat_run)
  have full: "\<not> ((1::int) < 8000 \<and>
      StringTable_size fat_table + 24 * length (m_ids fat_dense)
        < max_used_blob_size constants_nano)"
    by (simp add: StringTable_size_def fat_table_def fat_dense_def fat_value_facts
        max_used_blob_size_def constants_nano_def)
  have size: "StringTable_size StringTable_new + 24 * length (replicate 7999 single_node)
      \<le> max_used_blob_size constants_nano"
    by (simp add: StringTable_size_def StringTable_new_def max_used_blob_size_def
        constants_nano_def)
  have "submitted_jobs constants_nano no_metadata_options ([fat_node] @ replicate 7999 single_node)
      = Inr [DenseNodes_blob no_metadata_options fat_table fat_dense,
             DenseNodes_blob no_metadata_options StringTable_new thin_dense]"
    by (rule submit_second_block [OF no_metadata_facts(1) first _ full _ _ thin_run size])
       simp_all
  then have "encode_nodes constants_nano example_env no_metadata_options fat_stream =
     Inr [(DenseNodes_blob no_metadata_options fat_table fat_dense,
           blob_bytes fat_table fat_dense),
          (DenseNodes_blob no_metadata_options StringTable_new thin_dense,
           blob_bytes StringTable_new thin_dense)]"
    by (simp add: encode_nodes_def fat_stream_def example_jobs)
  moreover have "length (m_ids thin_dense) = 7999"
    using add_nodes_lengths(1) [OF thin_run] by (simp add: DenseNodes_new_def)
  ultimately show ?thesis
    by (simp add: blob_ids_DenseNodes_blob fat_stream_def no_metadata_facts(1) fat_dense_def)
qed

section \<open>C6: configuration errors\<close>

lemma strtol_end:
  assumes "s \<noteq> []"
  shows "snd (strtol s) = [] \<longleftrightarrow> integer_text s"
proof -
  define t where "t = dropWhile isspace s"
  define d where "d = (if t \<noteq> [] \<and> (hd t = CHR ''-'' \<or> hd t = CHR ''+'') then tl t else t)"
  have tw: "takeWhile isdigit d = [] \<longleftrightarrow> (d = [] \<or> \<not> isdigit (hd d))"
    by (cases d) simp_all
  have dw: "dropWhile isdigit d = [] \<longleftrightarrow> list_all isdigit d"
    by (simp add: dropWhile_eq_Nil_conv list_all_iff)
  have all_hd: "list_all isdigit d \<Longrightarrow> d \<noteq> [] \<Longrightarrow> isdigit (hd d)"
    by (cases d) simp_all
  have "snd (strtol s) = (if takeWhile isdigit d = [] then s else dropWhile isdigit d)"
    unfolding strtol_def Let_def d_def t_def by simp
  then have "snd (strtol s) = [] \<longleftrightarrow> d \<noteq> [] \<and> list_all isdigit d"
    using assms tw dw all_hd by (cases "takeWhile isdigit d = []") auto
  moreover have "integer_text s \<longleftrightarrow> d \<noteq> [] \<and> list_all isdigit d"
    unfolding integer_text_def Let_def d_def t_def by (simp add: disj_commute)
  ultimately show ?thesis by simp
qed

lemma get_compression_type_none:
  "get_compression_type env ''none'' = Inr pbf_compression_none"
  by (simp add: get_compression_type_def)

lemma get_compression_type_lz4:
  "get_compression_type env val = Inr pbf_compression_lz4 \<Longrightarrow> OSMIUM_WITH_LZ4 env"
  by (auto simp add: get_compression_type_def split: if_splits)

lemma get_compression_type_no_lz4:
  "\<not> OSMIUM_WITH_LZ4 env \<Longrightarrow> isl (get_compression_type env ''lz4'')"
  by (simp add: get_compression_type_def)

text \<open>The constructor, once the deprecated option is absent and the two parsers succeed.\<close>

lemma constructor_level:
  assumes "File_get file ''pbf_add_metadata'' = []"
    and "get_compression_type env (File_get file ''pbf_compression'') = Inr c"
    and "parse_metadata_options env (File_get file ''add_metadata'') = Inr md"
    and "File_get file ''pbf_compression_level'' \<noteq> []"
  shows "\<not> isl (PBFOutputFormat_new env file) \<longleftrightarrow>
           snd (strtol (c_str (File_get file ''pbf_compression_level''))) = [] \<and>
           (case c of
              pbf_compression_none \<Rightarrow> False
            | pbf_compression_zlib \<Rightarrow>
                zlib_level_in_range env (fst (strtol (c_str (File_get file ''pbf_compression_level''))))
            | pbf_compression_lz4 \<Rightarrow>
                OSMIUM_WITH_LZ4 env \<longrightarrow>
                lz4_level_in_range env (fst (strtol (c_str (File_get file ''pbf_compression_level'')))))"
  using assms
  by (cases c)
     (simp_all add: PBFOutputFormat_new_def Let_def split_def zlib_check_compression_level_def
        lz4_check_compression_level_def)

lemma constructor_fresh:
  assumes "PBFOutputFormat_new env file = Inr enc"
  shows "m_output_queue enc = [] \<and> m_primitive_block enc = PrimitiveBlock_new \<and>
         get_compression_type env (File_get file ''pbf_compression'')
           = Inr (use_compression (m_options enc))"
  using assms
  by (auto simp add: PBFOutputFormat_new_def Let_def split_def PBFOutputFormat_init_def
        zlib_check_compression_level_def lz4_check_compression_level_def
      split: if_splits sum.splits pbf_compression.splits)

lemma constructor_succeeds:
  assumes "\<not> isl (PBFOutputFormat_new env file)"
  shows "File_get file ''pbf_add_metadata'' = [] \<and>
         (\<exists>c. get_compression_type env (File_get file ''pbf_compression'') = Inr c) \<and>
         (\<exists>md. parse_metadata_options env (File_get file ''add_metadata'') = Inr md)"
  using assms
  by (auto simp add: PBFOutputFormat_new_def Let_def split: if_splits sum.splits)

text \<open>
  Claim C6, as the code has it. An option with an empty value is read as an option
  that is not set, and the compression level is read as a C string. Each configuration
  error makes the constructor end with an error: the deprecated option
  \<open>pbf_add_metadata\<close> with a value that is not empty; a compression level whose C
  string is not empty and not the text of an integer; a compression level that is not
  empty together with \<open>pbf_compression=none\<close>; a level out of the range of the
  selected codec; \<open>pbf_compression=lz4\<close> in a build without lz4. An encoder that the
  constructor returns has an empty output queue and a fresh block, and its compression
  is lz4 only in a build with lz4, so that no such error is left to a later call.
\<close>

theorem configuration_errors_in_constructor:
  "(File_get file ''pbf_add_metadata'' \<noteq> [] \<longrightarrow> isl (PBFOutputFormat_new env file)) \<and>
   (c_str (File_get file ''pbf_compression_level'') \<noteq> [] \<and>
    \<not> integer_text (c_str (File_get file ''pbf_compression_level''))
      \<longrightarrow> isl (PBFOutputFormat_new env file)) \<and>
   (File_get file ''pbf_compression_level'' \<noteq> [] \<and> File_get file ''pbf_compression'' = ''none''
      \<longrightarrow> isl (PBFOutputFormat_new env file)) \<and>
   (File_get file ''pbf_compression_level'' \<noteq> [] \<and>
    get_compression_type env (File_get file ''pbf_compression'') = Inr pbf_compression_zlib \<and>
    \<not> zlib_level_in_range env (fst (strtol (c_str (File_get file ''pbf_compression_level''))))
      \<longrightarrow> isl (PBFOutputFormat_new env file)) \<and>
   (File_get file ''pbf_compression_level'' \<noteq> [] \<and>
    get_compression_type env (File_get file ''pbf_compression'') = Inr pbf_compression_lz4 \<and>
    \<not> lz4_level_in_range env (fst (strtol (c_str (File_get file ''pbf_compression_level''))))
      \<longrightarrow> isl (PBFOutputFormat_new env file)) \<and>
   (File_get file ''pbf_compression'' = ''lz4'' \<and> \<not> OSMIUM_WITH_LZ4 env
      \<longrightarrow> isl (PBFOutputFormat_new env file)) \<and>
   (PBFOutputFormat_new env file = Inr enc \<longrightarrow>
      m_output_queue enc = [] \<and> m_primitive_block enc = PrimitiveBlock_new \<and>
      (use_compression (m_options enc) = pbf_compression_lz4 \<longrightarrow> OSMIUM_WITH_LZ4 env))"
proof (intro conjI impI)
  assume "File_get file ''pbf_add_metadata'' \<noteq> []"
  then show "isl (PBFOutputFormat_new env file)"
    by (simp add: PBFOutputFormat_new_def)
next
  assume a: "c_str (File_get file ''pbf_compression_level'') \<noteq> [] \<and>
             \<not> integer_text (c_str (File_get file ''pbf_compression_level''))"
  show "isl (PBFOutputFormat_new env file)"
  proof (rule ccontr)
    assume n: "\<not> isl (PBFOutputFormat_new env file)"
    from constructor_succeeds [OF n] obtain c md where
      ok: "File_get file ''pbf_add_metadata'' = []"
        "get_compression_type env (File_get file ''pbf_compression'') = Inr c"
        "parse_metadata_options env (File_get file ''add_metadata'') = Inr md"
      by blast
    from a have "File_get file ''pbf_compression_level'' \<noteq> []"
      by (auto simp add: c_str_def)
    from constructor_level [OF ok this] n
    have "snd (strtol (c_str (File_get file ''pbf_compression_level''))) = []" by simp
    with a strtol_end [of "c_str (File_get file ''pbf_compression_level'')"] show False by simp
  qed
next
  assume a: "File_get file ''pbf_compression_level'' \<noteq> [] \<and>
             File_get file ''pbf_compression'' = ''none''"
  show "isl (PBFOutputFormat_new env file)"
  proof (rule ccontr)
    assume n: "\<not> isl (PBFOutputFormat_new env file)"
    from constructor_succeeds [OF n] obtain c md where
      ok: "File_get file ''pbf_add_metadata'' = []"
        "get_compression_type env (File_get file ''pbf_compression'') = Inr c"
        "parse_metadata_options env (File_get file ''add_metadata'') = Inr md"
      by blast
    from ok(2) a have c: "c = pbf_compression_none"
      by (simp add: get_compression_type_none)
    from a have "File_get file ''pbf_compression_level'' \<noteq> []" by simp
    from constructor_level [OF ok this] n c show False by simp
  qed
next
  assume a: "File_get file ''pbf_compression_level'' \<noteq> [] \<and>
    get_compression_type env (File_get file ''pbf_compression'') = Inr pbf_compression_zlib \<and>
    \<not> zlib_level_in_range env (fst (strtol (c_str (File_get file ''pbf_compression_level''))))"
  show "isl (PBFOutputFormat_new env file)"
  proof (rule ccontr)
    assume n: "\<not> isl (PBFOutputFormat_new env file)"
    from constructor_succeeds [OF n] obtain md where
      ok: "File_get file ''pbf_add_metadata'' = []"
        "parse_metadata_options env (File_get file ''add_metadata'') = Inr md"
      by blast
    from a have "File_get file ''pbf_compression_level'' \<noteq> []"
      and c: "get_compression_type env (File_get file ''pbf_compression'')
              = Inr pbf_compression_zlib"
      by simp_all
    from constructor_level [OF ok(1) c ok(2) this(1)] n a show False by simp
  qed
next
  assume a: "File_get file ''pbf_compression_level'' \<noteq> [] \<and>
    get_compression_type env (File_get file ''pbf_compression'') = Inr pbf_compression_lz4 \<and>
    \<not> lz4_level_in_range env (fst (strtol (c_str (File_get file ''pbf_compression_level''))))"
  show "isl (PBFOutputFormat_new env file)"
  proof (rule ccontr)
    assume n: "\<not> isl (PBFOutputFormat_new env file)"
    from constructor_succeeds [OF n] obtain md where
      ok: "File_get file ''pbf_add_metadata'' = []"
        "parse_metadata_options env (File_get file ''add_metadata'') = Inr md"
      by blast
    from a have "File_get file ''pbf_compression_level'' \<noteq> []"
      and c: "get_compression_type env (File_get file ''pbf_compression'')
              = Inr pbf_compression_lz4"
      by simp_all
    from constructor_level [OF ok(1) c ok(2) this(1)] n a get_compression_type_lz4 [OF c]
    show False by simp
  qed
next
  assume a: "File_get file ''pbf_compression'' = ''lz4'' \<and> \<not> OSMIUM_WITH_LZ4 env"
  show "isl (PBFOutputFormat_new env file)"
  proof (rule ccontr)
    assume n: "\<not> isl (PBFOutputFormat_new env file)"
    from constructor_succeeds [OF n] obtain c where
      "get_compression_type env (File_get file ''pbf_compression'') = Inr c"
      by blast
    with a get_compression_type_no_lz4 [of env] show False by simp
  qed
next
  assume r: "PBFOutputFormat_new env file = Inr enc"
  from constructor_fresh [OF r] show "m_output_queue enc = []" by simp
  from constructor_fresh [OF r] show "m_primitive_block enc = PrimitiveBlock_new" by simp
  assume "use_compression (m_options enc) = pbf_compression_lz4"
  with constructor_fresh [OF r] show "OSMIUM_WITH_LZ4 env"
    by (auto dest: get_compression_type_lz4)
qed

theorem configuration_errors_in_constructor_witness:
  "PBFOutputFormat_new example_env (file_with [(''pbf_add_metadata'', ''all'')]) =
     Inl (invalid_argument
       ''The 'pbf_add_metadata' option is deprecated. Please use 'add_metadata' instead.'') \<and>
   PBFOutputFormat_new example_env (file_with [(''pbf_compression_level'', ''fast'')]) =
     Inl (invalid_argument ''The 'pbf_compression_level' option must be an integer.'') \<and>
   PBFOutputFormat_new example_env
       (file_with [(''pbf_compression'', ''none''), (''pbf_compression_level'', ''5'')]) =
     Inl (invalid_argument
       ''The 'pbf_compression_level' option doesn't make sense without 'pbf_compression' set.'') \<and>
   PBFOutputFormat_new example_env (file_with [(''pbf_compression_level'', ''12'')]) =
     Inl (invalid_argument ''The pbf_compression_level for zlib compression is out of range.'') \<and>
   PBFOutputFormat_new example_env_lz4
       (file_with [(''pbf_compression'', ''lz4''), (''pbf_compression_level'', ''0'')]) =
     Inl (invalid_argument ''The pbf_compression_level for lz4 compression is out of range.'') \<and>
   PBFOutputFormat_new example_env (file_with [(''pbf_compression'', ''lz4'')]) =
     Inl (invalid_argument ''Support for LZ4 compression not compiled in'') \<and>
   \<not> isl (PBFOutputFormat_new example_env (file_with [(''pbf_compression_level'', ''9'')]))"
proof -
  have strtol_values: "strtol ''fast'' = (0, ''fast'')" "strtol ''5'' = (5, [])"
    "strtol ''12'' = (12, [])" "strtol ''0'' = (0, [])" "strtol ''9'' = (9, [])"
    by (simp_all add: strtol_def isspace_def isdigit_def digits_value_def Let_def)
  note evaluate = file_with_def File_get_def example_env_def example_env_lz4_def
    get_compression_type_def c_str_def strtol_values integer_text_def isdigit_def
  have deprecated:
    "isl (PBFOutputFormat_new example_env (file_with [(''pbf_add_metadata'', ''all'')]))"
    using configuration_errors_in_constructor
      [of "file_with [(''pbf_add_metadata'', ''all'')]" example_env]
    by (simp add: evaluate)
  have no_integer:
    "isl (PBFOutputFormat_new example_env (file_with [(''pbf_compression_level'', ''fast'')]))"
    using configuration_errors_in_constructor
      [of "file_with [(''pbf_compression_level'', ''fast'')]" example_env]
    by (simp add: evaluate)
  have no_compression:
    "isl (PBFOutputFormat_new example_env
       (file_with [(''pbf_compression'', ''none''), (''pbf_compression_level'', ''5'')]))"
    using configuration_errors_in_constructor
      [of "file_with [(''pbf_compression'', ''none''), (''pbf_compression_level'', ''5'')]"
          example_env]
    by (simp add: evaluate)
  have zlib_range:
    "isl (PBFOutputFormat_new example_env (file_with [(''pbf_compression_level'', ''12'')]))"
    using configuration_errors_in_constructor
      [of "file_with [(''pbf_compression_level'', ''12'')]" example_env]
    by (simp add: evaluate)
  have lz4_range:
    "isl (PBFOutputFormat_new example_env_lz4
       (file_with [(''pbf_compression'', ''lz4''), (''pbf_compression_level'', ''0'')]))"
    using configuration_errors_in_constructor
      [of "file_with [(''pbf_compression'', ''lz4''), (''pbf_compression_level'', ''0'')]"
          example_env_lz4]
    by (simp add: evaluate)
  have no_lz4:
    "isl (PBFOutputFormat_new example_env (file_with [(''pbf_compression'', ''lz4'')]))"
    using configuration_errors_in_constructor
      [of "file_with [(''pbf_compression'', ''lz4'')]" example_env]
    by (simp add: evaluate)
  from deprecated no_integer no_compression zlib_range lz4_range no_lz4 show ?thesis
    by (simp add: PBFOutputFormat_new_def evaluate Let_def is_true_def
        is_not_false_def zlib_check_compression_level_def lz4_check_compression_level_def)
qed

text \<open>
  The claim as stated counts an option that is present, or set, as an error. An option
  that is present with an empty value raises nothing: the deprecated option, and the
  compression level together with \<open>pbf_compression=none\<close>. Nor is every level that
  is not an integer refused: of the level \<open>5\<close>, NUL, \<open>x\<close> the constructor reads the C
  string \<open>5\<close>.
\<close>

theorem configuration_errors_counterexample:
  "file_options (file_with [(''pbf_add_metadata'', [])]) ''pbf_add_metadata'' = Some [] \<and>
   \<not> isl (PBFOutputFormat_new example_env (file_with [(''pbf_add_metadata'', [])])) \<and>
   file_options (file_with [(''pbf_compression'', ''none''), (''pbf_compression_level'', [])])
     ''pbf_compression_level'' = Some [] \<and>
   \<not> isl (PBFOutputFormat_new example_env
          (file_with [(''pbf_compression'', ''none''), (''pbf_compression_level'', [])])) \<and>
   \<not> integer_text [CHR ''5'', CHR 0x00, CHR ''x''] \<and>
   \<not> isl (PBFOutputFormat_new example_env
          (file_with [(''pbf_compression_level'', [CHR ''5'', CHR 0x00, CHR ''x''])]))"
proof -
  have "strtol ''5'' = (5, [])"
    by (simp add: strtol_def isspace_def isdigit_def digits_value_def Let_def)
  then show ?thesis
    by (simp add: PBFOutputFormat_new_def file_with_def File_get_def example_env_def
        get_compression_type_def c_str_def integer_text_def isspace_def isdigit_def Let_def
        is_true_def is_not_false_def zlib_check_compression_level_def)
qed

section \<open>C7: the columns of a DenseNodes buffer\<close>

text \<open>
  Claim C7. After any sequence of \<open>add_node\<close> calls on a fresh buffer, the columns
  \<open>ids\<close>, \<open>lats\<close> and \<open>lons\<close> have one element for each node, and so has each metadata
  column that the options enable. The tag array is, for each node in turn, a run of two
  string-table indices for each tag of the node followed by a single 0. The indices of
  the runs refer to strings of the table, so while the table has fewer than \<open>2\<^sup>32\<close>
  strings no run contains a 0 and the array holds exactly one 0 for each node.
\<close>

theorem add_nodes_columns:
  assumes "DenseNodes_add_nodes K opts st DenseNodes_new ns = Inr (st', dn)"
  shows "length (m_ids dn) = length ns \<and> length (m_lats dn) = length ns \<and>
         length (m_lons dn) = length ns \<and>
         (md_version (add_metadata opts) \<longrightarrow> length (m_versions dn) = length ns) \<and>
         (md_timestamp (add_metadata opts) \<longrightarrow> length (m_timestamps dn) = length ns) \<and>
         (md_changeset (add_metadata opts) \<longrightarrow> length (m_changesets dn) = length ns) \<and>
         (md_uid (add_metadata opts) \<longrightarrow> length (m_uids dn) = length ns) \<and>
         (md_user (add_metadata opts) \<longrightarrow> length (m_user_sids dn) = length ns) \<and>
         (add_visible_flag opts \<longrightarrow> length (m_visibles dn) = length ns) \<and>
         (\<exists>runs. m_tags dn = concat (map (\<lambda>run. run @ [0]) runs) \<and>
                 map length runs = map (\<lambda>n. 2 * length (object_tags n)) ns \<and>
                 (\<forall>run \<in> set runs. set run \<subseteq> set (StringTable_indices st')) \<and>
                 (length (entries st') < 2 ^ 32 \<longrightarrow>
                    (\<forall>run \<in> set runs. 0 \<notin> set run) \<and>
                    count_list (m_tags dn) 0 = length ns))"
proof -
  note len = add_nodes_lengths [OF assms]
  from add_nodes_tags [OF assms] obtain runs where
    runs: "m_tags dn = concat (map (\<lambda>run. run @ [0]) runs)"
      "map length runs = map (\<lambda>n. 2 * length (object_tags n)) ns"
      "\<forall>run \<in> set runs. set run \<subseteq> set (StringTable_indices st')"
    by (auto simp add: DenseNodes_new_def)
  have sentinel: "(\<forall>run \<in> set runs. 0 \<notin> set run) \<and> count_list (m_tags dn) 0 = length ns"
    if small: "length (entries st') < 2 ^ 32"
  proof -
    have nz: "\<forall>run \<in> set runs. 0 \<notin> set run"
      using runs(3) StringTable_indices_nonzero [OF small] by blast
    have "length runs = length ns"
      using runs(2) by (metis length_map)
    with count_list_runs [OF nz] runs(1) nz show ?thesis by simp
  qed
  have tags: "\<exists>runs. m_tags dn = concat (map (\<lambda>run. run @ [0]) runs) \<and>
                 map length runs = map (\<lambda>n. 2 * length (object_tags n)) ns \<and>
                 (\<forall>run \<in> set runs. set run \<subseteq> set (StringTable_indices st')) \<and>
                 (length (entries st') < 2 ^ 32 \<longrightarrow>
                    (\<forall>run \<in> set runs. 0 \<notin> set run) \<and>
                    count_list (m_tags dn) 0 = length ns)"
    using runs sentinel by blast
  show ?thesis
    using len tags by (simp add: DenseNodes_new_def)
qed

theorem add_nodes_columns_witness:
  "DenseNodes_add_nodes constants_nano all_options StringTable_new DenseNodes_new
     [node_a, node_b] = Inr (table_ab, dense_ab) \<and>
   length (m_ids dense_ab) = 2 \<and> length (m_lats dense_ab) = 2 \<and> length (m_lons dense_ab) = 2 \<and>
   length (m_versions dense_ab) = 2 \<and> length (m_timestamps dense_ab) = 2 \<and>
   length (m_changesets dense_ab) = 2 \<and> length (m_uids dense_ab) = 2 \<and>
   length (m_user_sids dense_ab) = 2 \<and> length (m_visibles dense_ab) = 2 \<and>
   length (entries table_ab) < 2 ^ 32 \<and> count_list (m_tags dense_ab) 0 = 2"
  using add_nodes_columns [OF add_nodes_ab] add_nodes_ab
  by (auto simp add: all_options_def table_ab_def)

section \<open>C8: the node references of a way\<close>

lemma delta_decode_loop: "delta_decode v (delta_loop id v xs) = (xs :: 64 word list)"
  by (induction xs arbitrary: v) (simp_all add: DeltaEncode_update_def)

lemma way_10_written:
  "way K (PBFOutputFormat_init no_metadata_options) way_10 =
     Inr ((PBFOutputFormat_init no_metadata_options)\<lparr>m_primitive_block := way_10_block\<rparr>)"
proof -
  have sw: "switch_primitive_block_type K (PBFOutputFormat_init no_metadata_options)
              PrimitiveGroup_repeated_Way_ways
            = Inr ((PBFOutputFormat_init no_metadata_options)
                \<lparr>m_primitive_block := reset PrimitiveBlock_new PrimitiveGroup_repeated_Way_ways\<rparr>)"
    by (simp add: switch_primitive_block_type_def can_add_def PBFOutputFormat_init_def
        PrimitiveBlock_new_def store_primitive_block_def)
  have meta: "add_meta no_metadata_options Way_enum_type \<lparr>entries = []\<rparr> way_10
              = Inr (\<lparr>entries = [''highway'', ''residential'']\<rparr>,
                     [add_packed_uint32 Way_packed_uint32_keys [1],
                      add_packed_uint32 Way_packed_uint32_vals [2]])"
    by (simp add: add_meta_def no_metadata_options_def metadata_any_def way_10_def
        Way_enum_type_def StringTable_add_def)
  have refs: "delta_loop id 0 (map node_ref_ref (way_nodes way_10)) = [100, 1, 2 :: 64 word]"
    by (simp add: way_10_def DeltaEncode_update_def)
  show ?thesis
    unfolding way_def sw
    by (simp add: PBFOutputFormat_init_def reset_def PrimitiveBlock_new_def
        StringTable_clear_def StringTable_new_def group_add_def way_10_block_def
        meta [unfolded no_metadata_options_def] no_metadata_options_def refs)
       (simp add: way_10_def)
qed

text \<open>
  Claim C8. For every way that is written, the Way message that the encoder appends to
  the group consists of the id, the fields of \<open>add_meta\<close>, then the packed sint64 field
  \<open>refs\<close> and, only with \<open>locations_on_ways\<close>, two more fields. The \<open>refs\<close> field holds
  the node references delta-encoded from zero: its prefix sums from zero are the
  references, and its first element is the first reference. The way with id 10,
  references 100, 101, 103 and the tag (highway, residential), written first without
  metadata and without locations, gives \<open>keys = [1]\<close>, \<open>vals = [2]\<close>,
  \<open>refs = [100, 1, 2]\<close> and the string table \<open>["", "highway", "residential"]\<close>.
\<close>

theorem way_refs_delta_encoded:
  assumes "way K enc w = Inr enc'"
  shows "(\<exists>before meta locations.
            m_pbf_primitive_group_data (m_primitive_block enc') =
              before @
              [pbf_builder (PrimitiveGroup_tag PrimitiveGroup_repeated_Way_ways)
                 ([add_int64 Way_required_int64_id (object_id w)] @ meta @
                  [add_packed_sint64 Way_packed_sint64_refs
                     (delta_loop id 0 (map node_ref_ref (way_nodes w)))] @ locations)] \<and>
            (\<not> locations_on_ways (m_options enc) \<longrightarrow> locations = [])) \<and>
         delta_decode 0 (delta_loop id 0 (map node_ref_ref (way_nodes w)))
           = map node_ref_ref (way_nodes w) \<and>
         (way_nodes w \<noteq> [] \<longrightarrow>
            hd (delta_loop id 0 (map node_ref_ref (way_nodes w))) = node_ref_ref (hd (way_nodes w))) \<and>
         way K (PBFOutputFormat_init no_metadata_options) way_10 =
           Inr ((PBFOutputFormat_init no_metadata_options)\<lparr>m_primitive_block := way_10_block\<rparr>) \<and>
         StringTable_strings (m_stringtable way_10_block) = [[], ''highway'', ''residential'']"
proof -
  from assms obtain enc1 where
    sw: "switch_primitive_block_type K enc PrimitiveGroup_repeated_Way_ways = Inr enc1"
    by (auto simp add: way_def split: sum.splits)
  have opts: "m_options enc1 = m_options enc"
    using sw
    by (auto simp add: switch_primitive_block_type_def store_primitive_block_def submit_def
        Let_def split: if_splits sum.splits)
  from assms sw obtain st meta where
    meta: "add_meta (m_options enc1) Way_enum_type (m_stringtable (m_primitive_block enc1)) w
           = Inr (st, meta)"
    by (auto simp add: way_def split: sum.splits)
  let ?refs = "add_packed_sint64 Way_packed_sint64_refs
                 (delta_loop id 0 (map node_ref_ref (way_nodes w)))"
  let ?locs = "if locations_on_ways (m_options enc1)
      then [add_packed_sint64 Way_packed_sint64_lon
              (delta_loop id 0
                 (map (\<lambda>r. lonlat2int K (lon_without_check (node_ref_location r))) (way_nodes w))),
            add_packed_sint64 Way_packed_sint64_lat
              (delta_loop id 0
                 (map (\<lambda>r. lonlat2int K (lat_without_check (node_ref_location r))) (way_nodes w)))]
      else []"
  have "m_pbf_primitive_group_data (m_primitive_block enc') =
          m_pbf_primitive_group_data (m_primitive_block enc1) @
          [pbf_builder (PrimitiveGroup_tag PrimitiveGroup_repeated_Way_ways)
             ([add_int64 Way_required_int64_id (object_id w)] @ meta @ [?refs] @ ?locs)]"
    using assms by (simp add: way_def sw meta Let_def group_add_def split: if_splits) auto
  moreover have "\<not> locations_on_ways (m_options enc) \<longrightarrow> ?locs = []"
    by (simp add: opts)
  ultimately have first: "\<exists>before meta locations.
            m_pbf_primitive_group_data (m_primitive_block enc') =
              before @
              [pbf_builder (PrimitiveGroup_tag PrimitiveGroup_repeated_Way_ways)
                 ([add_int64 Way_required_int64_id (object_id w)] @ meta @
                  [add_packed_sint64 Way_packed_sint64_refs
                     (delta_loop id 0 (map node_ref_ref (way_nodes w)))] @ locations)] \<and>
            (\<not> locations_on_ways (m_options enc) \<longrightarrow> locations = [])"
    by blast
  have hd: "way_nodes w \<noteq> [] \<longrightarrow>
      hd (delta_loop id 0 (map node_ref_ref (way_nodes w))) = node_ref_ref (hd (way_nodes w))"
    using hd_delta_loop [of "map node_ref_ref (way_nodes w)"] by (simp add: hd_map)
  show ?thesis
    using first hd delta_decode_loop [of 0 "map node_ref_ref (way_nodes w)"] way_10_written [of K]
    by (simp add: way_10_block_def StringTable_strings_def)
qed

theorem way_refs_delta_encoded_witness:
  "way constants_nano (PBFOutputFormat_init no_metadata_options) way_10 =
     Inr ((PBFOutputFormat_init no_metadata_options)\<lparr>m_primitive_block := way_10_block\<rparr>) \<and>
   \<not> locations_on_ways (m_options (PBFOutputFormat_init no_metadata_options)) \<and>
   way_nodes way_10 \<noteq> [] \<and>
   delta_decode 0 (delta_loop id 0 (map node_ref_ref (way_nodes way_10))) = [100, 101, 103] \<and>
   hd (delta_loop id 0 (map node_ref_ref (way_nodes way_10))) = 100"
  using way_refs_delta_encoded [OF way_10_written [of constants_nano]]
  by (simp add: way_10_def PBFOutputFormat_init_def no_metadata_options_def)

section \<open>C9: timestamps pass through 32 bits\<close>

lemma unat_ucast_32_64:
  "unat (ucast (ucast (t :: 64 word) :: 32 word) :: 64 word) = unat t mod 2 ^ 32"
  by (simp add: unsigned_ucast_eq take_bit_eq_mod unat_mod_distrib)

lemma delta_decode_loop_ucast:
  "delta_decode (ucast v) (delta_loop ucast v xs) = map ucast (xs :: 32 word list)"
  for v :: "32 word"
  by (induction xs arbitrary: v) (simp_all add: DeltaEncode_update_def)

lemma Info_statements_fields:
  "snd (Info_statements opts st obj) =
     map snd (filter fst
       [(md_version (add_metadata opts),
           add_int32 Info_optional_int32_version (object_version obj)),
        (md_timestamp (add_metadata opts),
           add_int64 Info_optional_int64_timestamp
             (ucast (ucast (object_timestamp obj) :: 32 word))),
        (md_changeset (add_metadata opts),
           add_int64 Info_optional_int64_changeset (ucast (object_changeset obj))),
        (md_uid (add_metadata opts), add_int32 Info_optional_int32_uid (object_uid obj)),
        (md_user (add_metadata opts),
           add_uint32 Info_optional_uint32_user_sid (fst (StringTable_add st (object_user obj)))),
        (add_visible_flag opts, add_bool Info_optional_bool_visible (object_visible obj))])"
  by (simp add: Info_statements_def Let_def split_def)

lemma add_meta_timestamp:
  assumes "md_timestamp (add_metadata opts)"
    and "add_meta opts T st obj = Inr (st', fs)"
  shows "\<exists>info. last fs = pbf_builder (optional_Info_info T) info \<and>
           add_int64 Info_optional_int64_timestamp
             (ucast (ucast (object_timestamp obj) :: 32 word)) \<in> set info"
proof -
  let ?st2 = "fst (store_all_in_stringtable
                 (fst (store_all_in_stringtable st (map fst (object_tags obj))))
                 (map snd (object_tags obj)))"
  from assms(1) have any: "metadata_any (add_metadata opts)" by (simp add: metadata_any_def)
  from assms(2) have "last fs = pbf_builder (optional_Info_info T)
                        (snd (Info_statements opts ?st2 obj))"
    by (auto simp add: add_meta_def Let_def split_def any split: if_splits)
  moreover have "add_int64 Info_optional_int64_timestamp
       (ucast (ucast (object_timestamp obj) :: 32 word)) \<in> set (snd (Info_statements opts ?st2 obj))"
    unfolding Info_statements_fields using assms(1) by simp
  ultimately show ?thesis by blast
qed

lemma write_header_timestamp:
  assumes "header_get header ''osmosis_replication_timestamp'' \<noteq> []"
    and "parse_Timestamp env (header_get header ''osmosis_replication_timestamp'') = Inr ts"
    and "write_header K env enc header = Inr enc'"
  shows "m_output_queue enc' \<noteq> [] \<and>
         add_int64 HeaderBlock_optional_int64_osmosis_replication_timestamp
           (ucast (ucast ts :: 32 word)) \<in> set (m_msg (last (m_output_queue enc')))"
  using assms
  by (auto simp add: write_header_def Let_def submit_def split: if_splits)

lemma add_meta_node_b:
  "add_meta all_options Node_enum_type StringTable_new node_b =
     Inr (\<lparr>entries = [''amenity'', ''bench'', ''bob'']\<rparr>,
          [add_packed_uint32 Node_packed_uint32_keys [1],
           add_packed_uint32 Node_packed_uint32_vals [2],
           pbf_builder Node_optional_Info_info
             [add_int32 Info_optional_int32_version 1,
              add_int64 Info_optional_int64_timestamp 705032704,
              add_int64 Info_optional_int64_changeset 9,
              add_int32 Info_optional_int32_uid 4,
              add_uint32 Info_optional_uint32_user_sid 3,
              add_bool Info_optional_bool_visible False]])"
  unfolding add_meta_def Info_statements_def Let_def
  by (simp add: all_options_def node_b_def INT32_MAX_def metadata_any_def Node_enum_type_def
      StringTable_new_def StringTable_add_def)

lemma write_example_header:
  "write_header constants_nano example_env (PBFOutputFormat_init all_options) example_header
     = Inr header_written"
  unfolding write_header_def HeaderBlock_statements_def Let_def
  by (simp add: example_header_def example_env_def PBFOutputFormat_init_def all_options_def
      submit_def header_written_def)

text \<open>
  Claim C9. Wherever the encoder writes a timestamp, the value written is the timestamp
  modulo \<open>2\<^sup>32\<close>: the timestamp field of the Info message that \<open>add_meta\<close> writes, the
  prefix sums of the delta-encoded timestamps column of DenseNodes, and the replication
  timestamp of the header, each when the encoder writes it at all.
\<close>

theorem timestamps_through_uint32:
  "(md_timestamp (add_metadata opts) \<longrightarrow> add_meta opts T st obj = Inr (st', fs) \<longrightarrow>
      (\<exists>info v. last fs = pbf_builder (optional_Info_info T) info \<and>
                add_int64 Info_optional_int64_timestamp v \<in> set info \<and>
                unat v = unat (object_timestamp obj) mod 2 ^ 32)) \<and>
   (md_timestamp (add_metadata opts) \<longrightarrow>
    DenseNodes_add_nodes K opts st DenseNodes_new ns = Inr (st'', dn) \<longrightarrow>
      m_timestamps dn =
        delta_loop ucast 0 (map (\<lambda>n. ucast (object_timestamp n) :: 32 word) ns) \<and>
      map unat (delta_decode 0 (m_timestamps dn)) =
        map (\<lambda>n. unat (object_timestamp n) mod 2 ^ 32) ns) \<and>
   (header_get header ''osmosis_replication_timestamp'' \<noteq> [] \<longrightarrow>
    parse_Timestamp env (header_get header ''osmosis_replication_timestamp'') = Inr ts \<longrightarrow>
    write_header K env enc header = Inr enc' \<longrightarrow>
      (\<exists>v. add_int64 HeaderBlock_optional_int64_osmosis_replication_timestamp v
              \<in> set (m_msg (last (m_output_queue enc'))) \<and>
           unat v = unat ts mod 2 ^ 32))"
proof (intro conjI impI)
  assume "md_timestamp (add_metadata opts)" and "add_meta opts T st obj = Inr (st', fs)"
  from add_meta_timestamp [OF this] unat_ucast_32_64 [of "object_timestamp obj"]
  show "\<exists>info v. last fs = pbf_builder (optional_Info_info T) info \<and>
                add_int64 Info_optional_int64_timestamp v \<in> set info \<and>
                unat v = unat (object_timestamp obj) mod 2 ^ 32"
    by blast
next
  assume md: "md_timestamp (add_metadata opts)"
    and run: "DenseNodes_add_nodes K opts st DenseNodes_new ns = Inr (st'', dn)"
  from add_nodes_timestamps [OF run md]
  show col: "m_timestamps dn =
      delta_loop ucast 0 (map (\<lambda>n. ucast (object_timestamp n) :: 32 word) ns)"
    by (simp add: DenseNodes_new_def)
  have "delta_decode 0 (m_timestamps dn) =
      map ucast (map (\<lambda>n. ucast (object_timestamp n) :: 32 word) ns)"
    unfolding col
    using delta_decode_loop_ucast [of 0 "map (\<lambda>n. ucast (object_timestamp n) :: 32 word) ns"]
    by simp
  then show "map unat (delta_decode 0 (m_timestamps dn)) =
      map (\<lambda>n. unat (object_timestamp n) mod 2 ^ 32) ns"
    by (simp add: unat_ucast_32_64 comp_def)
next
  assume "header_get header ''osmosis_replication_timestamp'' \<noteq> []"
    and "parse_Timestamp env (header_get header ''osmosis_replication_timestamp'') = Inr ts"
    and "write_header K env enc header = Inr enc'"
  from write_header_timestamp [OF this] unat_ucast_32_64 [of ts]
  show "\<exists>v. add_int64 HeaderBlock_optional_int64_osmosis_replication_timestamp v
              \<in> set (m_msg (last (m_output_queue enc'))) \<and>
           unat v = unat ts mod 2 ^ 32"
    by blast
qed

theorem timestamps_through_uint32_witness:
  "md_timestamp (add_metadata all_options) \<and>
   unat (object_timestamp node_b) = 5000000000 \<and>
   \<not> isl (add_meta all_options Node_enum_type StringTable_new node_b) \<and>
   DenseNodes_add_nodes constants_nano all_options StringTable_new DenseNodes_new
     [node_a, node_b] = Inr (table_ab, dense_ab) \<and>
   map unat (delta_decode 0 (m_timestamps dense_ab)) = [1500000000, 705032704] \<and>
   header_get example_header ''osmosis_replication_timestamp'' \<noteq> [] \<and>
   parse_Timestamp example_env (header_get example_header ''osmosis_replication_timestamp'')
     = Inr 5000000000 \<and>
   write_header constants_nano example_env (PBFOutputFormat_init all_options) example_header
     = Inr header_written \<and>
   add_int64 HeaderBlock_optional_int64_osmosis_replication_timestamp 705032704
     \<in> set (m_msg (last (m_output_queue header_written)))"
proof -
  have md: "md_timestamp (add_metadata all_options)"
    by (simp add: all_options_def)
  have hdr: "header_get example_header ''osmosis_replication_timestamp'' \<noteq> []"
    by (simp add: example_header_def)
  have parse: "parse_Timestamp example_env
      (header_get example_header ''osmosis_replication_timestamp'') = Inr 5000000000"
    by (simp add: example_env_def)
  from timestamps_through_uint32 [where opts = all_options and K = constants_nano
      and st = StringTable_new and ns = "[node_a, node_b]" and st'' = table_ab
      and dn = dense_ab] md add_nodes_ab
  have "map unat (delta_decode 0 (m_timestamps dense_ab)) =
      map (\<lambda>n. unat (object_timestamp n) mod 2 ^ 32) [node_a, node_b]"
    by blast
  then have col: "map unat (delta_decode 0 (m_timestamps dense_ab)) = [1500000000, 705032704]"
    by (simp add: node_a_def node_b_def)
  have ts: "unat (object_timestamp node_b) = 5000000000"
    by (simp add: node_b_def)
  have mem: "add_int64 HeaderBlock_optional_int64_osmosis_replication_timestamp 705032704
     \<in> set (m_msg (last (m_output_queue header_written)))"
    by (simp add: header_written_def)
  have meta: "\<not> isl (add_meta all_options Node_enum_type StringTable_new node_b)"
    by (simp add: add_meta_node_b)
  from md ts meta add_nodes_ab col hdr parse write_example_header mem show ?thesis
    by (intro conjI)
qed

end
